(* ===== verification/Prelude.thy ===== *)
theory Prelude
  imports Complex_Main "HOL-Library.Word" "HOL-Library.Signed_Division" "HOL-Library.Code_Target_Numeral"
begin

text \<open>
  Shared vocabulary of the development: the named collections the component proofs
  use, the model of C++ \<open>int\<close> (32-bit two's complement, wrapping as the compiled code
  does), Qt's \<open>qBound\<close>, and generic lemmas on lists and integers that several
  components need.
\<close>

named_theorems model_defs "definitions of the model that component proofs unfold"
named_theorems qt_eval "evaluation rules of the Qt library model"

subsection \<open>C++ int\<close>

type_synonym int32 = "32 word"

definition int32_min :: int where
  "int32_min = -2147483648"

definition int32_max :: int where
  "int32_max = 2147483647"

definition in_int32 :: "int \<Rightarrow> bool" where
  "in_int32 x \<longleftrightarrow> int32_min \<le> x \<and> x \<le> int32_max"

text \<open>
  \<open>wrap32 x\<close> is the value a 32-bit \<open>int\<close> holds after an arithmetic result \<open>x\<close>
  is stored: the compiled code wraps (signed overflow is undefined in C++, the target
  compiler wraps).
\<close>

definition wrap32 :: "int \<Rightarrow> int" where
  "wrap32 x = sint (word_of_int x :: int32)"

text \<open>
  \<open>qint64\<close> arithmetic wraps at 64 bits in the same way; C++ integer division truncates
  towards zero, which is \<open>sdiv\<close> of \<open>HOL-Library.Signed_Division\<close>.
\<close>

type_synonym int64 = "64 word"

definition wrap64 :: "int \<Rightarrow> int" where
  "wrap64 x = sint (word_of_int x :: int64)"

text \<open>Qt's \<open>qBound(min, val, max)\<close> is \<open>qMax(min, qMin(max, val))\<close>.\<close>

definition qBound :: "int \<Rightarrow> int \<Rightarrow> int \<Rightarrow> int" where
  "qBound lo v hi = max lo (min hi v)"

lemma wrap32_id [simp]: "in_int32 x \<Longrightarrow> wrap32 x = x"
  unfolding wrap32_def in_int32_def int32_min_def int32_max_def
  by (simp add: sint_sbintrunc' signed_take_bit_int_eq_self)

lemma wrap32_in_int32 [simp]: "in_int32 (wrap32 x)"
proof -
  have "- (2 ^ 31) \<le> sint (word_of_int x :: int32)"
    using sint_ge [where x = "word_of_int x :: int32"] by simp
  moreover have "sint (word_of_int x :: int32) < 2 ^ 31"
    using sint_lt [where x = "word_of_int x :: int32"] by simp
  ultimately show ?thesis
    by (simp add: in_int32_def int32_min_def int32_max_def wrap32_def)
qed

lemma wrap64_id: "- (2 ^ 63) \<le> x \<Longrightarrow> x < 2 ^ 63 \<Longrightarrow> wrap64 x = x"
  unfolding wrap64_def by (simp add: sint_sbintrunc' signed_take_bit_int_eq_self)

lemma qBound_bounds [intro]:
  "lo \<le> hi \<Longrightarrow> lo \<le> qBound lo v hi \<and> qBound lo v hi \<le> hi"
  by (simp add: qBound_def)

lemma qBound_inside [simp]: "lo \<le> v \<Longrightarrow> v \<le> hi \<Longrightarrow> qBound lo v hi = v"
  by (simp add: qBound_def)

lemma qBound_mono: "v \<le> w \<Longrightarrow> qBound lo v hi \<le> qBound lo w hi"
  by (simp add: qBound_def)

subsection \<open>Lists\<close>

lemma sum_list_map_nonneg [intro]:
  "(\<And>x. x \<in> set xs \<Longrightarrow> (0::real) \<le> f x) \<Longrightarrow> 0 \<le> sum_list (map f xs)"
  by (induction xs) (auto intro: add_nonneg_nonneg)

lemma sum_list_map_le_length:
  "(\<And>x. x \<in> set xs \<Longrightarrow> f x \<le> (1::real)) \<Longrightarrow> sum_list (map f xs) \<le> real (length xs)"
proof (induction xs)
  case Nil
  then show ?case by simp
next
  case (Cons a xs)
  then have "f a \<le> 1" and "sum_list (map f xs) \<le> real (length xs)" by auto
  then show ?case by simp
qed

end
