(* ===== verification/QtLib.thy ===== *)
theory QtLib
  imports Prelude
begin

text \<open>
  The Qt library functions the source calls on \<open>QString\<close>, modelled from Qt's
  documented behaviour on ASCII text (the alignment log and the track files are ASCII):
  \<open>trimmed\<close>, \<open>startsWith\<close>, \<open>split\<close> (keeping or skipping empty parts),
  \<open>section(sep, 0, 0)\<close>, \<open>toUpper\<close>, \<open>toInt\<close>, \<open>toDouble\<close>, fixed-point output of
  \<open>QTextStream\<close> with precision 6, and \<open>QTextStream::readLine\<close>. Whitespace is
  \<open>QChar::isSpace\<close> on ASCII: tab, line feed, vertical tab, form feed, carriage return
  and space. \<open>toDouble\<close> is modelled on the plain decimal forms
  \<open>[+-]digits[.digits]\<close>; exponent forms and \<open>inf\<close>/\<open>nan\<close> are read as a failed
  conversion.
\<close>

subsection \<open>Characters\<close>

definition is_space :: "char \<Rightarrow> bool" where
  "is_space c \<longleftrightarrow> (let n = (of_char c :: nat) in n = 32 \<or> (9 \<le> n \<and> n \<le> 13))"

definition is_digit :: "char \<Rightarrow> bool" where
  "is_digit c \<longleftrightarrow> (let n = (of_char c :: nat) in 48 \<le> n \<and> n \<le> 57)"

definition is_alpha :: "char \<Rightarrow> bool" where
  "is_alpha c \<longleftrightarrow> (let n = (of_char c :: nat) in (65 \<le> n \<and> n \<le> 90) \<or> (97 \<le> n \<and> n \<le> 122))"

definition to_upper_char :: "char \<Rightarrow> char" where
  "to_upper_char c = (let n = (of_char c :: nat) in if 97 \<le> n \<and> n \<le> 122 then char_of (n - 32) else c)"

definition digit_val :: "char \<Rightarrow> nat" where
  "digit_val c = of_char c - 48"

subsection \<open>QString operations\<close>

definition trimmed :: "string \<Rightarrow> string" where
  "trimmed s = rev (dropWhile is_space (rev (dropWhile is_space s)))"

definition starts_with :: "string \<Rightarrow> string \<Rightarrow> bool" where
  "starts_with pre s \<longleftrightarrow> take (length pre) s = pre"

text \<open>\<open>QString::split\<close> with \<open>Qt::KeepEmptyParts\<close>: every separator ends a part.\<close>

fun split_keep :: "(char \<Rightarrow> bool) \<Rightarrow> string \<Rightarrow> string list" where
  "split_keep p [] = [[]]"
| "split_keep p (c # cs) =
     (if p c then [] # split_keep p cs
      else (case split_keep p cs of [] \<Rightarrow> [[c]] | w # ws \<Rightarrow> (c # w) # ws))"

text \<open>\<open>QString::split\<close> with \<open>Qt::SkipEmptyParts\<close>.\<close>

definition split_skip_empty :: "(char \<Rightarrow> bool) \<Rightarrow> string \<Rightarrow> string list" where
  "split_skip_empty p s = filter (\<lambda>w. w \<noteq> []) (split_keep p s)"

text \<open>\<open>QString::section(sep, 0, 0)\<close>: the text before the first separator.\<close>

definition section_first :: "char \<Rightarrow> string \<Rightarrow> string" where
  "section_first sep s = takeWhile (\<lambda>c. c \<noteq> sep) s"

definition to_upper :: "string \<Rightarrow> string" where
  "to_upper s = map to_upper_char s"

subsection \<open>Number conversion\<close>

definition digits_val :: "string \<Rightarrow> nat" where
  "digits_val ds = foldl (\<lambda>n c. 10 * n + digit_val c) 0 ds"

text \<open>Sign handling shared by \<open>toInt\<close> and \<open>toDouble\<close>.\<close>

definition split_sign :: "string \<Rightarrow> int \<times> string" where
  "split_sign t = (case t of
      [] \<Rightarrow> (1, [])
    | c # r \<Rightarrow> if c = CHR ''-'' then (-1, r) else if c = CHR ''+'' then (1, r) else (1, t))"

text \<open>
  \<open>QString::toInt(bool *ok)\<close>: \<open>None\<close> is \<open>*ok = false\<close>, where \<open>toInt\<close> returns 0.
  Surrounding whitespace is ignored; the value must fit a 32-bit \<open>int\<close>.
\<close>

definition qstring_toInt_opt :: "string \<Rightarrow> int option" where
  "qstring_toInt_opt s =
     (let (sg, ds) = split_sign (trimmed s); v = sg * int (digits_val ds)
      in if ds \<noteq> [] \<and> list_all is_digit ds \<and> in_int32 v then Some v else None)"

definition qstring_toInt :: "string \<Rightarrow> int" where
  "qstring_toInt s = (case qstring_toInt_opt s of None \<Rightarrow> 0 | Some v \<Rightarrow> v)"

definition decimal_val :: "string \<Rightarrow> string \<Rightarrow> real" where
  "decimal_val ip fp = real (digits_val ip) + real (digits_val fp) / 10 ^ length fp"

definition qstring_toDouble_opt :: "string \<Rightarrow> real option" where
  "qstring_toDouble_opt s =
     (let (sg, ds) = split_sign (trimmed s);
          ip = takeWhile is_digit ds; rest = dropWhile is_digit ds
      in if ip = [] then None
         else (case rest of
                 [] \<Rightarrow> Some (of_int sg * decimal_val ip [])
               | c # fp \<Rightarrow> if c = CHR ''.'' \<and> list_all is_digit fp
                           then Some (of_int sg * decimal_val ip fp) else None))"

definition qstring_toDouble :: "string \<Rightarrow> real" where
  "qstring_toDouble s = (case qstring_toDouble_opt s of None \<Rightarrow> 0 | Some v \<Rightarrow> v)"

subsection \<open>Output\<close>

fun show_nat :: "nat \<Rightarrow> string" where
  "show_nat n = (if n < 10 then [char_of (48 + n)] else show_nat (n div 10) @ [char_of (48 + n mod 10)])"

declare show_nat.simps [simp del]

definition show_int :: "int \<Rightarrow> string" where
  "show_int i = (if i < 0 then CHR ''-'' # show_nat (nat (- i)) else show_nat (nat i))"

text \<open>
  \<open>QTextStream\<close> in \<open>FixedNotation\<close> with precision 6, as \<open>printf("%.6f")\<close>: the
  magnitude rounded to millionths (ties away from zero), and a minus sign for every
  negative value, also one that rounds to zero.
\<close>

definition micro_units :: "real \<Rightarrow> nat" where
  "micro_units x = nat \<lfloor>\<bar>x\<bar> * 10 ^ 6 + 1 / 2\<rfloor>"

definition pad6 :: "nat \<Rightarrow> string" where
  "pad6 k = replicate (6 - length (show_nat k)) CHR ''0'' @ show_nat k"

definition fmt_fixed6 :: "real \<Rightarrow> string" where
  "fmt_fixed6 x =
     (let m = micro_units x
      in (if x < 0 then ''-'' else '''') @ show_nat (m div 10 ^ 6) @ ''.'' @ pad6 (m mod 10 ^ 6))"

text \<open>The value \<open>toDouble\<close> reads back from \<open>fmt_fixed6 x\<close>.\<close>

definition quantize6 :: "real \<Rightarrow> real" where
  "quantize6 x = (if x < 0 then - 1 else 1) * real (micro_units x) / 10 ^ 6"

text \<open>
  \<open>QTextStream::readLine\<close> until \<open>atEnd\<close>: the text split at line feeds, with no
  empty last line after a final line feed.
\<close>

definition text_lines :: "string \<Rightarrow> string list" where
  "text_lines s = (let ls = split_keep (\<lambda>c. c = CHR ''\<newline>'') s
                   in if last ls = [] then butlast ls else ls)"

text \<open>
  \<open>QTextStream::readLine\<close> on the unread rest of a stream: the text up to the next line
  feed, and the rest after it; \<open>atEnd\<close> is the rest being empty.
\<close>

definition readLine :: "string \<Rightarrow> string \<times> string" where
  "readLine s = (takeWhile (\<lambda>c. c \<noteq> CHR ''\<newline>'') s, drop 1 (dropWhile (\<lambda>c. c \<noteq> CHR ''\<newline>'') s))"

text \<open>
  \<open>QString::number(x, 'f', prec)\<close>: fixed notation with \<open>prec\<close> decimals, in the same
  rounding convention as \<open>fmt_fixed6\<close>.
\<close>

definition fmt_fixed :: "nat \<Rightarrow> real \<Rightarrow> string" where
  "fmt_fixed prec x =
     (let m = nat \<lfloor>\<bar>x\<bar> * 10 ^ prec + 1 / 2\<rfloor>; d = show_nat (m mod 10 ^ prec)
      in (if x < 0 then ''-'' else '''') @ show_nat (m div 10 ^ prec) @
         (if prec = 0 then [] else CHR ''.'' # replicate (prec - length d) CHR ''0'' @ d))"

subsection \<open>QVariant\<close>

text \<open>
  The kinds of \<open>QVariant\<close> the code stores and reads: invalid, \<open>int\<close>, \<open>double\<close> and
  \<open>QString\<close>, with the conversions \<open>toInt\<close> and \<open>toDouble\<close> (a double is rounded by
  \<open>qRound\<close>, ties away from zero; an invalid variant converts to 0).
\<close>

datatype qvariant = QInvalid | QInt int | QDouble real | QString string

definition qRound :: "real \<Rightarrow> int" where
  "qRound d = (if 0 \<le> d then \<lfloor>d + 1 / 2\<rfloor> else \<lceil>d - 1 / 2\<rceil>)"

fun qvariant_isValid :: "qvariant \<Rightarrow> bool" where
  "qvariant_isValid QInvalid = False"
| "qvariant_isValid _ = True"

fun qvariant_toInt :: "qvariant \<Rightarrow> int" where
  "qvariant_toInt QInvalid = 0"
| "qvariant_toInt (QInt i) = i"
| "qvariant_toInt (QDouble d) = qRound d"
| "qvariant_toInt (QString s) = qstring_toInt s"

fun qvariant_toDouble :: "qvariant \<Rightarrow> real" where
  "qvariant_toDouble QInvalid = 0"
| "qvariant_toDouble (QInt i) = real_of_int i"
| "qvariant_toDouble (QDouble d) = d"
| "qvariant_toDouble (QString s) = qstring_toDouble s"

subsection \<open>QMediaPlayer\<close>

text \<open>
  The part of \<open>QMediaPlayer\<close> the widget drives, after Qt's documentation: its source (the
  local file, empty for none), its playback state and its position in milliseconds.
  \<open>setSource\<close> stops playback at position 0; \<open>play\<close> and \<open>pause\<close> need a source; \<open>stop\<close>
  resets the position to the beginning; \<open>setPosition\<close> seeks.
\<close>

datatype playback_state = StoppedState | PlayingState | PausedState

record media_player =
  mp_source :: string
  mp_state :: playback_state
  mp_position :: int

definition init_player :: media_player where
  "init_player = \<lparr>mp_source = [], mp_state = StoppedState, mp_position = 0\<rparr>"

definition mp_setSource :: "string \<Rightarrow> media_player \<Rightarrow> media_player" where
  "mp_setSource url p = p\<lparr>mp_source := url, mp_state := StoppedState, mp_position := 0\<rparr>"

definition mp_play :: "media_player \<Rightarrow> media_player" where
  "mp_play p = (if mp_source p = [] then p else p\<lparr>mp_state := PlayingState\<rparr>)"

definition mp_pause :: "media_player \<Rightarrow> media_player" where
  "mp_pause p = (if mp_source p = [] then p else p\<lparr>mp_state := PausedState\<rparr>)"

definition mp_stop :: "media_player \<Rightarrow> media_player" where
  "mp_stop p = p\<lparr>mp_state := StoppedState, mp_position := 0\<rparr>"

definition mp_setPosition :: "int \<Rightarrow> media_player \<Rightarrow> media_player" where
  "mp_setPosition ms p = p\<lparr>mp_position := ms\<rparr>"

subsection \<open>Round trips of the conversions\<close>

lemma digit_char [simp]: "(d::nat) < 10 \<Longrightarrow> is_digit (char_of (48 + d))"
  by (simp add: is_digit_def)

lemma digit_val_char [simp]: "(d::nat) < 10 \<Longrightarrow> digit_val (char_of (48 + d)) = d"
  by (simp add: digit_val_def)

lemma digits_val_append: "digits_val (xs @ ys) = digits_val xs * 10 ^ length ys + digits_val ys"
proof (induction ys rule: rev_induct)
  case Nil
  then show ?case by (simp add: digits_val_def)
next
  case (snoc y ys)
  then show ?case by (simp add: digits_val_def algebra_simps)
qed

lemma show_nat_nonempty [simp]: "show_nat n \<noteq> []"
  by (subst show_nat.simps) simp

lemma show_nat_digits [simp]: "list_all is_digit (show_nat n)"
proof (induction n rule: show_nat.induct)
  case (1 n)
  then show ?case by (subst show_nat.simps) simp
qed

lemma digits_val_show_nat [simp]: "digits_val (show_nat n) = n"
proof (induction n rule: show_nat.induct)
  case (1 n)
  show ?case
  proof (cases "n < 10")
    case True
    then show ?thesis by (subst show_nat.simps) (simp add: digits_val_def)
  next
    case False
    with "1.IH" have "digits_val (show_nat (n div 10)) = n div 10" by simp
    with False show ?thesis by (subst show_nat.simps) (simp add: digits_val_append digits_val_def)
  qed
qed

lemma length_show_nat_le: "n < 10 ^ k \<Longrightarrow> 0 < k \<Longrightarrow> length (show_nat n) \<le> k"
proof (induction n arbitrary: k rule: show_nat.induct)
  case (1 n)
  show ?case
  proof (cases "n < 10")
    case True
    with "1.prems" show ?thesis by (subst show_nat.simps) simp
  next
    case False
    obtain j where k: "k = Suc j"
      using "1.prems"(2) by (cases k) auto
    have j: "0 < j"
    proof (rule ccontr)
      assume "\<not> 0 < j"
      with k "1.prems"(1) have "n < 10" by simp
      with False show False by simp
    qed
    have "n div 10 < 10 ^ j"
      using "1.prems"(1) k by (simp add: less_mult_imp_div_less mult.commute)
    with "1.IH" False j have "length (show_nat (n div 10)) \<le> j" by simp
    with False k show ?thesis by (subst show_nat.simps) simp
  qed
qed

lemma digit_not_space [simp]: "is_digit c \<Longrightarrow> \<not> is_space c"
  by (simp add: is_digit_def is_space_def Let_def)

lemma show_nat_hd_last [simp]:
  "is_digit (hd (show_nat n))" "is_digit (last (show_nat n))"
proof -
  have "show_nat n \<noteq> []" "list_all is_digit (show_nat n)" by simp_all
  then show "is_digit (hd (show_nat n))" "is_digit (last (show_nat n))"
    by (auto simp: list_all_iff)
qed

lemma trimmed_space_cons:
  assumes "s \<noteq> []" "\<not> is_space (hd s)" "\<not> is_space (last s)"
  shows "trimmed (CHR '' '' # s) = s"
proof -
  have sp: "is_space (CHR '' '')" by (simp add: is_space_def)
  have "dropWhile is_space s = s" using assms(1,2) by (cases s) auto
  moreover have "dropWhile is_space (rev s) = rev s"
    using assms(1,3) by (cases "rev s") (auto simp: last_rev[symmetric])
  ultimately show ?thesis using sp by (simp add: trimmed_def)
qed

lemma split_sign_digit [simp]: "ds \<noteq> [] \<Longrightarrow> is_digit (hd ds) \<Longrightarrow> split_sign ds = (1, ds)"
  by (cases ds) (auto simp: split_sign_def is_digit_def)

lemma split_sign_minus [simp]: "split_sign (CHR ''-'' # ds) = (-1, ds)"
  by (simp add: split_sign_def)

lemma minus_not_space [simp]: "\<not> is_space (CHR ''-'')"
  by (simp add: is_space_def)

lemma show_int_trim [simp]: "trimmed (CHR '' '' # show_int i) = show_int i"
  by (rule trimmed_space_cons) (auto simp: show_int_def)

lemma trimmed_id:
  "s \<noteq> [] \<Longrightarrow> \<not> is_space (hd s) \<Longrightarrow> \<not> is_space (last s) \<Longrightarrow> trimmed s = s"
  by (cases s) (auto simp: trimmed_def dropWhile_eq_self_iff last_rev[symmetric] hd_rev
      simp del: last_rev)

lemma show_int_trim_self [simp]: "trimmed (show_int i) = show_int i"
  by (rule trimmed_id) (auto simp: show_int_def)

lemma qstring_toInt_trimmed_show_int:
  assumes "in_int32 i" "trimmed s = show_int i"
  shows "qstring_toInt_opt s = Some i"
proof (cases "i < 0")
  case True
  then show ?thesis using assms by (simp add: qstring_toInt_opt_def) (simp add: show_int_def)
next
  case False
  then show ?thesis using assms by (simp add: qstring_toInt_opt_def) (simp add: show_int_def)
qed

lemma digits_val_zeros [simp]: "digits_val (replicate n (CHR ''0'') @ s) = digits_val s"
proof -
  have "digits_val (replicate n (CHR ''0'')) = 0"
    by (induction n) (simp_all add: digits_val_def digit_val_def replicate_append_same[symmetric])
  then show ?thesis by (simp add: digits_val_append)
qed

lemma pad6_props:
  assumes "k < 10 ^ 6"
  shows "length (pad6 k) = 6" "digits_val (pad6 k) = k"
    "list_all is_digit (pad6 k)" "pad6 k \<noteq> []" "is_digit (last (pad6 k))"
proof -
  have "length (show_nat k) \<le> 6" using assms by (rule length_show_nat_le) simp
  then show "length (pad6 k) = 6" by (simp add: pad6_def)
  show "digits_val (pad6 k) = k" by (simp add: pad6_def)
  have "is_digit (CHR ''0'')" by (simp add: is_digit_def)
  then show "list_all is_digit (pad6 k)"
    using show_nat_digits[of k] by (auto simp: pad6_def list_all_iff)
  show "pad6 k \<noteq> []" by (simp add: pad6_def)
  show "is_digit (last (pad6 k))" by (simp add: pad6_def)
qed

lemma fmt_fixed6_body:
  "fmt_fixed6 x = (if x < 0 then ''-'' else '''') @ show_nat (micro_units x div 10 ^ 6) @
     CHR ''.'' # pad6 (micro_units x mod 10 ^ 6)"
  by (simp add: fmt_fixed6_def Let_def)

lemma dot_not_digit [simp]: "\<not> is_digit (CHR ''.'')" "\<not> is_space (CHR ''.'')"
  by (simp_all add: is_digit_def is_space_def)

lemma fixed6_scan:
  "takeWhile is_digit (show_nat q @ CHR ''.'' # t) = show_nat q"
  "dropWhile is_digit (show_nat q @ CHR ''.'' # t) = CHR ''.'' # t"
proof -
  have "list_all is_digit (show_nat q)" by simp
  then show "takeWhile is_digit (show_nat q @ CHR ''.'' # t) = show_nat q"
    by (simp add: takeWhile_tail list_all_iff)
  from \<open>list_all is_digit (show_nat q)\<close>
  show "dropWhile is_digit (show_nat q @ CHR ''.'' # t) = CHR ''.'' # t"
    by (simp add: dropWhile_append3 list_all_iff)
qed

lemma micro_units_split: "real (m div 10 ^ 6) + real (m mod 10 ^ 6) / 10 ^ 6 = real m / 10 ^ 6"
proof -
  have "real (m div 10 ^ 6 * 10 ^ 6 + m mod 10 ^ 6) = real m"
    by (simp only: div_mult_mod_eq)
  then have "real m = real (m div 10 ^ 6) * 10 ^ 6 + real (m mod 10 ^ 6)"
    by (simp only: of_nat_add of_nat_mult of_nat_power of_nat_numeral)
  then show ?thesis by (simp add: field_simps)
qed

lemma fmt_fixed6_shape:
  "fmt_fixed6 x \<noteq> [] \<and> \<not> is_space (hd (fmt_fixed6 x)) \<and> is_digit (last (fmt_fixed6 x))"
proof -
  have r: "micro_units x mod 10 ^ 6 < 10 ^ 6" by simp
  note p = pad6_props[OF r]
  have "\<not> is_space (hd (show_nat (micro_units x div 10 ^ 6)))"
    using show_nat_hd_last(1) by (rule digit_not_space)
  then show ?thesis
    using p by (simp add: fmt_fixed6_body)
qed

lemma fmt_fixed6_trim_self [simp]: "trimmed (fmt_fixed6 x) = fmt_fixed6 x"
  using fmt_fixed6_shape[of x] by (intro trimmed_id) (auto dest: digit_not_space)

lemma fmt_fixed6_trim_space [simp]: "trimmed (CHR '' '' # fmt_fixed6 x) = fmt_fixed6 x"
  using fmt_fixed6_shape[of x] by (intro trimmed_space_cons) (auto dest: digit_not_space)

lemma qstring_toDouble_trimmed_fmt_fixed6:
  assumes "trimmed s = fmt_fixed6 x"
  shows "qstring_toDouble_opt s = Some (quantize6 x)"
proof -
  define m where "m = micro_units x"
  define q where "q = m div 10 ^ 6"
  define r where "r = m mod 10 ^ 6"
  have r: "r < 10 ^ 6" by (simp add: r_def)
  note p = pad6_props[OF r]
  let ?body = "show_nat q @ CHR ''.'' # pad6 r"
  have fmt: "fmt_fixed6 x = (if x < 0 then ''-'' else '''') @ ?body"
    by (simp add: fmt_fixed6_body q_def r_def m_def)
  have "decimal_val (show_nat q) (pad6 r) = real q + real r / 10 ^ 6"
    using p(1,2) by (simp add: decimal_val_def)
  also have "\<dots> = real m / 10 ^ 6"
    unfolding q_def r_def by (rule micro_units_split)
  finally have val: "decimal_val (show_nat q) (pad6 r) = real m / 10 ^ 6" .
  show ?thesis
  proof (cases "x < 0")
    case True
    then have "trimmed s = CHR ''-'' # ?body" using assms by (simp add: fmt)
    then show ?thesis
      using True p val by (simp add: qstring_toDouble_opt_def fixed6_scan quantize6_def m_def)
  next
    case False
    then have "trimmed s = ?body" using assms by (simp add: fmt)
    then show ?thesis
      using False p val by (simp add: qstring_toDouble_opt_def fixed6_scan quantize6_def m_def)
  qed
qed

lemma split_keep_no_sep: "\<forall>c\<in>set w. \<not> p c \<Longrightarrow> split_keep p w = [w]"
  by (induction w) auto

lemma split_keep_sep:
  "\<forall>x\<in>set w. \<not> p x \<Longrightarrow> p c \<Longrightarrow> split_keep p (w @ c # rest) = w # split_keep p rest"
  by (induction w) auto

lemma split_keep_lines:
  "\<forall>l\<in>set ls. \<forall>x\<in>set l. \<not> p x \<Longrightarrow> p c \<Longrightarrow>
   split_keep p (concat (map (\<lambda>l. l @ [c]) ls)) = ls @ [[]]"
  by (induction ls) (simp_all add: split_keep_sep)

lemma text_lines_concat:
  assumes "\<forall>l\<in>set ls. CHR ''\<newline>'' \<notin> set l"
  shows "text_lines (concat (map (\<lambda>l. l @ [CHR ''\<newline>'']) ls)) = ls"
proof -
  have "split_keep (\<lambda>c. c = CHR ''\<newline>'') (concat (map (\<lambda>l. l @ [CHR ''\<newline>'']) ls)) = ls @ [[]]"
    using assms by (intro split_keep_lines) auto
  then show ?thesis by (simp add: text_lines_def)
qed


lemma split_keep_nonempty [simp]: "split_keep p s \<noteq> []"
  by (induction s) (auto split: list.splits)

lemma readLine_shorter:
  assumes "s \<noteq> []"
  shows "length (snd (readLine s)) < length s"
proof -
  have "length (dropWhile (\<lambda>c. c \<noteq> CHR ''\<newline>'') s) \<le> length s" by (rule length_dropWhile_le)
  moreover have "0 < length s" using assms by simp
  ultimately show ?thesis unfolding readLine_def snd_conv length_drop by linarith
qed

lemma text_lines_Nil [simp]: "text_lines [] = []"
  by (simp add: text_lines_def)

lemma readLine_split:
  assumes "CHR ''\<newline>'' \<notin> set w"
  shows "readLine (w @ CHR ''\<newline>'' # r) = (w, r)"
proof -
  have "\<forall>x\<in>set w. x \<noteq> CHR ''\<newline>''" using assms by blast
  then show ?thesis by (simp add: readLine_def takeWhile_append2 dropWhile_append2)
qed

lemma readLine_no_newline:
  assumes "CHR ''\<newline>'' \<notin> set s"
  shows "readLine s = (s, [])"
proof -
  have "\<forall>x\<in>set s. x \<noteq> CHR ''\<newline>''" using assms by blast
  then have "takeWhile (\<lambda>c. c \<noteq> CHR ''\<newline>'') s = s" "dropWhile (\<lambda>c. c \<noteq> CHR ''\<newline>'') s = []"
    by (simp_all add: takeWhile_eq_all_conv dropWhile_eq_Nil_conv)
  then show ?thesis by (simp add: readLine_def del: dropWhile_eq_Nil_conv)
qed

lemma text_lines_readLine:
  assumes "s \<noteq> []"
  shows "text_lines s = fst (readLine s) # text_lines (snd (readLine s))"
proof (cases "CHR ''\<newline>'' \<in> set s")
  case True
  then obtain w r where s: "s = w @ CHR ''\<newline>'' # r" and w: "CHR ''\<newline>'' \<notin> set w"
    by (blast dest: split_list_first)
  have "split_keep (\<lambda>c. c = CHR ''\<newline>'') s = w # split_keep (\<lambda>c. c = CHR ''\<newline>'') r"
    using w unfolding s by (intro split_keep_sep) auto
  then show ?thesis
    using split_keep_nonempty[of "\<lambda>c. c = CHR ''\<newline>''" r]
    by (simp add: text_lines_def readLine_split[OF w] s Let_def)
next
  case False
  have "split_keep (\<lambda>c. c = CHR ''\<newline>'') s = [s]"
    using False by (intro split_keep_no_sep) auto
  with False assms show ?thesis by (simp add: text_lines_def readLine_no_newline)
qed


lemma trimmed_Nil [simp]: "trimmed [] = []"
  by (simp add: trimmed_def)

lemma dw_rev_prefix: "\<exists>sp. xs = rev (dropWhile P (rev xs)) @ sp"
  by (metis append_take_drop_id rev_rev_ident takeWhile_dropWhile_id rev_append)
lemma trimmed_trimmed: "trimmed (trimmed s) = trimmed s"
proof -
  let ?a = "dropWhile is_space s"
  let ?b = "dropWhile is_space (rev ?a)"
  obtain sp where a: "?a = rev ?b @ sp" using dw_rev_prefix by blast
  have "dropWhile is_space (rev ?b) = rev ?b"
  proof (cases "rev ?b")
    case (Cons c cs)
    then have "hd ?a = c" using a by simp
    moreover have "\<not> is_space (hd ?a)" using a Cons
      by (metis hd_dropWhile list.distinct(1) append_is_Nil_conv)
    ultimately show ?thesis using Cons by simp
  next
    case Nil
    show ?thesis unfolding Nil by simp
  qed
  then show ?thesis by (simp add: trimmed_def)
qed
lemma split_keep_concat_set: "set (concat (split_keep p s)) \<subseteq> set s"
proof (induction s)
  case (Cons c cs)
  then show ?case by (cases "split_keep p cs") auto
qed simp

lemma split_keep_set: "w \<in> set (split_keep p s) \<Longrightarrow> set w \<subseteq> set s"
  using split_keep_concat_set[of p s] by auto

end
