(* ===== verification/LipData.thy ===== *)
theory LipData
  imports QtLib
begin

text \<open>
  The data of the pipeline, as declared in \<open>src/view/JuliusView/Public/ADXLipModel.h\<close>
  and \<open>JuliusAnalyzeWindow.h\<close>: the 60 fps track row \<open>ADXLipFrame\<close>, the pending
  vowel segment \<open>PendingVowel\<close>, the acoustic marker \<open>VowelMarker\<close>, the marker label
  modes and the alignment section enum. C++ \<open>int\<close> fields are \<open>int\<close> (their range is
  stated where it matters, \<open>in_int32\<close>), \<open>double\<close> and \<open>float\<close> fields are
  \<open>real\<close>, \<open>QString\<close> fields are \<open>string\<close>. Record fields carry a prefix
  (\<open>pv_\<close>, \<open>vm_\<close>) where two structs share a member name; the six viseme channels
  \<open>A I U E O N\<close> are \<open>chA\<close> \<dots> \<open>chN\<close>.
\<close>

record adx_frame =
  frameIndex :: int
  msec :: int
  width :: real
  height :: real
  tongue :: real
  chA :: real
  chI :: real
  chU :: real
  chE :: real
  chO :: real
  chN :: real
  vol_dB :: real

text \<open>The default member initialisers of \<open>ADXLipFrame\<close>: every field zero.\<close>

definition default_frame :: adx_frame where
  "default_frame = \<lparr>frameIndex = 0, msec = 0, width = 0, height = 0, tongue = 0,
     chA = 0, chI = 0, chU = 0, chE = 0, chO = 0, chN = 0, vol_dB = 0\<rparr>"

record pending_vowel =
  pv_vowel :: string
  pv_fromFrame :: int
  pv_toFrame :: int
  pv_midFrame :: int
  pv_consonant :: string
  pv_cv :: string

record vowel_marker =
  vm_fromFrame :: int
  vm_toFrame :: int
  vm_frame :: int
  vm_sampleOffset :: int
  vm_normPos :: real
  vm_vowel :: string
  vm_rms :: real
  vm_peak :: real
  vm_dbfs :: real
  vm_relMax :: real
  vm_relSum :: real
  vm_relVowelSum :: real
  vm_cv :: string

datatype marker_label_mode =
  AIUEON | CV | dBFS | RelSum | RelMax | RelVowelSum | NormPos | ModeNone

datatype align_section = AlignNone | Word | Phoneme | State

text \<open>The six vowel labels the parser accepts (\<open>vowels\<close> in \<open>parseForcedAlignment\<close>).\<close>

definition vowel_set :: "string list" where
  "vowel_set = [''A'', ''I'', ''U'', ''E'', ''O'', ''N'']"

text \<open>The six channels of a row, in column order.\<close>

definition channels :: "adx_frame \<Rightarrow> real list" where
  "channels r = [chA r, chI r, chU r, chE r, chO r, chN r]"

end
