(* ===== verification/UnitDecoder.thy ===== *)
theory UnitDecoder
  imports LipData "HOL-Library.Monad_Syntax"
begin

text \<open>
  The phoneme data line of the forced-alignment report and the unit decoder, from
  \<open>parseForcedAlignment\<close> (\<open>JuliusAnalyzeWindow.cpp\<close>, lines 543--583) and the
  anonymous-namespace \<open>consonantCodeToRoman\<close> (lines 62--82). The regular expression
  \<open>^\s*\[\s*(\d+)\s+(\d+)\]\s+[-\d\.]+\s+([A-Za-z0-9_+\-]+)\<close> is a scanner over
  the line in the option monad: every repeated class is a maximal run, which is what
  the backtracking matcher finds, because the character after each run cannot start
  the next item when the run is shortened. The unit token is split at \<open>+\<close> and
  \<open>-\<close> keeping empty parts; the centre part is the second part when there are two
  or more, and the left part is the first.
\<close>

subsection \<open>Consonant codes\<close>

definition consonantCodeToRoman :: "string \<Rightarrow> string" where
  "consonantCodeToRoman ph =
     (let P = to_upper ph in
      if P = ''SH'' then ''SH''
      else if P = ''CH'' then ''CH''
      else if P = ''TS'' then ''TS''
      else if P = ''J'' then ''J''
      else if P = ''F'' then ''F''
      else if P = ''TH'' then ''TH''
      else if P = ''KY'' then ''KY''
      else if P = ''BY'' then ''B''
      else if P \<noteq> [] then take 1 P
      else [])"

subsection \<open>The data-line pattern\<close>

definition is_score_char :: "char \<Rightarrow> bool" where
  "is_score_char c \<longleftrightarrow> c = CHR ''-'' \<or> is_digit c \<or> c = CHR ''.''"

definition is_unit_char :: "char \<Rightarrow> bool" where
  "is_unit_char c \<longleftrightarrow> is_alpha c \<or> is_digit c \<or> c = CHR ''_'' \<or> c = CHR ''+'' \<or> c = CHR ''-''"

text \<open>A non-empty maximal run of one character class, and one literal character.\<close>

definition run1 :: "(char \<Rightarrow> bool) \<Rightarrow> string \<Rightarrow> (string \<times> string) option" where
  "run1 P s = (let a = takeWhile P s in if a = [] then None else Some (a, dropWhile P s))"

definition lit :: "char \<Rightarrow> string \<Rightarrow> string option" where
  "lit c s = (case s of [] \<Rightarrow> None | d # r \<Rightarrow> if d = c then Some r else None)"

text \<open>\<open>rePhLine.match(line)\<close>: the three captures (from, to, unit) when it matches.\<close>

definition rePhLine_match :: "string \<Rightarrow> (string \<times> string \<times> string) option" where
  "rePhLine_match s = do {
     s1 \<leftarrow> lit (CHR ''['') (dropWhile is_space s);
     (d1, s2) \<leftarrow> run1 is_digit (dropWhile is_space s1);
     (_, s3) \<leftarrow> run1 is_space s2;
     (d2, s4) \<leftarrow> run1 is_digit s3;
     s5 \<leftarrow> lit (CHR '']'') s4;
     (_, s6) \<leftarrow> run1 is_space s5;
     (_, s7) \<leftarrow> run1 is_score_char s6;
     (_, s8) \<leftarrow> run1 is_space s7;
     (u, _) \<leftarrow> run1 is_unit_char s8;
     Some (d1, d2, u)
   }"

subsection \<open>Decoding a matched line\<close>

definition mid_frame :: "int \<Rightarrow> int \<Rightarrow> int" where
  "mid_frame fromFrame toFrame =
     (if toFrame > fromFrame then fromFrame + (toFrame - fromFrame) div 2 else fromFrame)"

definition is_unit_sep :: "char \<Rightarrow> bool" where
  "is_unit_sep c \<longleftrightarrow> c = CHR ''-'' \<or> c = CHR ''+''"

text \<open>
  Lines 550--583: the frames are \<open>toInt\<close> of the digit captures, the centre phone is
  upper-cased before its first \<open>_\<close>, the left phone gives the consonant unless it
  equals the centre or is \<open>SP\<close>/\<open>SIL\<close>, and only a vowel of \<open>vowel_set\<close> yields a
  pending vowel. \<open>parts\<close> is never empty (\<open>split_keep_nonempty\<close>), so the
  \<open>parts ! 0\<close> of the model is the \<open>parts.at(0)\<close> of the code.
\<close>

definition decode_unit :: "int \<Rightarrow> int \<Rightarrow> string \<Rightarrow> pending_vowel option" where
  "decode_unit fromFrame toFrame unit =
     (let midFrame = mid_frame fromFrame toFrame;
          parts = split_keep is_unit_sep unit;
          center = (if 2 \<le> length parts then parts ! 1 else parts ! 0);
          ph = to_upper (section_first CHR ''_'' center);
          consRoman =
            (if parts \<noteq> [] then
               (let leftPh = to_upper (section_first CHR ''_'' (parts ! 0))
                in if leftPh \<noteq> ph \<and> leftPh \<noteq> ''SP'' \<and> leftPh \<noteq> ''SIL''
                   then consonantCodeToRoman leftPh else [])
             else [])
      in if ph \<notin> set vowel_set then None
         else Some \<lparr>pv_vowel = ph, pv_fromFrame = fromFrame, pv_toFrame = toFrame,
                    pv_midFrame = midFrame, pv_consonant = consRoman, pv_cv = consRoman @ ph\<rparr>)"

text \<open>A data line of the phoneme section: match, convert the captures, decode.\<close>

definition phoneme_data_line :: "string \<Rightarrow> pending_vowel option" where
  "phoneme_data_line line =
     (case rePhLine_match line of
        None \<Rightarrow> None
      | Some (f, t, unit) \<Rightarrow> decode_unit (qstring_toInt f) (qstring_toInt t) unit)"

subsection \<open>Example inputs\<close>

text \<open>Concrete inputs at which the witnesses below instantiate the properties.\<close>

definition example_line :: string where
  "example_line = ''[ 0 9] -1.0 a''"

subsection \<open>Properties\<close>

lemma consonantCodeToRoman_take:
  "consonantCodeToRoman ph =
     take (if to_upper ph \<in> {''SH'', ''CH'', ''TS'', ''TH'', ''KY''} then 2 else 1) (to_upper ph)"
  by (simp add: consonantCodeToRoman_def Let_def take_Suc split: list.splits)

lemma consonantCodeToRoman_nonempty: "ph \<noteq> [] \<Longrightarrow> consonantCodeToRoman ph \<noteq> []"
  by (auto simp: consonantCodeToRoman_def Let_def to_upper_def)

lemma mid_frame_bounds:
  "fromFrame \<le> toFrame \<Longrightarrow>
   fromFrame \<le> mid_frame fromFrame toFrame \<and> mid_frame fromFrame toFrame \<le> toFrame \<and>
   (toFrame - mid_frame fromFrame toFrame) - (mid_frame fromFrame toFrame - fromFrame) \<in> {0, 1}"
  by (auto simp: mid_frame_def)

lemma decode_unit_Some:
  assumes "decode_unit f t unit = Some pv"
  shows "pv_vowel pv \<in> set vowel_set \<and> pv_cv pv = pv_consonant pv @ pv_vowel pv \<and>
         pv_fromFrame pv = f \<and> pv_toFrame pv = t \<and> pv_midFrame pv = mid_frame f t"
  using assms by (auto simp: decode_unit_def Let_def split: if_splits)

lemma decode_unit_single_part:
  assumes "\<forall>c\<in>set unit. \<not> is_unit_sep c"
  shows "decode_unit f t unit =
           (if to_upper (section_first CHR ''_'' unit) \<in> set vowel_set
            then Some \<lparr>pv_vowel = to_upper (section_first CHR ''_'' unit), pv_fromFrame = f,
                       pv_toFrame = t, pv_midFrame = mid_frame f t, pv_consonant = [],
                       pv_cv = to_upper (section_first CHR ''_'' unit)\<rparr>
            else None)"
  using assms by (simp add: decode_unit_def split_keep_no_sep Let_def)

lemma run1_Some:
  assumes "run1 P s = Some (a, r)"
  shows "s = a @ r \<and> a \<noteq> [] \<and> list_all P a \<and> (r = [] \<or> \<not> P (hd r))"
proof -
  from assms have a: "a = takeWhile P s" "a \<noteq> []" and r: "r = dropWhile P s"
    by (auto simp: run1_def Let_def split: if_splits)
  have "r = [] \<or> \<not> P (hd r)" using r hd_dropWhile[of P s] by auto
  moreover have "list_all P a" using a by (auto simp: list_all_iff dest: set_takeWhileD)
  ultimately show ?thesis using a r by simp
qed

lemma run1_append:
  assumes "a \<noteq> []" "list_all P a" "r = [] \<or> \<not> P (hd r)"
  shows "run1 P (a @ r) = Some (a, r)"
proof -
  have all: "\<forall>x\<in>set a. P x" using assms(2) by (simp add: list_all_iff)
  have "takeWhile P (a @ r) = a \<and> dropWhile P (a @ r) = r"
  proof (cases r)
    case Nil
    with all show ?thesis by simp
  next
    case (Cons c r')
    with all assms(3) show ?thesis by (simp add: takeWhile_tail dropWhile_append3)
  qed
  with assms(1) show ?thesis by (simp add: run1_def)
qed

lemma lit_Some: "lit c s = Some r \<longleftrightarrow> s = c # r"
  by (cases s) (auto simp: lit_def)

lemma dropWhile_prefix:
  "list_all P ws \<Longrightarrow> \<not> P c \<Longrightarrow> dropWhile P (ws @ c # r) = c # r"
  by (simp add: dropWhile_append3 list_all_iff)

lemma space_not_digit: "is_space c \<Longrightarrow> \<not> is_digit c"
  and space_not_score: "is_space c \<Longrightarrow> \<not> is_score_char c"
  and space_not_unit: "is_space c \<Longrightarrow> \<not> is_unit_char c"
  and score_not_space: "is_score_char c \<Longrightarrow> \<not> is_space c"
  and unit_not_space: "is_unit_char c \<Longrightarrow> \<not> is_space c"
  and bracket_chars: "\<not> is_space (CHR ''['')" "\<not> is_digit (CHR '']'')"
  by (auto simp: is_digit_def is_space_def is_score_char_def is_unit_char_def is_alpha_def Let_def)

text \<open>C19: Every line of the shape of the regular expression is accepted by the phoneme-line matcher with the two digit runs and the maximal unit run as captures.\<close>

lemma rePhLine_match_complete:
  assumes "list_all is_space ws0" "list_all is_space ws1"
    and "d1 \<noteq> []" "list_all is_digit d1" "ws2 \<noteq> []" "list_all is_space ws2"
    and "d2 \<noteq> []" "list_all is_digit d2" "ws3 \<noteq> []" "list_all is_space ws3"
    and "sc \<noteq> []" "list_all is_score_char sc" "ws4 \<noteq> []" "list_all is_space ws4"
    and "u \<noteq> []" "list_all is_unit_char u" "rest = [] \<or> \<not> is_unit_char (hd rest)"
  shows "rePhLine_match (ws0 @ CHR ''['' # ws1 @ d1 @ ws2 @ d2 @ CHR '']'' # ws3 @ sc @ ws4 @ u @ rest)
         = Some (d1, d2, u)"
proof -
  let ?r8 = "u @ rest" let ?r7 = "ws4 @ ?r8" let ?r6 = "sc @ ?r7" let ?r5 = "ws3 @ ?r6"
  let ?r3 = "d2 @ CHR '']'' # ?r5" let ?r2 = "ws2 @ ?r3" let ?r1 = "d1 @ ?r2"
  have hds: "is_digit (hd d1)" "is_space (hd ws2)" "is_digit (hd d2)" "is_space (hd ws3)"
    "is_score_char (hd sc)" "is_space (hd ws4)" "is_unit_char (hd u)"
    using assms by (auto simp: list_all_iff)
  have s0: "dropWhile is_space (ws0 @ CHR ''['' # ws1 @ ?r1) = CHR ''['' # ws1 @ ?r1"
    using assms(1) bracket_chars(1) by (rule dropWhile_prefix)
  have s1: "dropWhile is_space (ws1 @ ?r1) = ?r1"
  proof (cases d1)
    case Nil
    with assms(3) show ?thesis by simp
  next
    case (Cons c d1')
    with hds(1) have "\<not> is_space c" by simp
    with Cons show ?thesis by (simp add: dropWhile_prefix[OF assms(2)])
  qed
  have r1: "run1 is_digit ?r1 = Some (d1, ?r2)"
    using assms(3-5) space_not_digit[OF hds(2)] by (intro run1_append) simp_all
  have r2: "run1 is_space ?r2 = Some (ws2, ?r3)"
    using assms(5-7) digit_not_space[OF hds(3)] by (intro run1_append) simp_all
  have r3: "run1 is_digit ?r3 = Some (d2, CHR '']'' # ?r5)"
    using assms(7,8) bracket_chars(2) by (intro run1_append) simp_all
  have r4: "run1 is_space ?r5 = Some (ws3, ?r6)"
    using assms(9-11) score_not_space[OF hds(5)] by (intro run1_append) simp_all
  have r5: "run1 is_score_char ?r6 = Some (sc, ?r7)"
    using assms(11-13) space_not_score[OF hds(6)] by (intro run1_append) simp_all
  have r6: "run1 is_space ?r7 = Some (ws4, ?r8)"
    using assms(13-15) unit_not_space[OF hds(7)] by (intro run1_append) simp_all
  have r7: "run1 is_unit_char ?r8 = Some (u, rest)"
    using assms(15-17) by (rule run1_append)
  show ?thesis
    unfolding rePhLine_match_def s0
    by (simp add: lit_def s1 r1 r2 r3 r4 r5 r6 r7)
qed

lemma takeWhile_all: "list_all P (takeWhile P s)"
  by (auto simp: list_all_iff dest: set_takeWhileD)

text \<open>C18: Whenever the phoneme-line matcher accepts a line, the line has the shape of the regular expression: optional spaces, '[', two digit runs separated by spaces, ']', spaces, a score, spaces and a maximal unit run, and the captures are the two digit runs and the unit.\<close>

lemma rePhLine_match_sound:
  assumes "rePhLine_match s = Some (d1, d2, u)"
  shows "\<exists>ws0 ws1 ws2 ws3 sc ws4 rest.
           s = ws0 @ CHR ''['' # ws1 @ d1 @ ws2 @ d2 @ CHR '']'' # ws3 @ sc @ ws4 @ u @ rest \<and>
           list_all is_space ws0 \<and> list_all is_space ws1 \<and>
           d1 \<noteq> [] \<and> list_all is_digit d1 \<and> ws2 \<noteq> [] \<and> list_all is_space ws2 \<and>
           d2 \<noteq> [] \<and> list_all is_digit d2 \<and> ws3 \<noteq> [] \<and> list_all is_space ws3 \<and>
           sc \<noteq> [] \<and> list_all is_score_char sc \<and> ws4 \<noteq> [] \<and> list_all is_space ws4 \<and>
           u \<noteq> [] \<and> list_all is_unit_char u \<and> (rest = [] \<or> \<not> is_unit_char (hd rest))"
proof -
  from assms obtain s1 s2 s3 s4 s5 s6 s7 s8 x2 x5 x6 x7 rest where
    l1: "lit (CHR ''['') (dropWhile is_space s) = Some s1" and
    r1: "run1 is_digit (dropWhile is_space s1) = Some (d1, s2)" and
    r2: "run1 is_space s2 = Some (x2, s3)" and
    r3: "run1 is_digit s3 = Some (d2, s4)" and
    l2: "lit (CHR '']'') s4 = Some s5" and
    r4: "run1 is_space s5 = Some (x5, s6)" and
    r5: "run1 is_score_char s6 = Some (x6, s7)" and
    r6: "run1 is_space s7 = Some (x7, s8)" and
    r7: "run1 is_unit_char s8 = Some (u, rest)"
    by (auto simp: rePhLine_match_def bind_eq_Some_conv split: prod.splits)
  note r = run1_Some[OF r1] run1_Some[OF r2] run1_Some[OF r3] run1_Some[OF r4]
    run1_Some[OF r5] run1_Some[OF r6] run1_Some[OF r7]
  have s: "s = takeWhile is_space s @ CHR ''['' # s1"
    using l1 takeWhile_dropWhile_id[of is_space s] by (simp add: lit_Some)
  have s1: "s1 = takeWhile is_space s1 @ dropWhile is_space s1" by simp
  have "s = takeWhile is_space s @ CHR ''['' # takeWhile is_space s1 @ d1 @ x2 @ d2 @
            CHR '']'' # x5 @ x6 @ x7 @ u @ rest"
    using s s1 r l2 by (simp add: lit_Some)
  then show ?thesis
    using r takeWhile_all by blast
qed

text \<open>C34: For every biphone unit x+y (x and y without '+' or '-') the decoder takes the right context y as the centre: the result is None unless y names a vowel, and otherwise y is the vowel with x as its consonant (unless x equals y or is SP/SIL); so a vowel followed by a consonant (a+k) is dropped and k+o gives vowel O after K.\<close>

lemma decode_unit_biphone:
  assumes "\<forall>c\<in>set x. \<not> is_unit_sep c" "\<forall>c\<in>set y. \<not> is_unit_sep c"
  shows "decode_unit f t (x @ ''+'' @ y) =
           (let X = to_upper (section_first CHR ''_'' x); Y = to_upper (section_first CHR ''_'' y);
                cons = (if X \<noteq> Y \<and> X \<noteq> ''SP'' \<and> X \<noteq> ''SIL'' then consonantCodeToRoman X else [])
            in if Y \<notin> set vowel_set then None
               else Some \<lparr>pv_vowel = Y, pv_fromFrame = f, pv_toFrame = t, pv_midFrame = mid_frame f t,
                          pv_consonant = cons, pv_cv = cons @ Y\<rparr>)"
proof -
  have "split_keep is_unit_sep (x @ CHR ''+'' # y) = [x, y]"
    using assms by (simp add: split_keep_sep split_keep_no_sep is_unit_sep_def)
  then show ?thesis by (simp add: decode_unit_def Let_def)
qed

subsection \<open>Witnesses\<close>

lemma decode_unit_biphone_witness:
  "decode_unit 0 10 ''a+k'' = None \<and>
   decode_unit 0 10 ''k+o'' =
     Some \<lparr>pv_vowel = ''O'', pv_fromFrame = 0, pv_toFrame = 10, pv_midFrame = 5,
           pv_consonant = ''K'', pv_cv = ''KO''\<rparr>"
proof -
  have u: "to_upper (section_first CHR ''_'' ''a'') = ''A''" "to_upper (section_first CHR ''_'' ''k'') = ''K''"
    "to_upper (section_first CHR ''_'' ''o'') = ''O''" "consonantCodeToRoman ''K'' = ''K''"
    by code_simp+
  show ?thesis
    using decode_unit_biphone [of "''a''" "''k''" 0 10] decode_unit_biphone [of "''k''" "''o''" 0 10] u
    by (simp add: is_unit_sep_def vowel_set_def mid_frame_def Let_def)
qed

lemma rePhLine_match_sound_witness:
  "rePhLine_match example_line = Some (''0'', ''9'', ''a'') \<and>
   (\<exists>ws0 ws1 ws2 ws3 sc ws4 rest.
      example_line = ws0 @ CHR ''['' # ws1 @ ''0'' @ ws2 @ ''9'' @ CHR '']'' # ws3 @ sc @ ws4 @ ''a'' @ rest \<and>
      list_all is_space ws0 \<and> list_all is_space ws1 \<and>
      ''0'' \<noteq> [] \<and> list_all is_digit ''0'' \<and> ws2 \<noteq> [] \<and> list_all is_space ws2 \<and>
      ''9'' \<noteq> [] \<and> list_all is_digit ''9'' \<and> ws3 \<noteq> [] \<and> list_all is_space ws3 \<and>
      sc \<noteq> [] \<and> list_all is_score_char sc \<and> ws4 \<noteq> [] \<and> list_all is_space ws4 \<and>
      ''a'' \<noteq> [] \<and> list_all is_unit_char ''a'')"
proof -
  have m: "rePhLine_match example_line = Some (''0'', ''9'', ''a'')" by code_simp
  show ?thesis using rePhLine_match_sound[OF m] m by blast
qed

lemma rePhLine_match_complete_witness:
  "list_all is_space [] \<and> list_all is_space '' '' \<and>
   ''0'' \<noteq> [] \<and> list_all is_digit ''0'' \<and> '' '' \<noteq> [] \<and> list_all is_space '' '' \<and>
   ''9'' \<noteq> [] \<and> list_all is_digit ''9'' \<and> '' '' \<noteq> [] \<and> list_all is_space '' '' \<and>
   ''-1.0'' \<noteq> [] \<and> list_all is_score_char ''-1.0'' \<and> '' '' \<noteq> [] \<and> list_all is_space '' '' \<and>
   ''a'' \<noteq> [] \<and> list_all is_unit_char ''a'' \<and>
   rePhLine_match ([] @ CHR ''['' # '' '' @ ''0'' @ '' '' @ ''9'' @ CHR '']'' # '' '' @ ''-1.0'' @ '' '' @ ''a'' @ [])
     = Some (''0'', ''9'', ''a'')"
proof -
  have c: "list_all is_space '' ''" "list_all is_digit ''0''" "list_all is_digit ''9''"
    "list_all is_score_char ''-1.0''" "list_all is_unit_char ''a''"
    by (simp_all add: is_space_def is_digit_def is_score_char_def is_unit_char_def is_alpha_def)
  show ?thesis
    using rePhLine_match_complete[of "[]" "'' ''" "''0''" "'' ''" "''9''" "'' ''" "''-1.0''" "'' ''" "''a''" "[]"] c
    by simp
qed

lemma decode_unit_single_part_witness:
  "\<not> is_unit_sep CHR ''a'' \<and> \<not> is_unit_sep CHR ''_'' \<and> \<not> is_unit_sep CHR ''B'' \<and>
   decode_unit 3 8 ''a_B'' =
     (if to_upper (section_first CHR ''_'' ''a_B'') \<in> set vowel_set
      then Some \<lparr>pv_vowel = to_upper (section_first CHR ''_'' ''a_B''), pv_fromFrame = 3,
                 pv_toFrame = 8, pv_midFrame = mid_frame 3 8, pv_consonant = [],
                 pv_cv = to_upper (section_first CHR ''_'' ''a_B'')\<rparr>
      else None)"
proof -
  have h: "\<forall>c\<in>set ''a_B''. \<not> is_unit_sep c" by (simp add: is_unit_sep_def)
  show ?thesis using decode_unit_single_part[OF h, of 3 8] h by simp
qed

lemma consonantCodeToRoman_take_witness:
  "consonantCodeToRoman ''sh'' = take (if to_upper ''sh'' \<in> {''SH'', ''CH'', ''TS'', ''TH'', ''KY''} then 2 else 1) (to_upper ''sh'')"
  by (rule consonantCodeToRoman_take)

lemma mid_frame_bounds_witness:
  "(3::int) \<le> 8 \<and> 3 \<le> mid_frame 3 8 \<and> mid_frame 3 8 \<le> 8 \<and>
   (8 - mid_frame 3 8) - (mid_frame 3 8 - 3) \<in> {0, 1}"
  using mid_frame_bounds[of 3 8] by simp

end
