(* ===== verification/AcousticMarkers.thy ===== *)
theory AcousticMarkers
  imports UnitDecoder
begin

text \<open>
  The first half of \<open>JuliusAnalyzeWindow::processForcedAlignmentResult\<close>
  (\<open>JuliusAnalyzeWindow.cpp\<close>, lines 587--650): one \<open>VowelMarker\<close> per pending vowel,
  with the RMS of the vowel's sample window, its dBFS value, the clamped sample offset
  of the middle frame and its normalised position, then a second pass that divides
  every RMS by the sum and by the maximum of all of them. Sample windows use the fixed
  \<open>FRAME_SHIFT_SAMPLES = 160\<close> (line 32). The products \<open>frame * 160\<close> are C++ \<open>int\<close>
  arithmetic and are modelled with \<open>wrap32\<close>; the sample buffer (\<open>QVector<float>\<close>)
  and the \<open>double\<close> accumulators are \<open>real\<close>, so rounding is not modelled. The guard
  \<open>totalSamples <= 0\<close> and the replacement of the marker list belong to the window
  state (theory \<open>AlignmentParser\<close>); here \<open>totalSamples\<close> is the length of the
  buffer.
\<close>

definition FRAME_SHIFT_SAMPLES :: int where
  "FRAME_SHIFT_SAMPLES = 160"

definition EPS :: real where
  "EPS = 1 / 10 ^ 12"

definition REF :: real where
  "REF = 1"

text \<open>Lines 608--613: the window \<open>[start, end)\<close> of a pending vowel, clamped.\<close>

definition sample_window :: "int \<Rightarrow> pending_vowel \<Rightarrow> int \<times> int" where
  "sample_window totalSamples pv =
     (let start = wrap32 (pv_fromFrame pv * FRAME_SHIFT_SAMPLES);
          end0 = wrap32 (wrap32 (pv_toFrame pv + 1) * FRAME_SHIFT_SAMPLES);
          end1 = (if end0 \<le> start then wrap32 (start + FRAME_SHIFT_SAMPLES) else end0)
      in (qBound 0 start totalSamples, qBound 0 end1 totalSamples))"

text \<open>Lines 614--621: the samples of the window and their RMS (0 for an empty window).\<close>

definition window_samples :: "real list \<Rightarrow> int \<Rightarrow> int \<Rightarrow> real list" where
  "window_samples samples start n = take (nat n) (drop (nat start) samples)"

definition window_rms :: "real list \<Rightarrow> int \<Rightarrow> int \<Rightarrow> real" where
  "window_rms samples start n =
     (let sumSq = sum_list (map (\<lambda>v. v * v) (window_samples samples start n))
      in if n > 0 then sqrt (sumSq / real_of_int n) else 0)"

text \<open>Line 622.\<close>

definition dbfs_of :: "real \<Rightarrow> real" where
  "dbfs_of rms = 20 * log 10 (max rms EPS / REF)"

text \<open>Lines 624--625.\<close>

definition mid_sample :: "int \<Rightarrow> pending_vowel \<Rightarrow> int" where
  "mid_sample totalSamples pv = qBound 0 (wrap32 (pv_midFrame pv * FRAME_SHIFT_SAMPLES)) (totalSamples - 1)"

text \<open>Lines 608--637: one marker; \<open>peak\<close> and the relative fields keep their initialisers.\<close>

definition build_marker :: "real list \<Rightarrow> pending_vowel \<Rightarrow> vowel_marker" where
  "build_marker samples pv =
     (let totalSamples = int (length samples);
          (start, end) = sample_window totalSamples pv;
          rms = window_rms samples start (end - start);
          midSample = mid_sample totalSamples pv
      in \<lparr>vm_fromFrame = pv_fromFrame pv, vm_toFrame = pv_toFrame pv, vm_frame = pv_midFrame pv,
          vm_sampleOffset = midSample, vm_normPos = real_of_int midSample / real_of_int totalSamples,
          vm_vowel = pv_vowel pv, vm_rms = rms, vm_peak = 0, vm_dbfs = dbfs_of rms,
          vm_relMax = 0, vm_relSum = 0, vm_relVowelSum = 0, vm_cv = pv_cv pv\<rparr>)"

text \<open>Lines 605--641: the first loop, appending markers and accumulating \<open>sumRms\<close>, \<open>maxRms\<close>.\<close>

definition markers_pass1 ::
  "real list \<Rightarrow> pending_vowel list \<Rightarrow> vowel_marker list \<times> real \<times> real" where
  "markers_pass1 samples pvs =
     foldl (\<lambda>(vmList, sumRms, maxRms) pv.
              let vm = build_marker samples pv
              in (vmList @ [vm], sumRms + vm_rms vm, max maxRms (vm_rms vm)))
           ([], 0, 0) pvs"

text \<open>Lines 643--646: the second pass.\<close>

definition normalise_marker :: "real \<Rightarrow> real \<Rightarrow> vowel_marker \<Rightarrow> vowel_marker" where
  "normalise_marker sumRms maxRms vm =
     vm\<lparr>vm_relSum := (if sumRms > 0 then vm_rms vm / sumRms else 0),
        vm_relMax := (if maxRms > 0 then vm_rms vm / maxRms else 0)\<rparr>"

definition build_markers :: "real list \<Rightarrow> pending_vowel list \<Rightarrow> vowel_marker list" where
  "build_markers samples pvs =
     (let (vmList, sumRms, maxRms) = markers_pass1 samples pvs
      in map (normalise_marker sumRms maxRms) vmList)"

subsection \<open>Example inputs\<close>

text \<open>Concrete inputs at which the witnesses below instantiate the properties.\<close>

definition example_vowel :: pending_vowel where
  "example_vowel = \<lparr>pv_vowel = ''A'', pv_fromFrame = 0, pv_toFrame = 0, pv_midFrame = 0, pv_consonant = [], pv_cv = ''A''\<rparr>"

definition example_marker :: vowel_marker where
  "example_marker =
     \<lparr>vm_fromFrame = 0, vm_toFrame = 0, vm_frame = 0, vm_sampleOffset = 0, vm_normPos = 0, vm_vowel = ''A'', vm_rms = 1, vm_peak = 0, vm_dbfs = 0, vm_relMax = 1, vm_relSum = 1, vm_relVowelSum = 0, vm_cv = ''A''\<rparr>"

subsection \<open>Properties\<close>

lemma EPS_pos [simp]: "0 < EPS"
  by (simp add: EPS_def)

lemma log10_EPS: "log 10 EPS = -12"
proof -
  have "log 10 EPS = log 10 1 - log 10 (10 ^ 12)"
    unfolding EPS_def by (rule log_divide_pos) simp_all
  also have "log 10 ((10::real) ^ 12) = 12"
    by (subst log_pow_cancel) simp_all
  finally show ?thesis by simp
qed

lemma window_rms_nonneg: "0 \<le> window_rms samples start n"
  by (auto simp: window_rms_def Let_def intro!: divide_nonneg_nonneg)

lemma window_rms_le_1:
  assumes "\<forall>v\<in>set samples. \<bar>v\<bar> \<le> 1"
  shows "window_rms samples start n \<le> 1"
proof (cases "n > 0")
  case True
  let ?w = "window_samples samples start n"
  have sq: "\<And>v. v \<in> set ?w \<Longrightarrow> v * v \<le> 1"
  proof -
    fix v assume "v \<in> set ?w"
    then have "\<bar>v\<bar> \<le> 1" using assms
      by (auto simp: window_samples_def dest: in_set_takeD in_set_dropD)
    then have "\<bar>v\<bar> * \<bar>v\<bar> \<le> 1 * 1" by (intro mult_mono) simp_all
    then show "v * v \<le> 1" by (simp add: abs_mult[symmetric])
  qed
  have "sum_list (map (\<lambda>v. v * v) ?w) \<le> real (length ?w)"
    using sq by (rule sum_list_map_le_length)
  also have "real (length ?w) \<le> real_of_int n"
    using True by (simp add: window_samples_def)
  finally have "sum_list (map (\<lambda>v. v * v) ?w) / real_of_int n \<le> 1"
    using True by simp
  then show ?thesis using True by (simp add: window_rms_def Let_def)
qed (simp add: window_rms_def)

lemma dbfs_of_bounds: "0 \<le> rms \<Longrightarrow> rms \<le> 1 \<Longrightarrow> - 240 \<le> dbfs_of rms \<and> dbfs_of rms \<le> 0"
proof -
  assume "0 \<le> rms" "rms \<le> 1"
  have pos: "0 < max rms EPS" by (simp add: max.strict_coboundedI2)
  have "log 10 EPS \<le> log 10 (max rms EPS)" using pos by (subst log_le_cancel_iff) simp_all
  then have lo: "- 12 \<le> log 10 (max rms EPS)" by (simp add: log10_EPS)
  have "max rms EPS \<le> 1" using \<open>rms \<le> 1\<close> by (simp add: EPS_def)
  then have hi: "log 10 (max rms EPS) \<le> 0" using pos by simp
  show ?thesis using lo hi by (simp add: dbfs_of_def REF_def)
qed

lemma dbfs_of_zero: "dbfs_of 0 = - 240"
  by (simp add: dbfs_of_def REF_def log10_EPS max_def less_imp_le)

lemma dbfs_of_floor: "dbfs_of r = - 240 \<longleftrightarrow> r \<le> EPS"
proof
  assume "r \<le> EPS"
  then show "dbfs_of r = - 240"
    by (simp add: dbfs_of_def REF_def log10_EPS max_def)
next
  have e: "0 < EPS" by (simp add: EPS_def)
  assume d: "dbfs_of r = - 240"
  show "r \<le> EPS"
  proof (rule ccontr)
    assume "\<not> r \<le> EPS"
    then have a: "EPS < r" by simp
    have r0: "0 < r" using e a by linarith
    have "log 10 EPS < log 10 r" using e r0 a by simp
    then show False using d \<open>EPS < r\<close> by (simp add: dbfs_of_def REF_def log10_EPS max_def)
  qed
qed

lemma mid_sample_bounds:
  "0 < totalSamples \<Longrightarrow> 0 \<le> mid_sample totalSamples pv \<and> mid_sample totalSamples pv < totalSamples"
  using qBound_bounds[of 0 "totalSamples - 1"] by (auto simp: mid_sample_def)

lemma markers_pass1_foldl:
  "foldl (\<lambda>(vmList, sumRms, maxRms) pv.
            let vm = build_marker samples pv
            in (vmList @ [vm], sumRms + vm_rms vm, max maxRms (vm_rms vm))) (acc, s, m) pvs
   = (acc @ map (build_marker samples) pvs,
      s + sum_list (map (vm_rms \<circ> build_marker samples) pvs),
      foldl max m (map (vm_rms \<circ> build_marker samples) pvs))"
  by (induction pvs arbitrary: acc s m) (simp_all add: Let_def algebra_simps)

lemma markers_pass1_eq:
  "markers_pass1 samples pvs =
     (map (build_marker samples) pvs, sum_list (map (vm_rms \<circ> build_marker samples) pvs),
      foldl max 0 (map (vm_rms \<circ> build_marker samples) pvs))"
  by (simp add: markers_pass1_def markers_pass1_foldl)

lemma foldl_max_ge: "m \<le> foldl max m xs" "x \<in> set xs \<Longrightarrow> x \<le> foldl max m xs" for m :: real
proof (induction xs arbitrary: m)
  case Nil
  { case 1 show ?case by simp }
  { case 2 then show ?case by simp }
next
  case (Cons a xs)
  { case 1 show ?case using Cons.IH(1)[of "max m a"] by simp }
  { case 2 then show ?case using Cons.IH[of "max m a"] by (auto intro: order_trans) }
qed

lemma foldl_max_mem: "foldl max m xs \<in> insert m (set xs)" for m :: real
  by (induction xs arbitrary: m) (auto simp: max_def)


lemma normalise_marker_fields [simp]:
  "vm_rms (normalise_marker s m vm) = vm_rms vm"
  "vm_fromFrame (normalise_marker s m vm) = vm_fromFrame vm"
  "vm_toFrame (normalise_marker s m vm) = vm_toFrame vm"
  "vm_frame (normalise_marker s m vm) = vm_frame vm"
  "vm_vowel (normalise_marker s m vm) = vm_vowel vm"
  "vm_cv (normalise_marker s m vm) = vm_cv vm"
  "vm_dbfs (normalise_marker s m vm) = vm_dbfs vm"
  "vm_sampleOffset (normalise_marker s m vm) = vm_sampleOffset vm"
  "vm_normPos (normalise_marker s m vm) = vm_normPos vm"
  "vm_relVowelSum (normalise_marker s m vm) = vm_relVowelSum vm"
  by (simp_all add: normalise_marker_def)

lemma build_markers_eq:
  "build_markers samples pvs =
     map (normalise_marker (sum_list (map (vm_rms \<circ> build_marker samples) pvs))
                           (foldl max 0 (map (vm_rms \<circ> build_marker samples) pvs))
          \<circ> build_marker samples) pvs"
  by (simp add: build_markers_def markers_pass1_eq)

lemma build_marker_rms_nonneg [simp]: "0 \<le> vm_rms (build_marker samples pv)"
  by (simp add: build_marker_def Let_def window_rms_nonneg split: prod.splits)

lemma build_markers_rms:
  "map vm_rms (build_markers samples pvs) = map (vm_rms \<circ> build_marker samples) pvs"
  by (simp add: build_markers_eq)

lemma build_markers_length [simp]: "length (build_markers samples pvs) = length pvs"
  by (simp add: build_markers_eq)

lemma build_markers_nth:
  "i < length pvs \<Longrightarrow> build_markers samples pvs ! i =
     normalise_marker (sum_list (map (vm_rms \<circ> build_marker samples) pvs))
                      (foldl max 0 (map (vm_rms \<circ> build_marker samples) pvs))
                      (build_marker samples (pvs ! i))"
  by (simp add: build_markers_eq)

text \<open>C9: Every marker built by processForcedAlignmentResult has relMax and relSum in [0, 1].\<close>

lemma build_markers_rel_bounds:
  assumes "m \<in> set (build_markers samples pvs)"
  shows "0 \<le> vm_relMax m \<and> vm_relMax m \<le> 1 \<and> 0 \<le> vm_relSum m \<and> vm_relSum m \<le> 1"
proof -
  let ?R = "map (vm_rms \<circ> build_marker samples) pvs"
  from assms obtain pv where pv: "pv \<in> set pvs"
    and m: "m = normalise_marker (sum_list ?R) (foldl max 0 ?R) (build_marker samples pv)"
    by (auto simp: build_markers_eq)
  let ?r = "vm_rms (build_marker samples pv)"
  have r0: "0 \<le> ?r" by simp
  have "?r \<in> set ?R" using pv by auto
  then have rmax: "?r \<le> foldl max 0 ?R" by (rule foldl_max_ge(2))
  have "?r \<le> sum_list ?R"
    using pv by (intro member_le_sum_list) auto
  then have rsum: "?r \<le> sum_list ?R"
    by (simp add: member_le_sum_list)
  show ?thesis
    using r0 rmax rsum by (simp add: m normalise_marker_def divide_le_eq_1)
qed


text \<open>C11: A marker with the largest RMS, when that RMS is positive, has relMax exactly 1.\<close>

lemma build_markers_relMax_top:
  assumes "m \<in> set (build_markers samples pvs)"
    and "\<forall>m' \<in> set (build_markers samples pvs). vm_rms m' \<le> vm_rms m"
    and "0 < vm_rms m"
  shows "vm_relMax m = 1"
proof -
  let ?R = "map (vm_rms \<circ> build_marker samples) pvs"
  from assms(1) obtain pv where pv: "pv \<in> set pvs"
    and m: "m = normalise_marker (sum_list ?R) (foldl max 0 ?R) (build_marker samples pv)"
    by (auto simp: build_markers_eq)
  have R: "?R = map vm_rms (build_markers samples pvs)" by (simp add: build_markers_rms)
  have "vm_rms m \<in> set ?R" using pv m by auto
  then have le: "vm_rms m \<le> foldl max 0 ?R" by (rule foldl_max_ge(2))
  have "foldl max 0 ?R \<in> insert 0 (set ?R)" by (rule foldl_max_mem)
  then have ge: "foldl max 0 ?R \<le> vm_rms m"
    using assms(2,3) R by auto
  from le ge assms(3) show ?thesis by (simp add: m normalise_marker_def)
qed

lemma sum_list_map_divide: "sum_list (map (\<lambda>r. r / c) xs) = sum_list xs / (c::real)"
  by (induction xs) (simp_all add: add_divide_distrib)

text \<open>C10: When some marker has a positive RMS, the relSum values of all markers add up to 1.\<close>

lemma build_markers_relSum_total:
  assumes "0 < sum_list (map vm_rms (build_markers samples pvs))"
  shows "sum_list (map vm_relSum (build_markers samples pvs)) = 1"
proof -
  let ?R = "map (vm_rms \<circ> build_marker samples) pvs"
  have S: "0 < sum_list ?R" using assms by (simp add: build_markers_rms)
  have "map vm_relSum (build_markers samples pvs) = map (\<lambda>r. r / sum_list ?R) ?R"
    using S by (simp add: build_markers_eq normalise_marker_def)
  also have "sum_list \<dots> = sum_list ?R / sum_list ?R"
    by (rule sum_list_map_divide)
  also have "\<dots> = 1" using S by (simp only: divide_self_if) simp
  finally show ?thesis .
qed

lemma build_markers_member:
  assumes "m \<in> set (build_markers samples pvs)"
  obtains pv where "pv \<in> set pvs"
    and "vm_rms m = vm_rms (build_marker samples pv)" "vm_dbfs m = dbfs_of (vm_rms m)"
    and "vm_sampleOffset m = mid_sample (int (length samples)) pv"
    and "vm_normPos m = real_of_int (vm_sampleOffset m) / real (length samples)"
  using assms by (auto simp: build_markers_eq build_marker_def Let_def split: prod.splits)

lemma build_marker_rms_le_1:
  "\<forall>v\<in>set samples. \<bar>v\<bar> \<le> 1 \<Longrightarrow> vm_rms (build_marker samples pv) \<le> 1"
  by (simp add: build_marker_def Let_def window_rms_le_1 split: prod.splits)

text \<open>C12: For samples in [-1, 1], every marker's RMS lies in [0, 1] and its dBFS in [-240, 0], and the dBFS is exactly -240 when the RMS is at most EPS = 1e-12 (so also for RMS 0) and above -240 otherwise: the EPS floor of the code, as spec sections 4.3 and 8 say, not the -inf that the comment in ADXLipModel.h and the VowelMarker entry of spec section 3 give for RMS 0.\<close>

lemma build_markers_audio_bounds:
  assumes "\<forall>v\<in>set samples. \<bar>v\<bar> \<le> 1" and "m \<in> set (build_markers samples pvs)"
  shows "0 \<le> vm_rms m \<and> vm_rms m \<le> 1 \<and> - 240 \<le> vm_dbfs m \<and> vm_dbfs m \<le> 0 \<and>
         (vm_dbfs m = - 240 \<longleftrightarrow> vm_rms m \<le> EPS)"
proof -
  from assms(2) obtain pv where r: "vm_rms m = vm_rms (build_marker samples pv)"
    and d: "vm_dbfs m = dbfs_of (vm_rms m)"
    by (rule build_markers_member)
  have "0 \<le> vm_rms m" "vm_rms m \<le> 1"
    using r build_marker_rms_le_1[OF assms(1)] by simp_all
  then show ?thesis using d dbfs_of_bounds dbfs_of_floor by simp
qed

text \<open>C13: For a non-empty WAV, every marker's sample offset lies in [0, totalSamples) and its normalised position in [0, 1).\<close>

lemma build_markers_position:
  assumes "0 < length samples" and "m \<in> set (build_markers samples pvs)"
  shows "0 \<le> vm_sampleOffset m \<and> vm_sampleOffset m < int (length samples) \<and>
         0 \<le> vm_normPos m \<and> vm_normPos m < 1"
proof -
  from assms(2) obtain pv where o: "vm_sampleOffset m = mid_sample (int (length samples)) pv"
    and n: "vm_normPos m = real_of_int (vm_sampleOffset m) / real (length samples)"
    by (rule build_markers_member)
  have b: "0 \<le> vm_sampleOffset m" "vm_sampleOffset m < int (length samples)"
    using mid_sample_bounds[of "int (length samples)" pv] assms(1) o by simp_all
  then have "real_of_int (vm_sampleOffset m) < real (length samples)" by linarith
  with b assms(1) show ?thesis by (simp add: n)
qed

lemma sample_window_no_wrap:
  assumes "0 \<le> pv_fromFrame pv" "pv_fromFrame pv < 13421772"
    and "0 \<le> pv_toFrame pv" "pv_toFrame pv < 13421772"
  shows "sample_window totalSamples pv =
           (qBound 0 (pv_fromFrame pv * 160) totalSamples,
            qBound 0 ((max (pv_fromFrame pv) (pv_toFrame pv) + 1) * 160) totalSamples)"
proof -
  have a: "in_int32 (pv_fromFrame pv * 160)" "in_int32 (pv_toFrame pv + 1)"
    "in_int32 (pv_toFrame pv * 160 + 160)" "in_int32 (pv_fromFrame pv * 160 + 160)"
    using assms by (simp_all add: in_int32_def int32_min_def int32_max_def)
  show ?thesis
    using assms by (simp add: sample_window_def FRAME_SHIFT_SAMPLES_def a Let_def max_def)
qed

lemma sample_window_wraps:
  "sample_window 1000000 \<lparr>pv_vowel = ''A'', pv_fromFrame = 0, pv_toFrame = 13421772,
      pv_midFrame = 6710886, pv_consonant = [], pv_cv = ''A''\<rparr> = (0, 160)"
  by (simp add: sample_window_def FRAME_SHIFT_SAMPLES_def wrap32_def qBound_def)

subsection \<open>Witnesses\<close>

text \<open>Concrete evaluations used by the witnesses below.\<close>

lemma wrap32_small: "wrap32 0 = 0" "wrap32 1 = 1" "wrap32 160 = 160"
  by (simp_all add: in_int32_def int32_min_def int32_max_def)

lemma ex_window: "sample_window 1 example_vowel = (0, 1)"
  by (simp add: sample_window_def example_vowel_def FRAME_SHIFT_SAMPLES_def wrap32_small qBound_def)

lemma ex_mid: "mid_sample 1 example_vowel = 0"
  by (simp add: mid_sample_def example_vowel_def FRAME_SHIFT_SAMPLES_def wrap32_small qBound_def)

lemma ex_rms: "window_rms [1] 0 1 = 1"
  by (simp add: window_rms_def window_samples_def)

lemma ex_dbfs: "dbfs_of 1 = 0"
  by (simp add: dbfs_of_def EPS_def REF_def)

lemma ex_marker: "build_marker [1] example_vowel = example_marker\<lparr>vm_relMax := 0, vm_relSum := 0\<rparr>"
  by (simp add: build_marker_def ex_window ex_mid ex_rms ex_dbfs) (simp add: example_vowel_def example_marker_def)

lemma build_markers_example:
  "build_markers [1] [example_vowel] = [example_marker]"
  by (simp add: build_markers_def markers_pass1_def ex_marker normalise_marker_def)
     (simp add: example_marker_def)
lemma build_markers_rel_bounds_witness:
  "example_marker \<in> set (build_markers [1] [example_vowel]) \<and>
   0 \<le> vm_relMax example_marker \<and> vm_relMax example_marker \<le> 1 \<and>
   0 \<le> vm_relSum example_marker \<and> vm_relSum example_marker \<le> 1"
  using build_markers_rel_bounds[where samples = "[1]" and pvs = "[example_vowel]" and m = example_marker]
  unfolding build_markers_example by (simp add: example_marker_def example_vowel_def)

lemma build_markers_relSum_total_witness:
  "0 < sum_list (map vm_rms (build_markers [1] [example_vowel])) \<and>
   sum_list (map vm_relSum (build_markers [1] [example_vowel])) = 1"
  using build_markers_relSum_total[where samples = "[1]" and pvs = "[example_vowel]"]
  unfolding build_markers_example by (simp add: example_marker_def example_vowel_def)

lemma build_markers_relMax_top_witness:
  "example_marker \<in> set (build_markers [1] [example_vowel]) \<and>
   build_markers [1] [example_vowel] = [example_marker] \<and>
   0 < vm_rms example_marker \<and> vm_relMax example_marker = 1"
  using build_markers_relMax_top[where samples = "[1]" and pvs = "[example_vowel]" and m = example_marker]
  unfolding build_markers_example by (simp add: example_marker_def example_vowel_def)

lemma build_markers_audio_bounds_witness:
  "\<bar>1::real\<bar> \<le> 1 \<and> example_marker \<in> set (build_markers [1] [example_vowel]) \<and>
   0 \<le> vm_rms example_marker \<and> vm_rms example_marker \<le> 1 \<and> - 240 \<le> vm_dbfs example_marker \<and> vm_dbfs example_marker \<le> 0 \<and>
   (vm_dbfs example_marker = - 240 \<longleftrightarrow> vm_rms example_marker \<le> EPS)"
  using build_markers_audio_bounds[where samples = "[1]" and pvs = "[example_vowel]" and m = example_marker]
  unfolding build_markers_example by (simp add: example_marker_def example_vowel_def)

lemma build_markers_position_witness:
  "0 < length [1::real] \<and> example_marker \<in> set (build_markers [1] [example_vowel]) \<and>
   0 \<le> vm_sampleOffset example_marker \<and> vm_sampleOffset example_marker < int (length [1::real]) \<and>
   0 \<le> vm_normPos example_marker \<and> vm_normPos example_marker < 1"
  using build_markers_position[where samples = "[1]" and pvs = "[example_vowel]" and m = example_marker]
  unfolding build_markers_example by (simp add: example_marker_def example_vowel_def)

lemma sample_window_no_wrap_witness:
  "0 \<le> pv_fromFrame example_vowel \<and> pv_fromFrame example_vowel < 13421772 \<and>
   0 \<le> pv_toFrame example_vowel \<and> pv_toFrame example_vowel < 13421772 \<and>
   sample_window 1000 example_vowel = (qBound 0 0 1000, qBound 0 160 1000)"
  using sample_window_no_wrap[where totalSamples = 1000 and pv = example_vowel] by (simp add: example_marker_def example_vowel_def)

end
