(* ===== verification/FrameTrack.thy ===== *)
theory FrameTrack
  imports AcousticMarkers
begin

text \<open>
  The second half of \<open>processForcedAlignmentResult\<close> (\<open>JuliusAnalyzeWindow.cpp\<close>,
  lines 652--727): one \<open>ADXLipFrame\<close> row per 1/60 s tick over the whole audio. Each
  row maps its time to a recognizer frame with the fixed 160-sample shift, takes the
  first marker (in list order) whose inclusive frame range contains that frame, puts
  the marker's \<open>relMax\<close> into the channel of its vowel and its dBFS into \<open>vol_dB\<close>.
  With silence correction on, a row whose six channels are all zero copies the channels
  and \<open>vol_dB\<close> of the last non-silent row (\<open>lastFrame\<close>, \<open>hasLastFrame\<close>). The loop
  is a recursive function over the list of tick indices carrying that state, as the
  code carries it across iterations. Times are \<open>double\<close> in the code and \<open>real\<close>
  here; \<open>int(std::floor(..))\<close>, \<open>int(std::round(..))\<close> and \<open>int(std::ceil(..))\<close>
  are \<open>floor\<close>, \<open>round\<close> and \<open>ceiling\<close> (the arguments are non-negative, where
  \<open>std::round\<close> and \<open>round\<close> agree).
\<close>

definition OUT_FPS :: real where
  "OUT_FPS = 60"

text \<open>Lines 655--657.\<close>

definition frame60_count :: "int \<Rightarrow> int \<Rightarrow> int" where
  "frame60_count totalSamples sampleRate =
     \<lceil>real_of_int totalSamples / real_of_int sampleRate * OUT_FPS\<rceil>"

text \<open>Lines 670--671 and 675.\<close>

definition jul_frame :: "int \<Rightarrow> int \<Rightarrow> int" where
  "jul_frame f60 sampleRate =
     \<lfloor>real_of_int f60 / OUT_FPS * real_of_int sampleRate / real_of_int FRAME_SHIFT_SAMPLES\<rfloor>"

definition msec_of :: "int \<Rightarrow> int" where
  "msec_of f60 = round (real_of_int f60 / OUT_FPS * 1000)"

text \<open>Lines 673--680: the row before any marker is applied.\<close>

definition init_row :: "int \<Rightarrow> adx_frame" where
  "init_row f60 = default_frame\<lparr>frameIndex := f60, msec := msec_of f60\<rparr>"

text \<open>Lines 686--692: the body of the matching branch.\<close>

definition apply_marker :: "vowel_marker \<Rightarrow> adx_frame \<Rightarrow> adx_frame" where
  "apply_marker vm row =
     (let r1 = (if vm_vowel vm = ''A'' then row\<lparr>chA := vm_relMax vm\<rparr> else row);
          r2 = (if vm_vowel vm = ''I'' then r1\<lparr>chI := vm_relMax vm\<rparr> else r1);
          r3 = (if vm_vowel vm = ''U'' then r2\<lparr>chU := vm_relMax vm\<rparr> else r2);
          r4 = (if vm_vowel vm = ''E'' then r3\<lparr>chE := vm_relMax vm\<rparr> else r3);
          r5 = (if vm_vowel vm = ''O'' then r4\<lparr>chO := vm_relMax vm\<rparr> else r4);
          r6 = (if vm_vowel vm = ''N'' then r5\<lparr>chN := vm_relMax vm\<rparr> else r5)
      in r6\<lparr>vol_dB := vm_dbfs vm\<rparr>)"

text \<open>Lines 683--695: the scan over the markers, stopping at the first match (\<open>break\<close>).\<close>

fun assign_marker :: "int \<Rightarrow> vowel_marker list \<Rightarrow> adx_frame \<Rightarrow> adx_frame" where
  "assign_marker julFrame [] row = row"
| "assign_marker julFrame (vm # vms) row =
     (if vm_fromFrame vm \<le> julFrame \<and> julFrame \<le> vm_toFrame vm then apply_marker vm row
      else assign_marker julFrame vms row)"

definition base_row :: "vowel_marker list \<Rightarrow> int \<Rightarrow> int \<Rightarrow> adx_frame" where
  "base_row markers sampleRate f60 = assign_marker (jul_frame f60 sampleRate) markers (init_row f60)"

text \<open>Line 699.\<close>

definition is_silent :: "adx_frame \<Rightarrow> bool" where
  "is_silent row \<longleftrightarrow> chA row = 0 \<and> chI row = 0 \<and> chU row = 0 \<and> chE row = 0 \<and> chO row = 0 \<and> chN row = 0"

text \<open>Lines 702--708: the six channels and \<open>vol_dB\<close> copied from \<open>lastFrame\<close>.\<close>

definition hold_from :: "adx_frame \<Rightarrow> adx_frame \<Rightarrow> adx_frame" where
  "hold_from lastFrame row =
     row\<lparr>chA := chA lastFrame, chI := chI lastFrame, chU := chU lastFrame, chE := chE lastFrame,
         chO := chO lastFrame, chN := chN lastFrame, vol_dB := vol_dB lastFrame\<rparr>"

text \<open>Lines 698--715: the correction step and the state it updates.\<close>

definition silence_step ::
  "bool \<Rightarrow> adx_frame \<times> bool \<Rightarrow> adx_frame \<Rightarrow> adx_frame \<times> adx_frame \<times> bool" where
  "silence_step applySilenceCorrection st row =
     (let (lastFrame, hasLastFrame) = st in
      if applySilenceCorrection then
        (if is_silent row \<and> hasLastFrame then (hold_from lastFrame row, lastFrame, hasLastFrame)
         else if \<not> is_silent row then (row, row, True)
         else (row, lastFrame, hasLastFrame))
      else (row, lastFrame, hasLastFrame))"

text \<open>Lines 669--718: the loop over the tick indices.\<close>

fun synth_rows ::
  "bool \<Rightarrow> vowel_marker list \<Rightarrow> int \<Rightarrow> adx_frame \<times> bool \<Rightarrow> int list \<Rightarrow> adx_frame list" where
  "synth_rows applySilenceCorrection markers sampleRate st [] = []"
| "synth_rows applySilenceCorrection markers sampleRate st (f60 # fs) =
     (let (row, st') = silence_step applySilenceCorrection st (base_row markers sampleRate f60)
      in row # synth_rows applySilenceCorrection markers sampleRate st' fs)"

text \<open>Lines 652--718: the whole track (\<open>lastFrame\<close> starts default-initialised).\<close>

definition build_frames :: "bool \<Rightarrow> vowel_marker list \<Rightarrow> int \<Rightarrow> int \<Rightarrow> adx_frame list" where
  "build_frames applySilenceCorrection markers totalSamples sampleRate =
     synth_rows applySilenceCorrection markers sampleRate (default_frame, False)
       (map int [0..<nat (frame60_count totalSamples sampleRate)])"

subsection \<open>Abstract specification of the silence hold\<close>

text \<open>
  What the correction promises, stated without the loop state: a silent row takes the
  channels and volume of the last non-silent row before it, if there is one; every
  other row is left as it is. \<open>hold_pass\<close> is the correction part of the loop alone,
  run over a list of rows.
\<close>

definition last_voiced :: "adx_frame option \<Rightarrow> adx_frame list \<Rightarrow> adx_frame option" where
  "last_voiced start rows =
     (let voiced = filter (\<lambda>r. \<not> is_silent r) rows in if voiced = [] then start else Some (last voiced))"

definition hold_at :: "adx_frame option \<Rightarrow> adx_frame \<Rightarrow> adx_frame" where
  "hold_at prev row = (case prev of Some l \<Rightarrow> if is_silent row then hold_from l row else row | None \<Rightarrow> row)"

definition hold_spec :: "adx_frame list \<Rightarrow> adx_frame list" where
  "hold_spec rows = map (\<lambda>i. hold_at (last_voiced None (take i rows)) (rows ! i)) [0..<length rows]"

fun hold_pass :: "adx_frame \<times> bool \<Rightarrow> adx_frame list \<Rightarrow> adx_frame list" where
  "hold_pass st [] = []"
| "hold_pass st (row # rows) = (let (row', st') = silence_step True st row in row' # hold_pass st' rows)"

text \<open>At most one of the six channels of a row is non-zero.\<close>

definition single_channel :: "adx_frame \<Rightarrow> bool" where
  "single_channel r \<longleftrightarrow> length (filter (\<lambda>x. x \<noteq> 0) (channels r)) \<le> 1"

text \<open>Every channel of a row lies in [0, 1].\<close>

definition channels_in_unit :: "adx_frame \<Rightarrow> bool" where
  "channels_in_unit r \<longleftrightarrow> list_all (\<lambda>x. 0 \<le> x \<and> x \<le> 1) (channels r)"

subsection \<open>Properties\<close>

lemma jul_frame_div: "jul_frame f60 sampleRate = (f60 * sampleRate) div 9600"
proof -
  have "real_of_int f60 / OUT_FPS * real_of_int sampleRate / real_of_int FRAME_SHIFT_SAMPLES
        = real_of_int (f60 * sampleRate) / real_of_int 9600"
    by (simp add: OUT_FPS_def FRAME_SHIFT_SAMPLES_def)
  then show ?thesis by (simp only: jul_frame_def floor_divide_of_int_eq)
qed

lemma msec_of_div: "msec_of f60 = (100 * f60 + 3) div 6"
proof -
  have "real_of_int f60 / OUT_FPS * 1000 + 1 / 2 = real_of_int (100 * f60 + 3) / real_of_int 6"
    by (simp add: OUT_FPS_def field_simps)
  then show ?thesis by (simp only: msec_of_def round_def floor_divide_of_int_eq)
qed

text \<open>C17: For a positive sample rate, the track has the least number of 60 fps frames whose duration covers the audio.\<close>

lemma frame60_count_covers:
  assumes "0 < sampleRate"
  shows "real_of_int (frame60_count totalSamples sampleRate - 1) / 60
           < real_of_int totalSamples / real_of_int sampleRate \<and>
         real_of_int totalSamples / real_of_int sampleRate
           \<le> real_of_int (frame60_count totalSamples sampleRate) / 60"
proof -
  let ?x = "real_of_int totalSamples / real_of_int sampleRate * 60"
  have c: "real_of_int \<lceil>?x\<rceil> - 1 < ?x" "?x \<le> real_of_int \<lceil>?x\<rceil>"
    by (rule ceiling_correct[THEN conjunct1] ceiling_correct[THEN conjunct2])+
  show ?thesis
    using c by (simp add: frame60_count_def OUT_FPS_def field_simps)
qed


lemma apply_marker_keeps [simp]:
  "frameIndex (apply_marker vm row) = frameIndex row" "msec (apply_marker vm row) = msec row"
  by (simp_all add: apply_marker_def Let_def)

lemma assign_marker_keeps [simp]:
  "frameIndex (assign_marker jf vms row) = frameIndex row" "msec (assign_marker jf vms row) = msec row"
  by (induction vms) simp_all

lemma hold_from_keeps [simp]:
  "frameIndex (hold_from l row) = frameIndex row" "msec (hold_from l row) = msec row"
  by (simp_all add: hold_from_def)

lemma base_row_index [simp]:
  "frameIndex (base_row ms sr f60) = f60" "msec (base_row ms sr f60) = msec_of f60"
  by (simp_all add: base_row_def init_row_def default_frame_def)

lemma silence_step_row:
  "fst (silence_step ap st row) = (if ap \<and> is_silent row \<and> snd st then hold_from (fst st) row else row)"
  by (cases st) (simp add: silence_step_def)

lemma synth_rows_length [simp]: "length (synth_rows ap ms sr st fs) = length fs"
  by (induction fs arbitrary: st) (simp_all add: split_def Let_def)

lemma synth_rows_index:
  "i < length fs \<Longrightarrow> frameIndex (synth_rows ap ms sr st fs ! i) = fs ! i \<and>
                     msec (synth_rows ap ms sr st fs ! i) = msec_of (fs ! i)"
proof (induction fs arbitrary: st i)
  case Nil
  then show ?case by simp
next
  case (Cons f fs)
  then show ?case by (cases i) (simp_all add: split_def silence_step_row)
qed

lemma assign_marker_find:
  "assign_marker jf vms row =
     (case find (\<lambda>vm. vm_fromFrame vm \<le> jf \<and> jf \<le> vm_toFrame vm) vms of
        None \<Rightarrow> row | Some vm \<Rightarrow> apply_marker vm row)"
  by (induction vms) simp_all

lemma synth_rows_no_correction:
  "synth_rows False ms sr st fs = map (base_row ms sr) fs"
  by (induction fs arbitrary: st) (simp_all add: silence_step_def split_def)

lemma synth_rows_hold_pass:
  "synth_rows True ms sr st fs = hold_pass st (map (base_row ms sr) fs)"
  by (induction fs arbitrary: st) (simp_all add: split_def)

lemma last_voiced_Nil [simp]: "last_voiced start [] = start"
  by (simp add: last_voiced_def)

lemma last_voiced_Cons:
  "last_voiced start (r # rs) = last_voiced (if is_silent r then start else Some r) rs"
  by (simp add: last_voiced_def Let_def)

lemma hold_pass_spec:
  "hold_pass (l, h) rows =
     map (\<lambda>i. hold_at (last_voiced (if h then Some l else None) (take i rows)) (rows ! i))
         [0..<length rows]"
proof (induction rows arbitrary: l h)
  case Nil
  then show ?case by simp
next
  case (Cons r rows)
  let ?o = "if h then Some l else None"
  let ?st' = "snd (silence_step True (l, h) r)"
  have o': "(if snd ?st' then Some (fst ?st') else None) = (if is_silent r then ?o else Some r)"
    by (simp add: silence_step_def)
  have hd: "fst (silence_step True (l, h) r) = hold_at ?o r"
    by (simp add: silence_step_def hold_at_def)
  have "hold_pass (l, h) (r # rows) = hold_at ?o r # hold_pass ?st' rows"
    using hd by (simp add: split_def)
  also have "hold_pass ?st' rows =
      map (\<lambda>i. hold_at (last_voiced (if is_silent r then ?o else Some r) (take i rows)) (rows ! i))
          [0..<length rows]"
    using Cons.IH[of "fst ?st'" "snd ?st'"] o' by simp
  finally show ?case
    by (simp add: map_upt_Suc last_voiced_Cons del: upt_Suc)
qed

lemma build_frames_hold_spec:
  "build_frames True ms totalSamples sr =
     hold_spec (map (base_row ms sr) (map int [0..<nat (frame60_count totalSamples sr)]))"
  by (simp add: build_frames_def synth_rows_hold_pass hold_pass_spec hold_spec_def)

text \<open>C6: The 60 fps track built with silence correction is the abstract hold specification applied to the track built without it: a silent row takes the channels and volume of the last non-silent row before it, every other row is unchanged.\<close>

lemma build_frames_correction:
  "build_frames True ms totalSamples sr = hold_spec (build_frames False ms totalSamples sr)"
  by (simp only: build_frames_hold_spec) (simp add: build_frames_def synth_rows_no_correction)


lemma channels_apply_marker:
  "channels (apply_marker vm row) =
     [if vm_vowel vm = ''A'' then vm_relMax vm else chA row,
      if vm_vowel vm = ''I'' then vm_relMax vm else chI row,
      if vm_vowel vm = ''U'' then vm_relMax vm else chU row,
      if vm_vowel vm = ''E'' then vm_relMax vm else chE row,
      if vm_vowel vm = ''O'' then vm_relMax vm else chO row,
      if vm_vowel vm = ''N'' then vm_relMax vm else chN row]"
  by (simp add: apply_marker_def channels_def Let_def)

lemma channels_hold_from [simp]: "channels (hold_from l row) = channels l"
  by (simp add: hold_from_def channels_def)

lemma channels_init_row [simp]: "channels (init_row f60) = replicate 6 0"
  by (simp add: init_row_def default_frame_def channels_def numeral_eq_Suc)

lemma single_channel_apply_marker:
  assumes "channels row = replicate 6 0"
  shows "single_channel (apply_marker vm row)"
proof -
  from assms have z: "chA row = 0" "chI row = 0" "chU row = 0" "chE row = 0" "chO row = 0" "chN row = 0"
    by (simp_all add: channels_def numeral_eq_Suc)
  show ?thesis unfolding single_channel_def channels_apply_marker z by auto
qed

lemma base_row_cases:
  "base_row ms sr f60 = init_row f60 \<or> (\<exists>vm \<in> set ms. base_row ms sr f60 = apply_marker vm (init_row f60))"
  by (auto simp: base_row_def assign_marker_find dest: find_Some_iff[THEN iffD1]
      split: option.splits intro: nth_mem)

lemma single_channel_base_row: "single_channel (base_row ms sr f60)"
proof (cases "base_row ms sr f60 = init_row f60")
  case True
  then show ?thesis by (simp add: single_channel_def)
next
  case False
  then obtain vm where "base_row ms sr f60 = apply_marker vm (init_row f60)"
    using base_row_cases by blast
  then show ?thesis using single_channel_apply_marker[OF channels_init_row] by simp
qed

lemma synth_rows_invariant:
  assumes "P (fst st)" "\<And>f60. P (base_row ms sr f60)"
    and "\<And>l row. P l \<Longrightarrow> P (hold_from l row)"
  shows "\<forall>r \<in> set (synth_rows ap ms sr st fs). P r"
  using assms(1)
proof (induction fs arbitrary: st)
  case Nil
  then show ?case by simp
next
  case (Cons f fs)
  let ?row = "base_row ms sr f"
  obtain l h where st: "st = (l, h)" by fastforce
  have row: "P (fst (silence_step ap st ?row))"
    using Cons.prems assms(2,3) by (simp add: silence_step_row)
  have "P (fst (snd (silence_step ap st ?row)))"
    using Cons.prems assms(2) st by (simp add: silence_step_def)
  then have "\<forall>r \<in> set (synth_rows ap ms sr (snd (silence_step ap st ?row)) fs). P r"
    by (rule Cons.IH)
  with row show ?case by (simp add: split_def Let_def)
qed

lemma single_channel_default [simp]: "single_channel default_frame"
  by (simp add: single_channel_def default_frame_def channels_def)

text \<open>C14: Every row of the synthesised track, with or without silence correction, has at most one non-zero vowel channel.\<close>

lemma build_frames_single_channel:
  "r \<in> set (build_frames ap ms totalSamples sr) \<Longrightarrow> single_channel r"
proof -
  have "\<forall>r \<in> set (synth_rows ap ms sr (default_frame, False) fs). single_channel r" for fs
  proof (rule synth_rows_invariant)
    show "single_channel (fst (default_frame, False))" by simp
    show "single_channel (base_row ms sr f60)" for f60 by (rule single_channel_base_row)
    show "single_channel (hold_from l row)" if "single_channel l" for l row
      using that by (simp add: single_channel_def)
  qed
  then show "r \<in> set (build_frames ap ms totalSamples sr) \<Longrightarrow> single_channel r"
    by (simp add: build_frames_def)
qed


lemma build_frames_length [simp]:
  "length (build_frames ap ms totalSamples sr) = nat (frame60_count totalSamples sr)"
  by (simp add: build_frames_def)

text \<open>C16: Row i of the track has frameIndex i and msec round(i * 1000 / 60), computed exactly as (100 i + 3) div 6.\<close>

lemma build_frames_index:
  "i < length (build_frames ap ms totalSamples sr) \<Longrightarrow>
   frameIndex (build_frames ap ms totalSamples sr ! i) = int i \<and>
   msec (build_frames ap ms totalSamples sr ! i) = (100 * int i + 3) div 6"
  using synth_rows_index[of i "map int [0..<nat (frame60_count totalSamples sr)]" ap ms sr]
  by (simp add: build_frames_def msec_of_div)

lemma channels_in_unit_apply_marker:
  "channels_in_unit row \<Longrightarrow> 0 \<le> vm_relMax vm \<Longrightarrow> vm_relMax vm \<le> 1 \<Longrightarrow>
   channels_in_unit (apply_marker vm row)"
  by (simp add: channels_in_unit_def channels_apply_marker) (simp add: channels_def)

text \<open>C15: When every marker's relMax lies in [0, 1], every channel of every row of the track lies in [0, 1].\<close>

lemma build_frames_channel_bounds:
  assumes "\<forall>vm \<in> set ms. 0 \<le> vm_relMax vm \<and> vm_relMax vm \<le> 1"
    and "r \<in> set (build_frames ap ms totalSamples sr)"
  shows "channels_in_unit r"
proof -
  have base: "channels_in_unit (base_row ms sr f60)" for f60
  proof (cases "base_row ms sr f60 = init_row f60")
    case True
    then show ?thesis by (simp add: channels_in_unit_def numeral_eq_Suc)
  next
    case False
    then obtain vm where vm: "vm \<in> set ms" "base_row ms sr f60 = apply_marker vm (init_row f60)"
      using base_row_cases by blast
    have "channels_in_unit (init_row f60)" by (simp add: channels_in_unit_def numeral_eq_Suc)
    then show ?thesis using vm assms(1) channels_in_unit_apply_marker by simp
  qed
  have "\<forall>r \<in> set (synth_rows ap ms sr (default_frame, False) fs). channels_in_unit r" for fs
  proof (rule synth_rows_invariant)
    show "channels_in_unit (fst (default_frame, False))"
      by (simp add: channels_in_unit_def default_frame_def channels_def)
    show "channels_in_unit (base_row ms sr f60)" for f60 by (rule base)
    show "channels_in_unit (hold_from l row)" if "channels_in_unit l" for l row
      using that by (simp add: channels_in_unit_def)
  qed
  then show ?thesis using assms(2) by (simp add: build_frames_def)
qed

lemma last_voiced_take:
  assumes "j < i" "i \<le> length rows" "\<not> is_silent (rows ! j)"
    and "\<forall>k. j < k \<and> k < i \<longrightarrow> is_silent (rows ! k)"
  shows "last_voiced None (take i rows) = Some (rows ! j)"
proof -
  have t: "take (Suc j) (take i rows) = take j rows @ [rows ! j]"
    using assms(1,2) by (simp add: min_def take_Suc_conv_app_nth)
  have split: "take i rows = (take j rows @ [rows ! j]) @ drop (Suc j) (take i rows)"
    by (simp only: t[symmetric] append_take_drop_id)
  have "\<forall>r \<in> set (drop (Suc j) (take i rows)). is_silent r"
    using assms(1,2,4) by (auto simp: in_set_conv_nth)
  then have "filter (\<lambda>r. \<not> is_silent r) (drop (Suc j) (take i rows)) = []"
    by (simp add: filter_empty_conv)
  then show ?thesis using assms(3)
    by (subst split) (simp add: last_voiced_def)
qed

lemma hold_spec_nth:
  "i < length rows \<Longrightarrow> hold_spec rows ! i = hold_at (last_voiced None (take i rows)) (rows ! i)"
  by (simp add: hold_spec_def)

text \<open>C7: With silence correction, a row i that is silent and preceded only by silent rows back to a non-silent row j carries the channels and volume of row j, the rest of row i unchanged.\<close>

lemma build_frames_silence_hold:
  assumes "j < i" "i < length (build_frames False ms totalSamples sr)"
    and "\<not> is_silent (build_frames False ms totalSamples sr ! j)"
    and "\<forall>k. j < k \<and> k \<le> i \<longrightarrow> is_silent (build_frames False ms totalSamples sr ! k)"
  shows "build_frames True ms totalSamples sr ! i =
           hold_from (build_frames False ms totalSamples sr ! j) (build_frames False ms totalSamples sr ! i)"
proof -
  let ?B = "build_frames False ms totalSamples sr"
  have T: "build_frames True ms totalSamples sr = hold_spec ?B"
    by (simp only: build_frames_hold_spec) (simp add: build_frames_def synth_rows_no_correction)
  have "last_voiced None (take i ?B) = Some (?B ! j)"
    using assms by (intro last_voiced_take) auto
  moreover have "is_silent (?B ! i)" using assms(1,4) by simp
  ultimately show ?thesis
    using assms(2) T by (simp add: hold_spec_nth hold_at_def)
qed

subsection \<open>Witnesses\<close>

text \<open>Concrete evaluations used by the witnesses below.\<close>

lemma frame60_count_example: "frame60_count 320 16000 = 2"
  by (simp add: frame60_count_def OUT_FPS_def ceiling_eq_iff)

lemma build_frames_example:
  "build_frames False [example_marker] 320 16000 =
   [default_frame\<lparr>chA := 1\<rparr>, default_frame\<lparr>frameIndex := 1, msec := 17\<rparr>]"
  by (simp add: build_frames_def frame60_count_example base_row_def jul_frame_div msec_of_div init_row_def
      apply_marker_def default_frame_def silence_step_def upt_rec is_silent_def example_marker_def)

lemma build_frames_correction_witness:
  "build_frames True [example_marker] 320 16000 = hold_spec (build_frames False [example_marker] 320 16000)"
  by (rule build_frames_correction)

lemma build_frames_silence_hold_witness:
  "(0::nat) < 1 \<and> 1 < length (build_frames False [example_marker] 320 16000) \<and>
   build_frames True [example_marker] 320 16000 ! 1 =
     hold_from (default_frame\<lparr>chA := 1\<rparr>) (default_frame\<lparr>frameIndex := 1, msec := 17\<rparr>)"
proof -
  have k: "\<forall>k. 0 < k \<and> k \<le> (1::nat) \<longrightarrow>
      is_silent ([default_frame\<lparr>chA := 1\<rparr>, default_frame\<lparr>frameIndex := 1, msec := 17\<rparr>] ! k)"
    by (auto simp: is_silent_def default_frame_def le_Suc_eq)
  show ?thesis
    using build_frames_silence_hold[where j = 0 and i = 1 and totalSamples = 320 and sr = 16000 and
        ms = "[example_marker]"] k
    unfolding build_frames_example by (simp add: is_silent_def default_frame_def example_marker_def example_vowel_def)
qed

lemma build_frames_single_channel_witness:
  "default_frame\<lparr>chA := 1\<rparr> \<in> set (build_frames False [example_marker] 320 16000) \<and>
   single_channel (default_frame\<lparr>chA := 1\<rparr>)"
  using build_frames_single_channel[where ap = False and ms = "[example_marker]" and totalSamples = 320 and sr = 16000
      and r = "default_frame\<lparr>chA := 1\<rparr>"]
  unfolding build_frames_example by (simp add: example_marker_def example_vowel_def)

lemma build_frames_channel_bounds_witness:
  "0 \<le> vm_relMax example_marker \<and> vm_relMax example_marker \<le> 1 \<and>
   default_frame\<lparr>chA := 1\<rparr> \<in> set (build_frames False [example_marker] 320 16000) \<and>
   channels_in_unit (default_frame\<lparr>chA := 1\<rparr>)"
  using build_frames_channel_bounds[where ap = False and ms = "[example_marker]" and totalSamples = 320 and sr = 16000
      and r = "default_frame\<lparr>chA := 1\<rparr>"]
  unfolding build_frames_example by (simp add: example_marker_def example_vowel_def)

lemma build_frames_index_witness:
  "1 < length (build_frames True [] 320 16000) \<and>
   frameIndex (build_frames True [] 320 16000 ! 1) = 1 \<and> msec (build_frames True [] 320 16000 ! 1) = 17"
  using build_frames_index[where i = 1 and ap = True and ms = "[]" and totalSamples = 320 and sr = 16000]
  by (simp add: frame60_count_example example_marker_def example_vowel_def)

lemma frame60_count_covers_witness:
  "0 < (16000::int) \<and>
   real_of_int (frame60_count 320 16000 - 1) / 60 < real_of_int 320 / real_of_int 16000 \<and>
   real_of_int 320 / real_of_int 16000 \<le> real_of_int (frame60_count 320 16000) / 60"
  using frame60_count_covers[where totalSamples = 320 and sampleRate = 16000] by (simp add: example_marker_def example_vowel_def)

end
