(* ===== verification/AlignmentParser.thy ===== *)
theory AlignmentParser
  imports FrameTrack
begin

text \<open>
  The analysis state of \<open>JuliusAnalyzeWindow\<close> and the operations that change it:
  \<open>parseForcedAlignment\<close> (\<open>JuliusAnalyzeWindow.cpp\<close>, lines 492--584), the
  finalisation \<open>processForcedAlignmentResult\<close> (lines 587--727, whose computations are
  \<open>build_markers\<close> and \<open>build_frames\<close>), the standard-output handler of
  \<open>onRunJulius\<close> (lines 408--426) that splits a chunk into lines, the marker reset of
  \<open>onRunJulius\<close> (line 407) and the silence-correction check box (lines 212--215).
  The window's fields (\<open>JuliusAnalyzeWindow.h\<close>, lines 339--352) are the record
  \<open>analyzer\<close>; the marker list shown by \<open>WaveformWidget\<close> and the rows of
  \<open>ADXLipModel\<close> are its fields \<open>widgetMarkers\<close> and \<open>adxFrames\<close>. The audio
  (\<open>WaveformWidget::samples()\<close>, \<open>sampleRate()\<close>) is the read-only record \<open>wave\<close>.
  Log text is ASCII: the decoding round trip \<open>decodeJuliusLog(rawLine.toLocal8Bit())\<close>
  is the identity there and is not modelled.
\<close>

record analyzer =
  inForcedBlock :: bool
  sawPhonemeSection :: bool
  currentAlignSection :: align_section
  pendingVowels :: "pending_vowel list"
  vowelMarkers :: "vowel_marker list"
  isApplySilenceCorrection :: bool
  widgetMarkers :: "vowel_marker list"
  adxFrames :: "adx_frame list"

record wave =
  samples :: "real list"
  sampleRate :: int

text \<open>The state after the constructor (the header's member initialisers).\<close>

definition init_analyzer :: analyzer where
  "init_analyzer = \<lparr>inForcedBlock = False, sawPhonemeSection = False,
     currentAlignSection = AlignNone, pendingVowels = [], vowelMarkers = [],
     isApplySilenceCorrection = False, widgetMarkers = [], adxFrames = []\<rparr>"

text \<open>
  Lines 587--727: clear the markers; with no samples stop there; otherwise build the
  markers, hand them to the waveform widget and replace the track.
\<close>

definition processForcedAlignmentResult :: "wave \<Rightarrow> analyzer \<Rightarrow> analyzer" where
  "processForcedAlignmentResult w st =
     (let st1 = st\<lparr>vowelMarkers := []\<rparr>; totalSamples = int (length (samples w))
      in if totalSamples \<le> 0 then st1
         else (let ms = build_markers (samples w) (pendingVowels st)
               in st1\<lparr>vowelMarkers := ms, widgetMarkers := ms,
                      adxFrames := build_frames (isApplySilenceCorrection st) ms totalSamples (sampleRate w)\<rparr>))"

definition BEGIN_LINE :: string where "BEGIN_LINE = ''=== begin forced alignment ===''"
definition END_LINE :: string where "END_LINE = ''=== end forced alignment ===''"
definition WORD_LINE :: string where "WORD_LINE = ''-- word alignment --''"
definition PHONEME_LINE :: string where "PHONEME_LINE = ''-- phoneme alignment --''"
definition STATE_LINE :: string where "STATE_LINE = ''-- state alignment --''"

text \<open>Lines 492--584: one log line.\<close>

definition parseForcedAlignment :: "wave \<Rightarrow> analyzer \<Rightarrow> string \<Rightarrow> analyzer" where
  "parseForcedAlignment w st rawLine =
     (let line = trimmed rawLine in
      if line = [] then st
      else if starts_with BEGIN_LINE line then
        st\<lparr>inForcedBlock := True, sawPhonemeSection := False,
           currentAlignSection := AlignNone, pendingVowels := []\<rparr>
      else if starts_with END_LINE line then
        (let st' = (if inForcedBlock st \<and> sawPhonemeSection st
                    then processForcedAlignmentResult w st else st)
         in st'\<lparr>inForcedBlock := False, currentAlignSection := AlignNone\<rparr>)
      else if \<not> inForcedBlock st then st
      else if starts_with WORD_LINE line then st\<lparr>currentAlignSection := Word\<rparr>
      else if starts_with PHONEME_LINE line then
        st\<lparr>currentAlignSection := Phoneme, sawPhonemeSection := True, pendingVowels := []\<rparr>
      else if starts_with STATE_LINE line then st\<lparr>currentAlignSection := State\<rparr>
      else if currentAlignSection st \<noteq> Phoneme then st
      else (case phoneme_data_line line of
              None \<Rightarrow> st
            | Some pv \<Rightarrow> st\<lparr>pendingVowels := pendingVowels st @ [pv]\<rparr>))"

text \<open>Several lines in order, as the handler's loop feeds them.\<close>

definition parse_lines :: "wave \<Rightarrow> analyzer \<Rightarrow> string list \<Rightarrow> analyzer" where
  "parse_lines w st lines = foldl (parseForcedAlignment w) st lines"

text \<open>Lines 408--426: one chunk of standard output, split at line feeds (skipping empty parts).\<close>

definition on_stdout_chunk :: "wave \<Rightarrow> analyzer \<Rightarrow> string \<Rightarrow> analyzer" where
  "on_stdout_chunk w st chunk = parse_lines w st (split_skip_empty (\<lambda>c. c = CHR ''\<newline>'') chunk)"

text \<open>Lines 399--407: without a loaded WAV nothing happens, else the markers are cleared.\<close>

definition onRunJulius_reset :: "bool \<Rightarrow> analyzer \<Rightarrow> analyzer" where
  "onRunJulius_reset wavLoaded st = (if \<not> wavLoaded then st else st\<lparr>vowelMarkers := []\<rparr>)"

text \<open>Lines 212--215.\<close>

definition toggle_silence_correction :: "bool \<Rightarrow> analyzer \<Rightarrow> analyzer" where
  "toggle_silence_correction on st = st\<lparr>isApplySilenceCorrection := on\<rparr>"

subsection \<open>The window as a state machine\<close>

text \<open>
  Every event the window reacts to that changes the analysis state; the audio of each
  parse step is arbitrary, since a WAV can be loaded between runs.
\<close>

inductive analyzer_step :: "analyzer \<Rightarrow> analyzer \<Rightarrow> bool" where
  parse: "analyzer_step st (parseForcedAlignment w st line)"
| run: "analyzer_step st (onRunJulius_reset b st)"
| toggle: "analyzer_step st (toggle_silence_correction b st)"

inductive reachable :: "analyzer \<Rightarrow> bool" where
  start: "reachable init_analyzer"
| step: "reachable st \<Longrightarrow> analyzer_step st st' \<Longrightarrow> reachable st'"

inductive_cases analyzer_stepE: "analyzer_step st st'"

text \<open>
  The parser invariant: outside a block no section is open; the phoneme section is
  open only after its header was seen; pending vowels exist only after a phoneme header
  of the current block, and each is a decoded vowel with its CV label.
\<close>

definition well_formed_pv :: "pending_vowel \<Rightarrow> bool" where
  "well_formed_pv pv \<longleftrightarrow> pv_vowel pv \<in> set vowel_set \<and> pv_cv pv = pv_consonant pv @ pv_vowel pv"

definition parser_inv :: "analyzer \<Rightarrow> bool" where
  "parser_inv st \<longleftrightarrow>
     (\<not> inForcedBlock st \<longrightarrow> currentAlignSection st = AlignNone) \<and>
     (currentAlignSection st = Phoneme \<longrightarrow> sawPhonemeSection st) \<and>
     (pendingVowels st \<noteq> [] \<longrightarrow> sawPhonemeSection st) \<and>
     list_all well_formed_pv (pendingVowels st)"

text \<open>A line that the parser treats as a block or section header.\<close>

definition is_header_line :: "string \<Rightarrow> bool" where
  "is_header_line l \<longleftrightarrow>
     (let t = trimmed l in
      starts_with BEGIN_LINE t \<or> starts_with END_LINE t \<or> starts_with WORD_LINE t \<or>
      starts_with PHONEME_LINE t \<or> starts_with STATE_LINE t)"

subsection \<open>Example inputs\<close>

text \<open>Concrete inputs at which the witnesses below instantiate the properties.\<close>

definition example_wave :: wave where
  "example_wave = \<lparr>samples = [1], sampleRate = 16000\<rparr>"

definition example_open_block :: analyzer where
  "example_open_block =
     init_analyzer\<lparr>inForcedBlock := True, sawPhonemeSection := True, currentAlignSection := Phoneme\<rparr>"

subsection \<open>Properties\<close>

lemmas line_eval = trimmed_def is_space_def starts_with_def BEGIN_LINE_def END_LINE_def WORD_LINE_def
  PHONEME_LINE_def STATE_LINE_def char_of_eq_iff Let_def

lemma process_keeps_parser_fields [simp]:
  "inForcedBlock (processForcedAlignmentResult w st) = inForcedBlock st"
  "sawPhonemeSection (processForcedAlignmentResult w st) = sawPhonemeSection st"
  "currentAlignSection (processForcedAlignmentResult w st) = currentAlignSection st"
  "pendingVowels (processForcedAlignmentResult w st) = pendingVowels st"
  "isApplySilenceCorrection (processForcedAlignmentResult w st) = isApplySilenceCorrection st"
  by (simp_all add: processForcedAlignmentResult_def Let_def)

lemma phoneme_data_line_wf: "phoneme_data_line l = Some pv \<Longrightarrow> well_formed_pv pv"
  using decode_unit_Some by (auto simp: phoneme_data_line_def well_formed_pv_def split: option.splits)

lemma parse_keeps_correction_flag:
  "isApplySilenceCorrection (parseForcedAlignment w st line) = isApplySilenceCorrection st"
  by (simp add: parseForcedAlignment_def processForcedAlignmentResult_def Let_def split: option.splits)

lemma parse_preserves_inv:
  assumes "parser_inv st"
  shows "parser_inv (parseForcedAlignment w st line)"
  using assms phoneme_data_line_wf[of "trimmed line"]
  by (auto simp: parseForcedAlignment_def parser_inv_def Let_def split: option.splits)

lemma step_preserves_inv:
  assumes "analyzer_step st st'" "parser_inv st"
  shows "parser_inv st'"
  using assms(1)
proof cases
  case (parse w line)
  then show ?thesis using assms(2) by (simp add: parse_preserves_inv)
next
  case (run b)
  then show ?thesis using assms(2) by (simp add: onRunJulius_reset_def parser_inv_def)
next
  case (toggle b)
  then show ?thesis using assms(2) by (simp add: toggle_silence_correction_def parser_inv_def)
qed

text \<open>C1: Every state the analysis window reaches from its initial state, through parsed log lines, Julius runs and toggles of the silence correction, satisfies the parser invariant: no section is open outside a forced-alignment block, the phoneme section is open only after its header was seen, and every pending vowel is one of the six vowels with its CV label.\<close>

lemma reachable_parser_inv: "reachable st \<Longrightarrow> parser_inv st"
proof (induction rule: reachable.induct)
  case start
  show ?case by (simp add: parser_inv_def init_analyzer_def)
next
  case (step st st')
  then show ?case by (blast intro: step_preserves_inv)
qed

text \<open>C27: Outside a forced-alignment block every line other than a begin line leaves the state unchanged.\<close>

lemma parse_outside_block:
  assumes "parser_inv st" "\<not> inForcedBlock st" "\<not> starts_with BEGIN_LINE (trimmed line)"
  shows "parseForcedAlignment w st line = st"
  using assms by (simp add: parseForcedAlignment_def parser_inv_def Let_def)

text \<open>C26: A line changes the markers or the track only if it is an end line closing a block in which the phoneme section was seen.\<close>

lemma parse_markers_change:
  assumes "vowelMarkers (parseForcedAlignment w st line) \<noteq> vowelMarkers st \<or>
           adxFrames (parseForcedAlignment w st line) \<noteq> adxFrames st"
  shows "starts_with END_LINE (trimmed line) \<and> inForcedBlock st \<and> sawPhonemeSection st"
  using assms by (auto simp: parseForcedAlignment_def Let_def split: if_splits option.splits)


lemma header_lines_trimmed [simp]:
  "trimmed BEGIN_LINE = BEGIN_LINE" "trimmed END_LINE = END_LINE" "trimmed PHONEME_LINE = PHONEME_LINE"
  by (rule trimmed_id; simp add: BEGIN_LINE_def END_LINE_def PHONEME_LINE_def is_space_def)+

lemma starts_with_self [simp]: "starts_with s s"
  by (simp add: starts_with_def)

lemma header_prefixes [simp]:
  "\<not> starts_with BEGIN_LINE PHONEME_LINE" "\<not> starts_with END_LINE PHONEME_LINE"
  "\<not> starts_with WORD_LINE PHONEME_LINE" "\<not> starts_with BEGIN_LINE END_LINE"
  "BEGIN_LINE \<noteq> []" "END_LINE \<noteq> []" "PHONEME_LINE \<noteq> []"
  by (simp_all add: starts_with_def BEGIN_LINE_def END_LINE_def PHONEME_LINE_def WORD_LINE_def)

lemma parse_begin:
  "parseForcedAlignment w st BEGIN_LINE =
     st\<lparr>inForcedBlock := True, sawPhonemeSection := False, currentAlignSection := AlignNone, pendingVowels := []\<rparr>"
  by (simp add: parseForcedAlignment_def)

lemma parse_phoneme_header:
  "inForcedBlock st \<Longrightarrow> parseForcedAlignment w st PHONEME_LINE =
     st\<lparr>currentAlignSection := Phoneme, sawPhonemeSection := True, pendingVowels := []\<rparr>"
  by (simp add: parseForcedAlignment_def)

lemma parse_end:
  "parseForcedAlignment w st END_LINE =
     (if inForcedBlock st \<and> sawPhonemeSection st then processForcedAlignmentResult w st else st)
       \<lparr>inForcedBlock := False, currentAlignSection := AlignNone\<rparr>"
  by (simp add: parseForcedAlignment_def)

lemma phoneme_data_line_Nil [simp]: "phoneme_data_line [] = None"
  by (simp add: phoneme_data_line_def rePhLine_match_def lit_def)

lemma parse_data_line:
  assumes "inForcedBlock st" "currentAlignSection st = Phoneme" "\<not> is_header_line l"
  shows "parseForcedAlignment w st l =
           (case phoneme_data_line (trimmed l) of None \<Rightarrow> st
            | Some pv \<Rightarrow> st\<lparr>pendingVowels := pendingVowels st @ [pv]\<rparr>)"
  using assms by (auto simp: parseForcedAlignment_def is_header_line_def Let_def)

lemma parse_data_lines:
  assumes "inForcedBlock st" "currentAlignSection st = Phoneme" "\<forall>l \<in> set data. \<not> is_header_line l"
  shows "parse_lines w st data =
           st\<lparr>pendingVowels := pendingVowels st @ List.map_filter (phoneme_data_line \<circ> trimmed) data\<rparr>"
  using assms
proof (induction data arbitrary: st)
  case Nil
  then show ?case by (simp add: parse_lines_def)
next
  case (Cons l data)
  show ?case
  proof (cases "phoneme_data_line (trimmed l)")
    case None
    with Cons show ?thesis by (simp add: parse_lines_def parse_data_line map_filter_simps)
  next
    case (Some pv)
    let ?st = "st\<lparr>pendingVowels := pendingVowels st @ [pv]\<rparr>"
    have "parse_lines w ?st data =
            ?st\<lparr>pendingVowels := pendingVowels ?st @ List.map_filter (phoneme_data_line \<circ> trimmed) data\<rparr>"
      using Cons by (intro Cons.IH) simp_all
    with Cons Some show ?thesis by (simp add: parse_lines_def parse_data_line map_filter_simps)
  qed
qed

lemma parse_lines_append: "parse_lines w st (xs @ ys) = parse_lines w (parse_lines w st xs) ys"
  by (simp add: parse_lines_def)

text \<open>C3: A complete forced-alignment block (begin line, phoneme header, data lines, end line) on a non-empty WAV sets the vowel markers to those built from the decoded data lines, sets the track to the one synthesised from these markers, and leaves the block closed.\<close>

lemma parse_block:
  assumes "\<forall>l \<in> set data. \<not> is_header_line l" and "samples w \<noteq> []"
  shows "vowelMarkers (parse_lines w st (BEGIN_LINE # PHONEME_LINE # data @ [END_LINE])) =
           build_markers (samples w) (List.map_filter (phoneme_data_line \<circ> trimmed) data) \<and>
         adxFrames (parse_lines w st (BEGIN_LINE # PHONEME_LINE # data @ [END_LINE])) =
           build_frames (isApplySilenceCorrection st)
             (build_markers (samples w) (List.map_filter (phoneme_data_line \<circ> trimmed) data))
             (int (length (samples w))) (sampleRate w) \<and>
         \<not> inForcedBlock (parse_lines w st (BEGIN_LINE # PHONEME_LINE # data @ [END_LINE]))"
proof -
  let ?st1 = "parseForcedAlignment w (parseForcedAlignment w st BEGIN_LINE) PHONEME_LINE"
  have st1: "inForcedBlock ?st1" "currentAlignSection ?st1 = Phoneme" "sawPhonemeSection ?st1"
    "pendingVowels ?st1 = []" "isApplySilenceCorrection ?st1 = isApplySilenceCorrection st"
    by (simp_all add: parse_begin parse_phoneme_header)
  have "parse_lines w st (BEGIN_LINE # PHONEME_LINE # data @ [END_LINE]) =
          parseForcedAlignment w (parse_lines w ?st1 data) END_LINE"
    by (simp add: parse_lines_def)
  also have "parse_lines w ?st1 data =
      ?st1\<lparr>pendingVowels := List.map_filter (phoneme_data_line \<circ> trimmed) data\<rparr>"
    using st1 assms(1) by (simp add: parse_data_lines)
  finally show ?thesis
    using st1 assms(2) by (simp add: parse_end processForcedAlignmentResult_def Let_def)
qed


lemma parse_other_lines:
  assumes "inForcedBlock st" "currentAlignSection st \<noteq> Phoneme" "\<forall>l \<in> set data. \<not> is_header_line l"
  shows "parse_lines w st data = st"
  using assms
  by (induction data) (auto simp: parse_lines_def parseForcedAlignment_def is_header_line_def Let_def)

lemma parse_block_without_phonemes:
  assumes "\<forall>l \<in> set data. \<not> is_header_line l"
  shows "vowelMarkers (parse_lines w st (BEGIN_LINE # data @ [END_LINE])) = vowelMarkers st \<and>
         widgetMarkers (parse_lines w st (BEGIN_LINE # data @ [END_LINE])) = widgetMarkers st \<and>
         adxFrames (parse_lines w st (BEGIN_LINE # data @ [END_LINE])) = adxFrames st"
proof -
  let ?st1 = "parseForcedAlignment w st BEGIN_LINE"
  have "parse_lines w ?st1 data = ?st1"
    using assms by (intro parse_other_lines) (simp_all add: parse_begin)
  then show ?thesis by (simp add: parse_lines_def parse_end parse_begin)
qed

lemma parse_last_phoneme_section:
  assumes "\<forall>l \<in> set d1. \<not> is_header_line l" "\<forall>l \<in> set d2. \<not> is_header_line l"
  shows "pendingVowels (parse_lines w st (BEGIN_LINE # PHONEME_LINE # d1 @ PHONEME_LINE # d2)) =
           List.map_filter (phoneme_data_line \<circ> trimmed) d2"
proof -
  let ?st1 = "parseForcedAlignment w (parseForcedAlignment w st BEGIN_LINE) PHONEME_LINE"
  let ?st2 = "?st1\<lparr>pendingVowels := List.map_filter (phoneme_data_line \<circ> trimmed) d1\<rparr>"
  have st1: "inForcedBlock ?st1" "currentAlignSection ?st1 = Phoneme" "pendingVowels ?st1 = []"
    by (simp_all add: parse_begin parse_phoneme_header)
  have "parse_lines w ?st1 d1 = ?st2"
    using st1 assms(1) by (simp add: parse_data_lines)
  moreover have "parse_lines w (parseForcedAlignment w ?st2 PHONEME_LINE) d2 =
      (parseForcedAlignment w ?st2 PHONEME_LINE)
        \<lparr>pendingVowels := List.map_filter (phoneme_data_line \<circ> trimmed) d2\<rparr>"
    using st1 assms(2) by (simp add: parse_data_lines parse_phoneme_header)
  ultimately show ?thesis
    by (simp add: parse_lines_def)
qed

text \<open>C28: With no samples loaded, the end of a block clears the vowel markers but leaves the widget markers and the track as they were.\<close>

lemma process_no_samples:
  "samples w = [] \<Longrightarrow>
   vowelMarkers (processForcedAlignmentResult w st) = [] \<and>
   widgetMarkers (processForcedAlignmentResult w st) = widgetMarkers st \<and>
   adxFrames (processForcedAlignmentResult w st) = adxFrames st"
  by (simp add: processForcedAlignmentResult_def)

lemma no_begin_short:
  "length s < length BEGIN_LINE \<Longrightarrow> \<not> starts_with BEGIN_LINE (trimmed s)"
proof
  assume l: "length s < length BEGIN_LINE" and sw: "starts_with BEGIN_LINE (trimmed s)"
  have "length (trimmed s) \<le> length s"
    unfolding trimmed_def by (simp add: order_trans [OF length_dropWhile_le])
  then have "take (length BEGIN_LINE) (trimmed s) = trimmed s" using l by simp
  then show False using l sw \<open>length (trimmed s) \<le> length s\<close> unfolding starts_with_def by simp
qed

lemma split_line_chunk:
  fixes s :: string
  assumes "s \<noteq> []" "CHR ''\<newline>'' \<notin> set s"
  shows "split_skip_empty (\<lambda>c. c = CHR ''\<newline>'') s = [s]"
    "split_skip_empty (\<lambda>c. c = CHR ''\<newline>'') (s @ ''\<newline>'') = [s]"
proof -
  have h: "\<forall>c\<in>set s. \<not> c = CHR ''\<newline>''" using assms(2) by blast
  show "split_skip_empty (\<lambda>c. c = CHR ''\<newline>'') s = [s]"
    using assms(1) by (simp add: split_skip_empty_def split_keep_no_sep[OF h])
  have "split_keep (\<lambda>c. c = CHR ''\<newline>'') (s @ [CHR ''\<newline>'']) = [s, []]"
    using split_keep_sep[OF h, of "CHR ''\<newline>''" "[]"] by simp
  then show "split_skip_empty (\<lambda>c. c = CHR ''\<newline>'') (s @ ''\<newline>'') = [s]"
    using assms(1) by (simp add: split_skip_empty_def)
qed

lemma parse_outside_noop:
  "parser_inv st \<Longrightarrow> \<not> inForcedBlock st \<Longrightarrow> \<not> starts_with BEGIN_LINE (trimmed line) \<Longrightarrow>
   parseForcedAlignment w st line = st"
  by (simp add: parseForcedAlignment_def parser_inv_def Let_def)

lemma begin_line_no_newline: "CHR ''\<newline>'' \<notin> set BEGIN_LINE"
  by (simp add: BEGIN_LINE_def)

text \<open>C29: For every parser state satisfying the invariant outside a block, a begin line delivered in one standard-output chunk opens a block, but the same line split at any point into two chunks leaves the state unchanged: each fragment is parsed as a line of its own.\<close>

lemma chunk_split_begin_line:
  assumes "parser_inv st" "\<not> inForcedBlock st" "BEGIN_LINE = a @ b" "a \<noteq> []" "b \<noteq> []"
  shows "inForcedBlock (on_stdout_chunk w st (BEGIN_LINE @ ''\<newline>'')) \<and>
         on_stdout_chunk w (on_stdout_chunk w st a) (b @ ''\<newline>'') = st"
proof -
  have len: "length BEGIN_LINE = length a + length b" using assms(3) by (metis length_append)
  have la: "length a < length BEGIN_LINE" using len assms(5) by simp
  have lb: "length b < length BEGIN_LINE" using len assms(4) by simp
  have na: "CHR ''\<newline>'' \<notin> set a" and nb: "CHR ''\<newline>'' \<notin> set b"
    using begin_line_no_newline unfolding assms(3) by simp_all
  have "BEGIN_LINE \<noteq> []" by (simp add: BEGIN_LINE_def)
  then have "inForcedBlock (on_stdout_chunk w st (BEGIN_LINE @ ''\<newline>''))"
    by (simp add: on_stdout_chunk_def parse_lines_def split_line_chunk begin_line_no_newline parse_begin)
  moreover have "on_stdout_chunk w st a = st"
    using assms(1,2,4) na la
    by (simp add: on_stdout_chunk_def parse_lines_def split_line_chunk parse_outside_noop no_begin_short)
  moreover have "on_stdout_chunk w st (b @ ''\<newline>'') = st"
    using assms(1,2,5) nb lb
    by (simp add: on_stdout_chunk_def parse_lines_def split_line_chunk parse_outside_noop no_begin_short)
  ultimately show ?thesis by simp
qed

text \<open>C35: From every reachable state one end line leads to a reachable state with no forced-alignment block and no section open.\<close>

lemma block_always_closable:
  assumes "reachable st"
  shows "\<exists>st'. analyzer_step st st' \<and> reachable st' \<and> \<not> inForcedBlock st' \<and> currentAlignSection st' = AlignNone"
proof -
  let ?st' = "parseForcedAlignment w st END_LINE"
  have "analyzer_step st ?st'" by (rule analyzer_step.parse)
  moreover have "reachable ?st'" using assms calculation by (rule reachable.step)
  moreover have "\<not> inForcedBlock ?st' \<and> currentAlignSection ?st' = AlignNone" by (simp add: parse_end)
  ultimately show ?thesis by blast
qed

subsection \<open>Witnesses\<close>

lemma chunk_split_begin_line_witness:
  "inForcedBlock (on_stdout_chunk example_wave init_analyzer (BEGIN_LINE @ ''\<newline>'')) \<and>
   on_stdout_chunk example_wave (on_stdout_chunk example_wave init_analyzer ''=== begin forced'')
     ('' alignment ==='' @ ''\<newline>'') = init_analyzer"
  using chunk_split_begin_line [of init_analyzer "''=== begin forced''" "'' alignment ===''" example_wave]
  by (simp add: parser_inv_def init_analyzer_def BEGIN_LINE_def)

lemma reachable_parser_inv_witness:
  "reachable (toggle_silence_correction True init_analyzer) \<and>
   currentAlignSection (toggle_silence_correction True init_analyzer) = AlignNone \<and>
   list_all well_formed_pv (pendingVowels (toggle_silence_correction True init_analyzer))"
proof -
  have r: "reachable (toggle_silence_correction True init_analyzer)"
    by (rule reachable.step[OF reachable.start analyzer_step.toggle])
  show ?thesis using reachable_parser_inv[OF r] r by (simp add: parser_inv_def init_analyzer_def toggle_silence_correction_def example_marker_def example_vowel_def example_wave_def)
qed

lemma parse_block_witness:
  "\<not> is_header_line example_line \<and> samples example_wave \<noteq> [] \<and>
   vowelMarkers (parse_lines example_wave init_analyzer
       (BEGIN_LINE # PHONEME_LINE # [example_line] @ [END_LINE])) =
     build_markers [1] (List.map_filter (phoneme_data_line \<circ> trimmed) [example_line])"
proof -
  have h: "\<forall>l \<in> set [example_line]. \<not> is_header_line l" by (simp add: is_header_line_def line_eval example_line_def example_marker_def example_vowel_def example_wave_def)
  have s: "samples example_wave \<noteq> []" by (simp add: example_marker_def example_vowel_def example_wave_def)
  show ?thesis using parse_block[OF h s, of init_analyzer] h s by (simp add: example_marker_def example_vowel_def example_wave_def)
qed

lemma parse_outside_block_witness:
  "\<not> inForcedBlock init_analyzer \<and>
   \<not> starts_with BEGIN_LINE (trimmed ''-- phoneme alignment --'') \<and>
   parseForcedAlignment example_wave init_analyzer ''-- phoneme alignment --'' = init_analyzer"
proof -
  have h: "parser_inv init_analyzer" "\<not> inForcedBlock init_analyzer"
    "\<not> starts_with BEGIN_LINE (trimmed ''-- phoneme alignment --'')"
    by (simp_all add: parser_inv_def init_analyzer_def line_eval example_line_def example_marker_def example_vowel_def example_wave_def)
  show ?thesis using parse_outside_block[OF h] h by blast
qed

lemma parse_markers_change_witness:
  "adxFrames (parseForcedAlignment example_wave example_open_block END_LINE) \<noteq> adxFrames example_open_block \<and>
   starts_with END_LINE (trimmed END_LINE) \<and> inForcedBlock example_open_block \<and>
   sawPhonemeSection example_open_block"
proof -
  have c: "frame60_count 1 16000 = 1"
    by (simp add: frame60_count_def OUT_FPS_def ceiling_eq_iff)
  have "length (build_frames False [] 1 16000) \<noteq> 0" by (simp add: c)
  then have "build_frames False [] 1 16000 \<noteq> []" by (rule contrapos_nn) simp
  then have a: "adxFrames (parseForcedAlignment example_wave example_open_block END_LINE) \<noteq> adxFrames example_open_block"
    by (simp add: parse_end processForcedAlignmentResult_def init_analyzer_def build_markers_def markers_pass1_def
        example_wave_def example_open_block_def)
  then have "vowelMarkers (parseForcedAlignment example_wave example_open_block END_LINE) \<noteq> vowelMarkers example_open_block \<or>
    adxFrames (parseForcedAlignment example_wave example_open_block END_LINE) \<noteq> adxFrames example_open_block"
    by blast
  from parse_markers_change[OF this] a show ?thesis by blast
qed

lemma parse_block_without_phonemes_witness:
  "\<not> is_header_line example_line \<and>
   vowelMarkers (parse_lines example_wave init_analyzer (BEGIN_LINE # [example_line] @ [END_LINE])) = vowelMarkers init_analyzer \<and>
   widgetMarkers (parse_lines example_wave init_analyzer (BEGIN_LINE # [example_line] @ [END_LINE])) = widgetMarkers init_analyzer \<and>
   adxFrames (parse_lines example_wave init_analyzer (BEGIN_LINE # [example_line] @ [END_LINE])) = adxFrames init_analyzer"
proof -
  have h: "\<forall>l \<in> set [example_line]. \<not> is_header_line l" by (simp add: is_header_line_def line_eval example_line_def example_marker_def example_vowel_def example_wave_def)
  show ?thesis using parse_block_without_phonemes[OF h, of example_wave init_analyzer] h by simp
qed

lemma parse_last_phoneme_section_witness:
  "\<not> is_header_line example_line \<and>
   pendingVowels (parse_lines example_wave init_analyzer (BEGIN_LINE # PHONEME_LINE # [example_line] @ PHONEME_LINE # [])) =
     List.map_filter (phoneme_data_line \<circ> trimmed) []"
proof -
  have h: "\<forall>l \<in> set [example_line]. \<not> is_header_line l" by (simp add: is_header_line_def line_eval example_line_def example_marker_def example_vowel_def example_wave_def)
  have h2: "\<forall>l \<in> set []. \<not> is_header_line l" by (simp add: example_marker_def example_vowel_def example_wave_def)
  show ?thesis using parse_last_phoneme_section[OF h h2, of example_wave init_analyzer] h h2 by simp
qed

lemma process_no_samples_witness:
  "samples \<lparr>samples = [], sampleRate = 16000\<rparr> = [] \<and>
   vowelMarkers (processForcedAlignmentResult \<lparr>samples = [], sampleRate = 16000\<rparr> init_analyzer) = [] \<and>
   widgetMarkers (processForcedAlignmentResult \<lparr>samples = [], sampleRate = 16000\<rparr> init_analyzer) = widgetMarkers init_analyzer \<and>
   adxFrames (processForcedAlignmentResult \<lparr>samples = [], sampleRate = 16000\<rparr> init_analyzer) = adxFrames init_analyzer"
  using process_no_samples[where w = "\<lparr>samples = [], sampleRate = 16000\<rparr>" and st = init_analyzer] by simp

lemma block_always_closable_witness:
  "reachable init_analyzer \<and>
   (\<exists>st'. analyzer_step init_analyzer st' \<and> reachable st' \<and> \<not> inForcedBlock st' \<and> currentAlignSection st' = AlignNone)"
  using block_always_closable[OF reachable.start] reachable.start by blast

end
