(* ===== verification/TrackCodec.thy ===== *)
theory TrackCodec
  imports AlignmentParser
begin

text \<open>
  The ADXLip track file: \<open>ADXLipModel::exportToFile\<close> (\<open>ADXLipModel.cpp\<close>, lines
  130--161) writes three comment lines and one line per row with eleven comma-separated
  fields (the \<open>N\<close> channel is commented out), doubles in fixed notation with six
  decimals; \<open>JuliusAnalyzeWindow::onImportADXLip\<close> (\<open>JuliusAnalyzeWindow.cpp\<close>,
  lines 260--371) skips three lines, trims each further line, skips empty ones, splits at
  commas dropping empty parts, skips lines of fewer than 11 parts and reads 12-part
  lines as \<open>\<dots>, N, vol_dB\<close> and 11-part lines as \<open>\<dots>, vol_dB\<close> with \<open>N = 0\<close>.
  Conversion failures leave the field 0 (\<open>qstring_toInt\<close>, \<open>qstring_toDouble\<close>).
  Opening the file is an outcome the model takes as input (\<open>file_result\<close>); the file
  dialog, \<open>QFile\<close> and the diagnostics are not modelled.
\<close>

datatype file_result = Canceled | OpenFailed | Opened string

text \<open>\<open>ADXLipModel.cpp\<close> lines 146--158: one row of the export.\<close>

definition export_row :: "adx_frame \<Rightarrow> string" where
  "export_row f =
     show_int (frameIndex f) @ '', '' @ show_int (msec f) @ '', '' @
     fmt_fixed6 (width f) @ '', '' @ fmt_fixed6 (height f) @ '', '' @
     fmt_fixed6 (tongue f) @ '', '' @ fmt_fixed6 (chA f) @ '', '' @
     fmt_fixed6 (chI f) @ '', '' @ fmt_fixed6 (chU f) @ '', '' @
     fmt_fixed6 (chE f) @ '', '' @ fmt_fixed6 (chO f) @ '', '' @
     fmt_fixed6 (vol_dB f) @ ''\<newline>''"

text \<open>\<open>ADXLipModel.cpp\<close> lines 141--144: the header block.\<close>

definition export_header :: "string \<Rightarrow> string" where
  "export_header wavPath =
     ''// input: '' @ wavPath @ ''\<newline>'' @
     ''// framerate: 60 [fps]\<newline>'' @
     ''// frame count, msec, width(0-1 def=0.000), height(0-1 def=0.000), tongue(0-1 def=0.000), A(0-1), I(0-1), U(0-1), E(0-1), O(0-1), Vol(dB)\<newline>''"

text \<open>\<open>ADXLipModel.cpp\<close> lines 130--161: \<open>None\<close> when the file cannot be opened (\<open>return false\<close>).\<close>

definition exportToFile :: "bool \<Rightarrow> string \<Rightarrow> adx_frame list \<Rightarrow> string option" where
  "exportToFile canOpen wavPath frames =
     (if \<not> canOpen then None else Some (export_header wavPath @ concat (map export_row frames)))"

text \<open>The outcome of one line after the header (\<open>JuliusAnalyzeWindow.cpp\<close> lines 300--360).\<close>

datatype line_result = EmptyLine | TooFewColumns | Row adx_frame

definition ADX_FIXED_PARAM_COUNT :: nat where
  "ADX_FIXED_PARAM_COUNT = 12"

definition parse_adx_line :: "string \<Rightarrow> line_result" where
  "parse_adx_line rawLine =
     (let line = trimmed rawLine in
      if line = [] then EmptyLine
      else (let parts = split_skip_empty (\<lambda>c. c = CHR '','') line in
            if length parts < ADX_FIXED_PARAM_COUNT - 1 then TooFewColumns
            else (let f = default_frame\<lparr>frameIndex := qstring_toInt (parts ! 0),
                         msec := qstring_toInt (parts ! 1),
                         width := qstring_toDouble (parts ! 2),
                         height := qstring_toDouble (parts ! 3),
                         tongue := qstring_toDouble (parts ! 4),
                         chA := qstring_toDouble (parts ! 5),
                         chI := qstring_toDouble (parts ! 6),
                         chU := qstring_toDouble (parts ! 7),
                         chE := qstring_toDouble (parts ! 8),
                         chO := qstring_toDouble (parts ! 9)\<rparr>
                  in if ADX_FIXED_PARAM_COUNT \<le> length parts
                     then Row (f\<lparr>chN := qstring_toDouble (parts ! 10),
                                  vol_dB := qstring_toDouble (parts ! 11)\<rparr>)
                     else Row (f\<lparr>chN := 0, vol_dB := qstring_toDouble (parts ! 10)\<rparr>))))"

definition row_of :: "line_result \<Rightarrow> adx_frame list" where
  "row_of r = (case r of Row f \<Rightarrow> [f] | _ \<Rightarrow> [])"

text \<open>Lines 286--361: skip three header lines (stopping early at the end), read the rest.\<close>

definition import_frames :: "string \<Rightarrow> adx_frame list" where
  "import_frames content = concat (map (row_of \<circ> parse_adx_line) (drop 3 (text_lines content)))"

text \<open>
  The same reading as the code runs it on the stream (\<open>in\<close>, the unread rest of the file):
  the header loop of lines 289--296 and the \<open>while (!in.atEnd())\<close> loop of lines
  298--361, appending the row of each line to \<open>frames\<close>. The loop is a partial function in
  the option monad, \<open>None\<close> being a read that never reaches the end of the stream.
\<close>

primrec skip_header :: "nat \<Rightarrow> string \<Rightarrow> string" where
  "skip_header 0 s = s"
| "skip_header (Suc n) s = (if s = [] then s else skip_header n (snd (readLine s)))"

partial_function (option) import_loop :: "string \<Rightarrow> adx_frame list \<Rightarrow> adx_frame list option" where
  "import_loop s frames =
     (if s = [] then Some frames
      else (let (line, s') = readLine s in import_loop s' (frames @ row_of (parse_adx_line line))))"

declare import_loop.simps [code]

definition import_stream :: "string \<Rightarrow> adx_frame list option" where
  "import_stream content = import_loop (skip_header 3 content) []"

text \<open>Lines 260--371: a cancelled dialog or a failed open leaves the track as it is.\<close>

definition onImportADXLip :: "file_result \<Rightarrow> analyzer \<Rightarrow> analyzer" where
  "onImportADXLip r st =
     (case r of Canceled \<Rightarrow> st | OpenFailed \<Rightarrow> st
      | Opened content \<Rightarrow> st\<lparr>adxFrames := import_frames content\<rparr>)"

text \<open>The exported row without its line feed, as a first field and ten \<open>", "\<close>-prefixed ones.\<close>

definition row_text :: "adx_frame \<Rightarrow> string" where
  "row_text f =
     show_int (frameIndex f) @
     concat (map (\<lambda>y. CHR '','' # CHR '' '' # y)
       [show_int (msec f), fmt_fixed6 (width f), fmt_fixed6 (height f), fmt_fixed6 (tongue f),
        fmt_fixed6 (chA f), fmt_fixed6 (chI f), fmt_fixed6 (chU f), fmt_fixed6 (chE f),
        fmt_fixed6 (chO f), fmt_fixed6 (vol_dB f)])"

text \<open>What a row is after export and import: doubles rounded to six decimals, \<open>N\<close> lost.\<close>

definition quantize_frame :: "adx_frame \<Rightarrow> adx_frame" where
  "quantize_frame f =
     f\<lparr>width := quantize6 (width f), height := quantize6 (height f), tongue := quantize6 (tongue f),
       chA := quantize6 (chA f), chI := quantize6 (chI f), chU := quantize6 (chU f),
       chE := quantize6 (chE f), chO := quantize6 (chO f), chN := 0,
       vol_dB := quantize6 (vol_dB f)\<rparr>"

text \<open>The lines of an exported file: the three header lines and one line per row.\<close>

definition export_lines :: "string \<Rightarrow> adx_frame list \<Rightarrow> string list" where
  "export_lines wavPath fs =
     [''// input: '' @ wavPath, ''// framerate: 60 [fps]'',
      ''// frame count, msec, width(0-1 def=0.000), height(0-1 def=0.000), tongue(0-1 def=0.000), A(0-1), I(0-1), U(0-1), E(0-1), O(0-1), Vol(dB)'']
     @ map row_text fs"

subsection \<open>Export and import\<close>

lemma split_keep_fields:
  assumes "\<forall>x\<in>set a. \<not> p x" "\<forall>y\<in>set ys. \<forall>x\<in>set y. \<not> p x" "p c" "\<not> p d"
  shows "split_keep p (a @ concat (map (\<lambda>y. c # d # y) ys)) = a # map (\<lambda>y. d # y) ys"
  using assms(1,2)
proof (induction ys arbitrary: a)
  case Nil
  then show ?case by (simp add: split_keep_no_sep)
next
  case (Cons y ys)
  have "split_keep p (a @ c # (d # y) @ concat (map (\<lambda>y. c # d # y) ys)) =
          a # split_keep p ((d # y) @ concat (map (\<lambda>y. c # d # y) ys))"
    using Cons.prems(1) assms(3) by (rule split_keep_sep)
  also have "split_keep p ((d # y) @ concat (map (\<lambda>y. c # d # y) ys)) = (d # y) # map (\<lambda>y. d # y) ys"
    using Cons.prems(2) assms(4) by (intro Cons.IH) auto
  finally show ?case by simp
qed

lemma digit_chars: "is_digit c \<Longrightarrow> c \<noteq> CHR '','' \<and> c \<noteq> CHR ''\<newline>'' \<and> c \<noteq> CHR '' ''"
  by (auto simp: is_digit_def)

lemma show_nat_chars: "c \<in> set (show_nat n) \<Longrightarrow> is_digit c"
  using show_nat_digits[of n] by (simp add: list_all_iff)

lemma show_int_chars: "c \<in> set (show_int i) \<Longrightarrow> c \<noteq> CHR '','' \<and> c \<noteq> CHR ''\<newline>''"
  unfolding show_int_def by (auto split: if_splits dest!: show_nat_chars digit_chars)

lemma fmt_fixed6_chars: "c \<in> set (fmt_fixed6 x) \<Longrightarrow> c \<noteq> CHR '','' \<and> c \<noteq> CHR ''\<newline>''"
proof -
  assume c: "c \<in> set (fmt_fixed6 x)"
  have "list_all is_digit (pad6 (micro_units x mod 10 ^ 6))" by (simp add: pad6_props)
  with c show ?thesis
    by (auto simp: fmt_fixed6_body list_all_iff split: if_splits dest!: show_nat_chars digit_chars)
qed


lemma show_int_nonempty [simp]: "show_int i \<noteq> []"
  by (simp add: show_int_def)

lemma row_text_nonempty [simp]: "row_text f \<noteq> []"
  by (simp add: row_text_def)

lemma export_row_text: "export_row f = row_text f @ [CHR ''\<newline>'']"
  by (simp add: export_row_def row_text_def)

lemma row_text_fields:
  "split_skip_empty (\<lambda>c. c = CHR '','') (row_text f) =
     show_int (frameIndex f) #
     map (\<lambda>y. CHR '' '' # y)
       [show_int (msec f), fmt_fixed6 (width f), fmt_fixed6 (height f), fmt_fixed6 (tongue f),
        fmt_fixed6 (chA f), fmt_fixed6 (chI f), fmt_fixed6 (chU f), fmt_fixed6 (chE f),
        fmt_fixed6 (chO f), fmt_fixed6 (vol_dB f)]"
proof -
  have "split_keep (\<lambda>c. c = CHR '','') (row_text f) =
     show_int (frameIndex f) #
     map (\<lambda>y. CHR '' '' # y)
       [show_int (msec f), fmt_fixed6 (width f), fmt_fixed6 (height f), fmt_fixed6 (tongue f),
        fmt_fixed6 (chA f), fmt_fixed6 (chI f), fmt_fixed6 (chU f), fmt_fixed6 (chE f),
        fmt_fixed6 (chO f), fmt_fixed6 (vol_dB f)]"
    unfolding row_text_def
    by (rule split_keep_fields) (auto dest: show_int_chars fmt_fixed6_chars)
  then show ?thesis by (simp add: split_skip_empty_def)
qed

lemma row_text_trimmed: "trimmed (row_text f) = row_text f"
proof (rule trimmed_id)
  show "row_text f \<noteq> []" by (simp add: row_text_def show_int_def)
  have "\<not> is_space (hd (show_int (frameIndex f)))"
    by (cases "frameIndex f < 0") (auto simp: show_int_def intro: digit_not_space[OF show_nat_hd_last(1)])
  moreover have "show_int (frameIndex f) \<noteq> []" by (simp add: show_int_def)
  ultimately show "\<not> is_space (hd (row_text f))"
    by (simp add: row_text_def)
  show "\<not> is_space (last (row_text f))"
    using fmt_fixed6_shape[of "vol_dB f"] by (simp add: row_text_def digit_not_space)
qed

lemma parse_row_text:
  assumes "in_int32 (frameIndex f)" "in_int32 (msec f)"
  shows "parse_adx_line (row_text f) = Row (quantize_frame f)"
proof -
  have i: "qstring_toInt (show_int (frameIndex f)) = frameIndex f"
    "qstring_toInt (CHR '' '' # show_int (msec f)) = msec f"
    using assms by (simp_all add: qstring_toInt_def qstring_toInt_trimmed_show_int show_int_trim)
  have d: "qstring_toDouble (CHR '' '' # fmt_fixed6 x) = quantize6 x" for x
    by (simp add: qstring_toDouble_def qstring_toDouble_trimmed_fmt_fixed6)
  show ?thesis
    by (simp add: parse_adx_line_def Let_def row_text_trimmed row_text_fields ADX_FIXED_PARAM_COUNT_def i d
        quantize_frame_def default_frame_def split_skip_empty_def[symmetric])
qed

lemma export_text_lines:
  "export_header p @ concat (map export_row fs) = concat (map (\<lambda>l. l @ [CHR ''\<newline>'']) (export_lines p fs))"
proof -
  have "export_row = (\<lambda>f. row_text f @ [CHR ''\<newline>''])"
    by (rule ext) (rule export_row_text)
  then show ?thesis by (simp add: export_header_def export_lines_def comp_def)
qed

lemma row_text_no_newline: "CHR ''\<newline>'' \<notin> set (row_text f)"
  by (auto simp: row_text_def dest: show_int_chars fmt_fixed6_chars)

lemma import_frames_export:
  assumes "CHR ''\<newline>'' \<notin> set wavPath"
    and "\<forall>f\<in>set fs. in_int32 (frameIndex f) \<and> in_int32 (msec f)"
  shows "import_frames (export_header wavPath @ concat (map export_row fs)) = map quantize_frame fs"
proof -
  have "text_lines (export_header wavPath @ concat (map export_row fs)) = export_lines wavPath fs"
    unfolding export_text_lines using assms(1)
    by (intro text_lines_concat) (auto simp: export_lines_def row_text_no_newline)
  moreover have "concat (map (row_of \<circ> parse_adx_line) (map row_text fs)) = map quantize_frame fs"
    using assms(2) by (induction fs) (auto simp: parse_row_text row_of_def)
  ultimately show ?thesis
    by (simp add: import_frames_def export_lines_def)
qed

text \<open>C4: Importing the text written by the ADXLip export gives back the exported rows, with every double rounded to six decimals and the N channel 0, provided the WAV path has no line feed and every frame index and millisecond value is a 32-bit int.\<close>

lemma import_export:
  assumes "CHR ''\<newline>'' \<notin> set wavPath"
    and "\<forall>f\<in>set fs. in_int32 (frameIndex f) \<and> in_int32 (msec f)"
  shows "map_option import_frames (exportToFile True wavPath fs) = Some (map quantize_frame fs)"
  using import_frames_export[OF assms] by (simp add: exportToFile_def)

subsection \<open>The stream loop\<close>

lemma import_loop_lines:
  "import_loop s frames = Some (frames @ concat (map (row_of \<circ> parse_adx_line) (text_lines s)))"
proof (induction s arbitrary: frames rule: measure_induct_rule[of length])
  case (less s)
  show ?case
  proof (cases "s = []")
    case True
    then show ?thesis by (subst import_loop.simps) (simp add: comp_def)
  next
    case False
    obtain line s' where r: "readLine s = (line, s')" by fastforce
    have "length s' < length s" using readLine_shorter[OF False] r by simp
    then show ?thesis
      using less[of s'] False r text_lines_readLine[OF False] by (subst import_loop.simps) (simp add: comp_def)
  qed
qed

lemma text_lines_skip_header: "text_lines (skip_header n s) = drop n (text_lines s)"
proof (induction n arbitrary: s)
  case 0
  then show ?case by simp
next
  case (Suc n)
  then show ?case by (cases "s = []") (simp_all add: text_lines_readLine[of s])
qed

text \<open>C5: Reading an ADXLip file the way onImportADXLip does, line by line from the stream until atEnd after skipping at most three header lines, always finishes, and yields exactly the rows of the list-level reading import_frames.\<close>

lemma import_stream_total: "import_stream content = Some (import_frames content)"
  by (simp add: import_stream_def import_loop_lines text_lines_skip_header import_frames_def)

subsection \<open>Witnesses\<close>

lemma import_export_witness:
  "CHR ''\<newline>'' \<notin> set ''a.wav'' \<and>
   in_int32 (frameIndex default_frame) \<and> in_int32 (msec default_frame) \<and>
   map_option import_frames (exportToFile True ''a.wav'' [default_frame]) = Some (map quantize_frame [default_frame])"
proof -
  have h1: "CHR ''\<newline>'' \<notin> set ''a.wav''" by (simp add: example_marker_def example_vowel_def example_wave_def)
  have h2: "\<forall>f\<in>set [default_frame]. in_int32 (frameIndex f) \<and> in_int32 (msec f)"
    by (simp add: default_frame_def in_int32_def int32_min_def int32_max_def example_marker_def example_vowel_def example_wave_def)
  show ?thesis using import_export[OF h1 h2] h1 h2 by simp
qed

end
