(* ===== verification/Waveform.thy ===== *)
theory Waveform
  imports TrackCodec
begin

text \<open>
  \<open>WaveformWidget\<close> (\<open>WaveformWidget.h\<close>, \<open>WaveformWidget.cpp\<close>): the mono sample
  buffer with its rate, the view offset, the playhead, the markers and the label mode.
  \<open>loadFromFile\<close> takes the outcome of \<open>sf_open\<close>/\<open>sf_readf_float\<close> as input
  (\<open>sf_result\<close>): the file's rate, channel and frame counts, the read count and the
  interleaved values read; libsndfile is not modelled. The widget's \<open>QMediaPlayer\<close> is the
  field \<open>wf_player\<close>, with the semantics of \<open>QtLib\<close>. Of
  \<open>paintEvent\<close> the model keeps the integer geometry the code computes (the column of
  each sample in the min/max aggregation, the marker positions and labels, the playhead
  column); drawing itself is not modelled. C++ \<open>int(double)\<close> truncates towards zero
  (\<open>trunc_int\<close>); floats and doubles are reals.
\<close>

definition trunc_int :: "real \<Rightarrow> int" where
  "trunc_int x = (if 0 \<le> x then \<lfloor>x\<rfloor> else \<lceil>x\<rceil>)"

record waveform =
  wf_samples :: "real list"
  wf_sampleRate :: int
  wf_viewOffset :: int
  wf_playheadSample :: int
  wf_markers :: "vowel_marker list"
  wf_labelMode :: marker_label_mode
  wf_player :: media_player

text \<open>\<open>WaveformWidget.h\<close> lines 54--63: the member initialisers; the constructor (lines 11--16) creates the player without a source.\<close>

definition init_waveform :: waveform where
  "init_waveform = \<lparr>wf_samples = [], wf_sampleRate = 0, wf_viewOffset = 0, wf_playheadSample = -1,
                    wf_markers = [], wf_labelMode = AIUEON, wf_player = init_player\<rparr>"

definition totalSampleCount :: "waveform \<Rightarrow> int" where
  "totalSampleCount wv = int (length (wf_samples wv))"

subsection \<open>Loading\<close>

datatype sf_result = SfOpenFailed | SfOpened int nat nat int "real list"

text \<open>
  Line 54: \<open>std::vector<float> buffer(frames * channels)\<close> is zero-initialised and the read
  fills it from the start.
\<close>

definition sf_buffer :: "nat \<Rightarrow> nat \<Rightarrow> real list \<Rightarrow> real list" where
  "sf_buffer nch nframes got = take (nframes * nch) (got @ replicate (nframes * nch) 0)"

text \<open>Lines 63--70: each frame is the mean of its channels.\<close>

definition downmix :: "nat \<Rightarrow> nat \<Rightarrow> real list \<Rightarrow> real list" where
  "downmix nch nframes buffer =
     map (\<lambda>i. sum_list (map (\<lambda>ch. buffer ! (i * nch + ch)) [0..<nch]) / real nch) [0..<nframes]"

text \<open>
  Lines 38--77: the flag returned and the widget afterwards. Only a successful load gives
  the player the new file (line 75); a failed one leaves its source as it was.
\<close>

definition loadFromFile :: "string \<Rightarrow> sf_result \<Rightarrow> waveform \<Rightarrow> bool \<times> waveform" where
  "loadFromFile path r wv =
     (let wf1 = wv\<lparr>wf_samples := [], wf_viewOffset := 0, wf_sampleRate := 0\<rparr>
      in case r of
           SfOpenFailed \<Rightarrow> (False, wf1)
         | SfOpened rate nch nframes readcount got \<Rightarrow>
             (let wf2 = wf1\<lparr>wf_sampleRate := rate\<rparr>
              in if readcount \<le> 0 then (False, wf2)
                 else (True, wf2\<lparr>wf_samples := downmix nch nframes (sf_buffer nch nframes got),
                                  wf_player := mp_setSource path (wf_player wf2)\<rparr>)))"

subsection \<open>Setters and player callbacks\<close>

text \<open>Lines 103--107.\<close>

definition setViewPosition :: "int \<Rightarrow> waveform \<Rightarrow> waveform" where
  "setViewPosition sampleIndex wv = wv\<lparr>wf_viewOffset := qBound 0 sampleIndex (totalSampleCount wv)\<rparr>"

text \<open>Lines 263--267.\<close>

definition setVowelMarkers :: "vowel_marker list \<Rightarrow> waveform \<Rightarrow> waveform" where
  "setVowelMarkers ms wv = wv\<lparr>wf_markers := ms\<rparr>"

text \<open>Lines 269--276: the flag is whether a repaint is requested.\<close>

definition setMarkerLabelMode :: "marker_label_mode \<Rightarrow> waveform \<Rightarrow> bool \<times> waveform" where
  "setMarkerLabelMode m wv = (if wf_labelMode wv \<noteq> m then (True, wv\<lparr>wf_labelMode := m\<rparr>) else (False, wv))"

text \<open>
  Lines 18--23: \<open>int(ms * sampleRate_ / 1000)\<close> with \<open>ms\<close> a \<open>qint64\<close>: a 64-bit
  product, a truncating division, a narrowing to \<open>int\<close>.
\<close>

definition on_position_changed :: "int \<Rightarrow> waveform \<Rightarrow> waveform" where
  "on_position_changed ms wv =
     wv\<lparr>wf_playheadSample := wrap32 (wrap64 (ms * wf_sampleRate wv) sdiv 1000)\<rparr>"

datatype media_status = EndOfMedia | OtherMediaStatus

text \<open>Lines 25--35.\<close>

definition on_media_status :: "media_status \<Rightarrow> waveform \<Rightarrow> waveform" where
  "on_media_status st wv =
     (if st = EndOfMedia
      then wv\<lparr>wf_player := mp_setPosition 0 (mp_stop (wf_player wv)), wf_playheadSample := 0\<rparr>
      else wv)"

text \<open>Lines 79--102: the transport calls, each forwarded to the player (never null).\<close>

definition startPlayback :: "waveform \<Rightarrow> waveform" where
  "startPlayback wv = wv\<lparr>wf_player := mp_play (wf_player wv)\<rparr>"

definition stopPlayback :: "waveform \<Rightarrow> waveform" where
  "stopPlayback wv = wv\<lparr>wf_player := mp_stop (wf_player wv)\<rparr>"

definition pausePlayback :: "waveform \<Rightarrow> waveform" where
  "pausePlayback wv = wv\<lparr>wf_player := mp_pause (wf_player wv)\<rparr>"

definition seek :: "int \<Rightarrow> waveform \<Rightarrow> waveform" where
  "seek positionMs wv = wv\<lparr>wf_player := mp_setPosition positionMs (wf_player wv)\<rparr>"

subsection \<open>Paint geometry\<close>

text \<open>Line 145: the column of sample \<open>i\<close> of the visible window.\<close>

definition agg_column :: "int \<Rightarrow> int \<Rightarrow> int \<Rightarrow> int" where
  "agg_column i window W = trunc_int (real_of_int i / real_of_int window * real_of_int W)"

text \<open>
  Lines 142--149: \<open>agg\<close> has \<open>W\<close> entries, each sample updates the entry of its column;
  an index outside \<open>agg\<close> is undefined behaviour (\<open>None\<close>).
\<close>

definition agg_step :: "real list \<Rightarrow> int \<Rightarrow> int \<Rightarrow> int \<Rightarrow> (real \<times> real) list option \<Rightarrow> nat \<Rightarrow> (real \<times> real) list option" where
  "agg_step smp offset window W acc i =
     (case acc of
        None \<Rightarrow> None
      | Some agg \<Rightarrow>
          (let x = agg_column (int i) window W; v = smp ! nat (offset + int i)
           in if 0 \<le> x \<and> x < int (length agg)
              then Some (agg[nat x := (min (fst (agg ! nat x)) v, max (snd (agg ! nat x)) v)])
              else None))"

definition paint_aggregate :: "waveform \<Rightarrow> int \<Rightarrow> (real \<times> real) list option" where
  "paint_aggregate wv W =
     (let window = totalSampleCount wv - wf_viewOffset wv
      in foldl (agg_step (wf_samples wv) (wf_viewOffset wv) window W)
               (Some (replicate (nat W) (1, -1))) [0..<nat window])"

text \<open>
  The reference the aggregation is compared with: the visible samples whose column is
  \<open>x\<close>, and per column the least of them and 1 and the greatest of them and -1 (the
  initial \<open>{+1.0f, -1.0f}\<close> of line 142).
\<close>

definition column_values :: "real list \<Rightarrow> int \<Rightarrow> int \<Rightarrow> int \<Rightarrow> nat \<Rightarrow> nat \<Rightarrow> real list" where
  "column_values smp offset window W k x =
     map (\<lambda>i. smp ! nat (offset + int i)) (filter (\<lambda>i. agg_column (int i) window W = int x) [0..<k])"

definition column_minmax :: "real list \<Rightarrow> real \<times> real" where
  "column_minmax vs = (Min (set (1 # vs)), Max (set (- 1 # vs)))"

definition agg_ref :: "waveform \<Rightarrow> int \<Rightarrow> (real \<times> real) list" where
  "agg_ref wv W =
     (let window = totalSampleCount wv - wf_viewOffset wv
      in map (\<lambda>x. column_minmax (column_values (wf_samples wv) (wf_viewOffset wv) window W (nat window) x))
             [0..<nat W])"

text \<open>
  Lines 166--171 (and the same ordinates of the fill path, lines 151--164): the top and
  bottom ordinate drawn in each column, \<open>H / 2 - int(v * (H / 2))\<close>.
\<close>

definition paint_edges :: "int \<Rightarrow> (real \<times> real) list \<Rightarrow> (int \<times> int) list" where
  "paint_edges H agg =
     map (\<lambda>(mi, ma). (H div 2 - trunc_int (ma * real_of_int (H div 2)), H div 2 - trunc_int (mi * real_of_int (H div 2)))) agg"

datatype marker_colour = Red | Green | Blue | Yellow | Magenta | Cyan

text \<open>Lines 195--206.\<close>

definition marker_colour :: "string \<Rightarrow> marker_colour" where
  "marker_colour v =
     (if v = ''A'' then Red else if v = ''I'' then Green else if v = ''U'' then Blue
      else if v = ''E'' then Yellow else if v = ''O'' then Magenta else Cyan)"

text \<open>Lines 216--243.\<close>

definition marker_label :: "marker_label_mode \<Rightarrow> vowel_marker \<Rightarrow> string" where
  "marker_label mode vm =
     (case mode of
        AIUEON \<Rightarrow> vm_vowel vm
      | CV \<Rightarrow> vm_cv vm
      | dBFS \<Rightarrow> fmt_fixed 1 (vm_dbfs vm)
      | RelSum \<Rightarrow> fmt_fixed 2 (vm_relSum vm)
      | RelMax \<Rightarrow> fmt_fixed 2 (vm_relMax vm)
      | RelVowelSum \<Rightarrow> fmt_fixed 2 (vm_relVowelSum vm)
      | NormPos \<Rightarrow> fmt_fixed 2 (vm_normPos vm)
      | ModeNone \<Rightarrow> [])"

text \<open>
  Lines 178--250: for each marker inside the view, its column, colour and label (an empty
  label is not drawn).
\<close>

definition paint_markers :: "waveform \<Rightarrow> int \<Rightarrow> (int \<times> marker_colour \<times> string) list" where
  "paint_markers wv W =
     (let total = totalSampleCount wv; off = wf_viewOffset wv; windowLen = total - off
      in concat (map (\<lambda>vm.
           let samplePos = trunc_int (vm_normPos vm * real_of_int total)
           in if samplePos < off \<or> total \<le> samplePos then []
              else [(trunc_int (real_of_int (samplePos - off) / real_of_int windowLen * real_of_int W),
                     marker_colour (vm_vowel vm), marker_label (wf_labelMode wv) vm)])
         (wf_markers wv)))"

text \<open>Lines 253--258: the playhead column, when the playhead is not left of the view.\<close>

definition playhead_column :: "waveform \<Rightarrow> int \<Rightarrow> int option" where
  "playhead_column wv W =
     (if wf_playheadSample wv \<ge> wf_viewOffset wv
      then Some (trunc_int (real_of_int (wf_playheadSample wv - wf_viewOffset wv) /
                            real_of_int (totalSampleCount wv - wf_viewOffset wv) * real_of_int W))
      else None)"

datatype paint_result = NoWave | EmptyWindow | Painted "(real \<times> real) list option" "(int \<times> marker_colour \<times> string) list" "int option"

text \<open>Lines 110--261: the early returns and the three computed parts.\<close>

definition paintEvent :: "waveform \<Rightarrow> int \<Rightarrow> paint_result" where
  "paintEvent wv W =
     (if wf_samples wv = [] then NoWave
      else if totalSampleCount wv - wf_viewOffset wv \<le> 0 then EmptyWindow
      else Painted (paint_aggregate wv W) (paint_markers wv W) (playhead_column wv W))"

subsection \<open>The widget as a state machine\<close>

inductive wf_step :: "waveform \<Rightarrow> waveform \<Rightarrow> bool" where
  load: "wf_step wv (snd (loadFromFile path r wv))"
| view: "wf_step wv (setViewPosition i wv)"
| markers: "wf_step wv (setVowelMarkers ms wv)"
| label: "wf_step wv (snd (setMarkerLabelMode m wv))"
| position: "wf_step wv (on_position_changed ms wv)"
| status: "wf_step wv (on_media_status st wv)"
| play: "wf_step wv (startPlayback wv)"
| stop: "wf_step wv (stopPlayback wv)"
| pause: "wf_step wv (pausePlayback wv)"
| seek: "wf_step wv (seek ms wv)"

inductive wf_reachable :: "waveform \<Rightarrow> bool" where
  init: "wf_reachable init_waveform"
| step: "wf_reachable wv \<Longrightarrow> wf_step wv wv' \<Longrightarrow> wf_reachable wv'"

inductive_cases wf_stepE: "wf_step wv wv'"

text \<open>The view offset never leaves \<open>[0, totalSampleCount]\<close>.\<close>

definition wf_inv :: "waveform \<Rightarrow> bool" where
  "wf_inv wv \<longleftrightarrow> 0 \<le> wf_viewOffset wv \<and> wf_viewOffset wv \<le> totalSampleCount wv"

subsection \<open>Properties\<close>

lemma trunc_int_nonneg: "0 \<le> x \<Longrightarrow> trunc_int x = \<lfloor>x\<rfloor>"
  by (simp add: trunc_int_def)

lemma trunc_int_unit_range:
  assumes "0 \<le> a" "a < 1" "0 < W"
  shows "0 \<le> trunc_int (a * real_of_int W) \<and> trunc_int (a * real_of_int W) < W"
proof -
  have "0 \<le> a * real_of_int W" using assms by simp
  moreover have "a * real_of_int W < real_of_int W" using assms by simp
  ultimately show ?thesis by (simp add: trunc_int_nonneg floor_less_iff)
qed

lemma ratio_unit_range:
  "0 \<le> k \<Longrightarrow> k < n \<Longrightarrow> 0 \<le> real_of_int k / real_of_int n \<and> real_of_int k / real_of_int n < 1"
  by (simp add: divide_less_eq)

lemma wf_step_inv: "wf_step wv wv' \<Longrightarrow> wf_inv wv \<Longrightarrow> wf_inv wv'"
  by (induction rule: wf_step.induct)
     (auto simp: wf_inv_def loadFromFile_def setViewPosition_def setVowelMarkers_def setMarkerLabelMode_def
        on_position_changed_def on_media_status_def totalSampleCount_def qBound_def Let_def
        startPlayback_def stopPlayback_def pausePlayback_def seek_def
        split: sf_result.splits)

lemma wf_reachable_inv: "wf_reachable wv \<Longrightarrow> wf_inv wv"
proof (induction rule: wf_reachable.induct)
  case init
  show ?case by (simp add: wf_inv_def init_waveform_def totalSampleCount_def)
next
  case (step wv wv')
  then show ?case by (blast intro: wf_step_inv)
qed

lemma agg_column_bounds:
  "0 \<le> i \<Longrightarrow> i < window \<Longrightarrow> 0 < W \<Longrightarrow> 0 \<le> agg_column i window W \<and> agg_column i window W < W"
  unfolding agg_column_def using ratio_unit_range trunc_int_unit_range by blast

lemma agg_step_Some:
  assumes "length agg = nat W" "0 < W" "int i < window"
  shows "\<exists>agg'. agg_step smp offset window W (Some agg) i = Some agg' \<and> length agg' = nat W"
  using agg_column_bounds[of "int i" window W] assms by (simp add: agg_step_def Let_def)

lemma agg_fold_Some:
  assumes "0 < W" "\<forall>i\<in>set js. int i < window" "length agg = nat W"
  shows "\<exists>agg'. foldl (agg_step smp offset window W) (Some agg) js = Some agg' \<and> length agg' = nat W"
  using assms(2,3)
proof (induction js arbitrary: agg)
  case Nil
  then show ?case by simp
next
  case (Cons i js)
  then obtain agg' where "agg_step smp offset window W (Some agg) i = Some agg'" "length agg' = nat W"
    using agg_step_Some[OF _ assms(1)] by (metis list.set_intros(1))
  with Cons show ?case by simp
qed

lemma paint_aggregate_defined:
  "0 < W \<Longrightarrow> \<exists>agg. paint_aggregate wv W = Some agg \<and> length agg = nat W"
  unfolding paint_aggregate_def Let_def by (rule agg_fold_Some) auto

lemma column_minmax_snoc:
  "column_minmax (vs @ [v]) = (min (fst (column_minmax vs)) v, max (snd (column_minmax vs)) v)"
proof -
  have "set (1 # vs @ [v]) = insert v (set (1 # vs))" "set (- 1 # vs @ [v]) = insert v (set (- 1 # vs))"
    by auto
  moreover have "Min (insert v (set (1 # vs))) = min v (Min (set (1 # vs)))"
    by (rule Min.insert) auto
  moreover have "Max (insert v (set (- 1 # vs))) = max v (Max (set (- 1 # vs)))"
    by (rule Max.insert) auto
  ultimately show ?thesis by (simp only: column_minmax_def fst_conv snd_conv min.commute max.commute)
qed

lemma agg_fold_ref:
  assumes "0 < W" "k \<le> nat window"
  shows "foldl (agg_step smp offset window W) (Some (replicate (nat W) (1, -1))) [0..<k] =
           Some (map (\<lambda>x. column_minmax (column_values smp offset window W k x)) [0..<nat W])"
  using assms(2)
proof (induction k)
  case 0
  then show ?case by (simp add: column_values_def column_minmax_def map_replicate_const)
next
  case (Suc k)
  let ?c = "agg_column (int k) window W"
  have c: "0 \<le> ?c" "?c < W" using agg_column_bounds[of "int k" window W] Suc.prems assms(1) by auto
  let ?v = "smp ! nat (offset + int k)"
  have cv: "column_values smp offset window W (Suc k) x =
              (if ?c = int x then column_values smp offset window W k x @ [?v] else column_values smp offset window W k x)" for x
    by (simp add: column_values_def)
  show ?case
    using Suc c by (auto simp: agg_step_def Let_def cv column_minmax_snoc nth_equalityI nth_list_update nat_less_iff
        intro!: nth_equalityI)
qed

text \<open>C22: For a positive width, the single pass of paintEvent that updates the min/max of each sample's column equals the reference aggregation: column x holds the least of 1 and the visible samples falling in column x, and the greatest of -1 and those samples.\<close>

lemma paint_aggregate_eq_ref:
  assumes "0 < W"
  shows "paint_aggregate wv W = Some (agg_ref wv W)"
  using agg_fold_ref[OF assms order_refl] by (simp add: paint_aggregate_def agg_ref_def Let_def)

lemma unhit_column:
  assumes "0 < n" "n < W"
  shows "\<exists>x<nat W. \<forall>i<nat n. agg_column (int i) n W \<noteq> int x"
proof -
  let ?S = "(\<lambda>i. nat (agg_column (int i) n W)) ` {0..<nat n}"
  have "card ?S \<le> card {0..<nat n}" by (rule card_image_le) simp
  also have "\<dots> < card {0..<nat W}" using assms by simp
  finally have lt: "card ?S < card {0..<nat W}" .
  have "\<not> {0..<nat W} \<subseteq> ?S"
  proof
    assume "{0..<nat W} \<subseteq> ?S"
    then have "card {0..<nat W} \<le> card ?S" by (intro card_mono) simp_all
    with lt show False by simp
  qed
  then obtain x where "x \<in> {0..<nat W}" "x \<notin> ?S" by blast
  then have x: "x < nat W" "x \<notin> ?S" by simp_all
  have "agg_column (int i) n W \<noteq> int x" if "i < nat n" for i
  proof
    assume "agg_column (int i) n W = int x"
    then have "nat (agg_column (int i) n W) = x" by simp
    moreover have "nat (agg_column (int i) n W) \<in> ?S" using that by simp
    ultimately show False using x(2) by simp
  qed
  with x(1) show ?thesis by blast
qed

text \<open>C23: When the visible window has fewer samples than the widget has columns, some column receives no sample and keeps the initial (+1, -1), so paintEvent draws it as a line from the bottom edge to the top edge instead of nothing.\<close>

lemma paint_empty_column:
  assumes "0 < totalSampleCount wv - wf_viewOffset wv" "totalSampleCount wv - wf_viewOffset wv < W"
  shows "\<exists>agg x. paint_aggregate wv W = Some agg \<and> x < length agg \<and> agg ! x = (1, - 1) \<and>
                 paint_edges H agg ! x = (2 * (H div 2), 0)"
proof -
  let ?n = "totalSampleCount wv - wf_viewOffset wv"
  have W: "0 < W" using assms by simp
  obtain x where x: "x < nat W" "\<forall>i<nat ?n. agg_column (int i) ?n W \<noteq> int x"
    using unhit_column[OF assms] by blast
  let ?agg = "map (\<lambda>x. column_minmax (column_values (wf_samples wv) (wf_viewOffset wv) ?n W (nat ?n) x)) [0..<nat W]"
  have "column_values (wf_samples wv) (wf_viewOffset wv) ?n W (nat ?n) x = []"
    using x(2) by (simp add: column_values_def filter_empty_conv)
  then have ax: "?agg ! x = (1, - 1)" using x(1) by (simp add: column_minmax_def)
  have "paint_aggregate wv W = Some ?agg"
    using agg_fold_ref[OF W order_refl] by (simp add: paint_aggregate_def Let_def)
  moreover have "paint_edges H ?agg ! x = (2 * (H div 2), 0)"
    using x(1) ax by (simp add: paint_edges_def trunc_int_def ceiling_minus)
  ultimately show ?thesis using x(1) ax by auto
qed

lemma paint_markers_columns:
  assumes "wf_inv wv" "0 < W" "(x, c, l) \<in> set (paint_markers wv W)"
  shows "0 \<le> x \<and> x < W"
proof -
  obtain vm where vm: "vm \<in> set (wf_markers wv)"
    and p: "\<not> (trunc_int (vm_normPos vm * real_of_int (totalSampleCount wv)) < wf_viewOffset wv \<or>
              totalSampleCount wv \<le> trunc_int (vm_normPos vm * real_of_int (totalSampleCount wv)))"
    and x: "x = trunc_int (real_of_int (trunc_int (vm_normPos vm * real_of_int (totalSampleCount wv)) - wf_viewOffset wv) /
                          real_of_int (totalSampleCount wv - wf_viewOffset wv) * real_of_int W)"
    using assms(3) by (auto simp: paint_markers_def Let_def split: if_splits)
  let ?sp = "trunc_int (vm_normPos vm * real_of_int (totalSampleCount wv))"
  have "0 \<le> real_of_int (?sp - wf_viewOffset wv) / real_of_int (totalSampleCount wv - wf_viewOffset wv) \<and>
        real_of_int (?sp - wf_viewOffset wv) / real_of_int (totalSampleCount wv - wf_viewOffset wv) < 1"
    using p by (intro ratio_unit_range) auto
  then show ?thesis
    unfolding x using trunc_int_unit_range[OF _ _ assms(2)] by blast
qed

lemma abs_mean_le_1:
  assumes "\<forall>x\<in>set xs. \<bar>x\<bar> \<le> (1::real)" "length xs = n" "0 < n"
  shows "\<bar>sum_list xs / real n\<bar> \<le> 1"
proof -
  have "\<bar>sum_list xs\<bar> \<le> sum_list (map abs xs)" by (rule sum_list_abs)
  also have "\<dots> \<le> sum_list (map (\<lambda>_. 1) xs)" using assms(1) by (intro sum_list_mono) simp
  also have "\<dots> = real n" using assms(2) by (simp add: sum_list_triv)
  finally have "\<bar>sum_list xs\<bar> \<le> real n" .
  moreover have "0 < real n" using assms(3) by simp
  ultimately show ?thesis by (simp add: abs_divide pos_divide_le_eq)
qed

lemma sf_buffer_props:
  assumes "\<forall>v\<in>set got. \<bar>v\<bar> \<le> 1"
  shows "length (sf_buffer nch nframes got) = nframes * nch \<and> (\<forall>v\<in>set (sf_buffer nch nframes got). \<bar>v\<bar> \<le> 1)"
  using assms by (auto simp: sf_buffer_def dest: in_set_takeD)

lemma downmix_bounds:
  assumes "0 < nch" "length buf = nframes * nch" "\<forall>v\<in>set buf. \<bar>v\<bar> \<le> 1"
  shows "length (downmix nch nframes buf) = nframes \<and> (\<forall>s\<in>set (downmix nch nframes buf). \<bar>s\<bar> \<le> 1)"
proof -
  have "\<bar>sum_list (map (\<lambda>ch. buf ! (i * nch + ch)) [0..<nch]) / real nch\<bar> \<le> 1" if "i < nframes" for i
  proof (rule abs_mean_le_1)
    have "i * nch + ch < length buf" if "ch < nch" for ch
    proof -
      have "i * nch + ch < (i + 1) * nch" using that by simp
      also have "\<dots> \<le> nframes * nch" using \<open>i < nframes\<close> by (intro mult_right_mono) simp_all
      finally show ?thesis using assms(2) by simp
    qed
    then show "\<forall>x\<in>set (map (\<lambda>ch. buf ! (i * nch + ch)) [0..<nch]). \<bar>x\<bar> \<le> 1"
      using assms(3) by (auto simp: nth_mem)
  qed (simp_all add: assms(1))
  then show ?thesis by (auto simp: downmix_def)
qed

lemma sf_buffer_nth:
  "j < nframes * nch \<Longrightarrow> sf_buffer nch nframes got ! j = (if j < length got then got ! j else 0)"
  by (simp add: sf_buffer_def nth_append)

lemma downmix_sf_buffer_nth:
  assumes "i < nframes"
  shows "downmix nch nframes (sf_buffer nch nframes got) ! i =
           (\<Sum>ch\<leftarrow>[0..<nch]. if i * nch + ch < length got then got ! (i * nch + ch) else 0) / real nch"
proof -
  have b: "i * nch + ch < nframes * nch" if "ch < nch" for ch
  proof -
    have "i * nch + ch < i * nch + nch" using that by simp
    also have "\<dots> = Suc i * nch" by simp
    also have "\<dots> \<le> nframes * nch" using assms by (intro mult_le_mono1) simp
    finally show ?thesis .
  qed
  have m: "map (\<lambda>ch. sf_buffer nch nframes got ! (i * nch + ch)) [0..<nch] =
             map (\<lambda>ch. if i * nch + ch < length got then got ! (i * nch + ch) else 0) [0..<nch]"
    by (rule map_cong [OF refl]) (simp add: sf_buffer_nth b)
  have d: "downmix nch nframes (sf_buffer nch nframes got) ! i =
            sum_list (map (\<lambda>ch. sf_buffer nch nframes got ! (i * nch + ch)) [0..<nch]) / real nch"
    using assms by (simp add: downmix_def)
  show ?thesis unfolding d m ..
qed

text \<open>C36: A successful load with at least one channel gives one mono sample per file frame, sample i being the mean over the channels of the interleaved values i*nch+ch read (0 past the values read), so samples read in [-1, 1] stay in [-1, 1]; the view offset is reset, the file's rate kept, and the media player's source set to the file, stopped at position 0.\<close>

lemma loadFromFile_ok:
  assumes "loadFromFile path (SfOpened rate nch nframes readcount got) wv = (ok, wv')" "0 < readcount"
    and "0 < nch" "\<forall>v\<in>set got. \<bar>v\<bar> \<le> 1"
  shows "ok \<and> totalSampleCount wv' = int nframes \<and> (\<forall>s\<in>set (wf_samples wv'). \<bar>s\<bar> \<le> 1) \<and>
         (\<forall>i<nframes. wf_samples wv' ! i =
            (\<Sum>ch\<leftarrow>[0..<nch]. if i * nch + ch < length got then got ! (i * nch + ch) else 0) / real nch) \<and>
         wf_sampleRate wv' = rate \<and> wf_viewOffset wv' = 0 \<and> wf_player wv' = mp_setSource path (wf_player wv)"
  using assms sf_buffer_props[OF assms(4), of nch nframes]
    downmix_bounds[OF assms(3), of "sf_buffer nch nframes got" nframes]
  by (auto simp: loadFromFile_def totalSampleCount_def downmix_sf_buffer_nth)

lemma loadFromFile_read_failure:
  assumes "readcount \<le> 0"
  shows "loadFromFile path (SfOpened rate nch nframes readcount got) wv =
           (False, wv\<lparr>wf_samples := [], wf_viewOffset := 0, wf_sampleRate := rate\<rparr>)"
  using assms by (simp add: loadFromFile_def)

lemma on_position_changed_exact:
  assumes "0 \<le> ms" "0 \<le> wf_sampleRate wv" "ms * wf_sampleRate wv < 2 ^ 63"
    and "ms * wf_sampleRate wv div 1000 \<le> int32_max"
  shows "wf_playheadSample (on_position_changed ms wv) = ms * wf_sampleRate wv div 1000"
proof -
  let ?p = "ms * wf_sampleRate wv"
  have p0: "0 \<le> ?p" using assms(1,2) by simp
  have "wrap64 ?p = ?p"
    using p0 assms(3) by (intro wrap64_id) simp_all
  moreover have "?p sdiv 1000 = ?p div 1000"
    using p0 by (simp add: signed_divide_int_def sgn_if abs_of_nonneg)
  moreover have "in_int32 (?p div 1000)"
    using p0 assms(4) by (simp add: in_int32_def int32_min_def)
  ultimately show ?thesis by (simp add: on_position_changed_def)
qed

lemma fmt_fixed_2_zero: "fmt_fixed 2 0 = ''0.00''"
  by (simp add: fmt_fixed_def show_nat.simps char_of_eq_iff)

lemma marker_label_relVowelSum:
  "m \<in> set (build_markers smp pvs) \<Longrightarrow> marker_label RelVowelSum m = ''0.00''"
  by (auto simp: marker_label_def build_markers_eq build_marker_def Let_def fmt_fixed_2_zero
      split: prod.splits)

subsection \<open>Witnesses\<close>

lemma paint_markers_columns_witness:
  "wf_inv (init_waveform\<lparr>wf_samples := [0, 0, 0, 0], wf_markers := [example_marker]\<rparr>) \<and> (0::int) < 100 \<and>
   (0, Red, ''A'') \<in> set (paint_markers (init_waveform\<lparr>wf_samples := [0, 0, 0, 0], wf_markers := [example_marker]\<rparr>) 100) \<and>
   0 \<le> (0::int) \<and> (0::int) < 100"
proof -
  let ?w = "init_waveform\<lparr>wf_samples := [0, 0, 0, 0], wf_markers := [example_marker]\<rparr>"
  have h: "wf_inv ?w" "(0::int) < 100" "(0, Red, ''A'') \<in> set (paint_markers ?w 100)"
    by (simp_all add: wf_inv_def init_waveform_def totalSampleCount_def paint_markers_def example_marker_def
        trunc_int_def marker_colour_def marker_label_def)
  from paint_markers_columns[OF h] h show ?thesis by simp
qed

lemma loadFromFile_ok_witness:
  "loadFromFile ''a.wav'' (SfOpened 16000 2 1 1 [1, - 1 / 2]) init_waveform =
     (fst (loadFromFile ''a.wav'' (SfOpened 16000 2 1 1 [1, - 1 / 2]) init_waveform),
      snd (loadFromFile ''a.wav'' (SfOpened 16000 2 1 1 [1, - 1 / 2]) init_waveform)) \<and>
   (0::int) < 1 \<and> (0::nat) < 2 \<and> \<bar>1::real\<bar> \<le> 1 \<and> \<bar>- 1 / 2::real\<bar> \<le> 1 \<and>
   fst (loadFromFile ''a.wav'' (SfOpened 16000 2 1 1 [1, - 1 / 2]) init_waveform) \<and>
   totalSampleCount (snd (loadFromFile ''a.wav'' (SfOpened 16000 2 1 1 [1, - 1 / 2]) init_waveform)) = 1 \<and>
   wf_samples (snd (loadFromFile ''a.wav'' (SfOpened 16000 2 1 1 [1, - 1 / 2]) init_waveform)) ! 0 = 1 / 4 \<and>
   wf_sampleRate (snd (loadFromFile ''a.wav'' (SfOpened 16000 2 1 1 [1, - 1 / 2]) init_waveform)) = 16000"
proof -
  let ?r = "loadFromFile ''a.wav'' (SfOpened 16000 2 1 1 [1, - 1 / 2]) init_waveform"
  have h: "?r = (fst ?r, snd ?r)" "(0::int) < 1" "(0::nat) < 2" "\<forall>v\<in>set [1, - 1 / 2::real]. \<bar>v\<bar> \<le> 1"
    by simp_all
  from loadFromFile_ok[OF h] h show ?thesis by (simp add: upt_conv_Cons)
qed

lemma paint_empty_column_witness:
  "\<exists>agg x. paint_aggregate (init_waveform\<lparr>wf_samples := [1 / 2]\<rparr>) 2 = Some agg \<and> x < length agg \<and>
     agg ! x = (1, - 1) \<and> paint_edges 100 agg ! x = (100, 0)"
proof -
  have "0 < totalSampleCount (init_waveform\<lparr>wf_samples := [1 / 2]\<rparr>) - wf_viewOffset (init_waveform\<lparr>wf_samples := [1 / 2]\<rparr>)"
       "totalSampleCount (init_waveform\<lparr>wf_samples := [1 / 2]\<rparr>) - wf_viewOffset (init_waveform\<lparr>wf_samples := [1 / 2]\<rparr>) < 2"
    by (simp_all add: totalSampleCount_def init_waveform_def)
  from paint_empty_column[OF this, of 100] show ?thesis by simp
qed

lemma paint_aggregate_eq_ref_witness:
  "(0::int) < 2 \<and> paint_aggregate (init_waveform\<lparr>wf_samples := [1 / 2]\<rparr>) 2 = Some [(1 / 2, 1 / 2), (1, - 1)]"
proof -
  have c: "column_values [1 / 2] 0 1 2 1 0 = [1 / 2]" "column_values [1 / 2] 0 1 2 1 1 = []"
    by (simp_all add: column_values_def agg_column_def trunc_int_def)
  have "column_minmax [1 / 2] = (1 / 2, 1 / 2)" "column_minmax [] = (1, - 1)"
    by (simp_all add: column_minmax_def)
  with c have "agg_ref (init_waveform\<lparr>wf_samples := [1 / 2]\<rparr>) 2 = [(1 / 2, 1 / 2), (1, - 1)]"
    by (simp add: agg_ref_def totalSampleCount_def init_waveform_def eval_nat_numeral upt_Suc)
  with paint_aggregate_eq_ref[of 2 "init_waveform\<lparr>wf_samples := [1 / 2]\<rparr>"] show ?thesis by simp
qed

end
