(* ===== verification/TableModel.thy ===== *)
theory TableModel
  imports TrackCodec
begin

text \<open>
  The ADXLip table: \<open>ADXLipModel\<close> (\<open>ADXLipModel.h\<close> lines 81--105, \<open>ADXLipModel.cpp\<close>
  lines 7--128), a \<open>QAbstractTableModel\<close> over the rows of the track. A model index is
  invalid or a (row, column) pair; \<open>QModelIndex::isValid\<close> holds for non-negative pairs.
  \<open>data\<close> and \<open>setData\<close> index \<open>frames_\<close> without a bounds check, so a valid index
  whose row lies past the end is undefined behaviour in the code; the model returns
  \<open>None\<close> there. Views only hand out indices built by \<open>QAbstractItemModel::index\<close>,
  which checks \<open>hasIndex\<close> (\<open>model_index\<close>); for those the access is always defined.
\<close>

record adx_model =
  model_frames :: "adx_frame list"

datatype model_index = InvalidIndex | Index int int

datatype item_role = DisplayRole | EditRole | OtherRole nat

datatype orientation = Horizontal | Vertical

datatype item_flag = ItemIsSelectable | ItemIsEnabled | ItemIsEditable

definition index_isValid :: "model_index \<Rightarrow> bool" where
  "index_isValid ix = (case ix of InvalidIndex \<Rightarrow> False | Index r c \<Rightarrow> 0 \<le> r \<and> 0 \<le> c)"

text \<open>Lines 72--81 and \<open>fixedParamCount\<close> (header line 91).\<close>

definition rowCount :: "adx_model \<Rightarrow> int" where
  "rowCount m = int (length (model_frames m))"

definition columnCount :: "adx_model \<Rightarrow> int" where
  "columnCount m = int ADX_FIXED_PARAM_COUNT"

text \<open>\<open>QAbstractTableModel::index(row, column)\<close>: valid only inside the table.\<close>

definition model_index :: "adx_model \<Rightarrow> int \<Rightarrow> int \<Rightarrow> model_index" where
  "model_index m r c =
     (if 0 \<le> r \<and> r < rowCount m \<and> 0 \<le> c \<and> c < columnCount m then Index r c else InvalidIndex)"

text \<open>Lines 12--17.\<close>

definition flags :: "model_index \<Rightarrow> item_flag set" where
  "flags ix = (if \<not> index_isValid ix then {} else {ItemIsSelectable, ItemIsEnabled, ItemIsEditable})"

text \<open>Lines 26--64: the switch of \<open>setData\<close>; \<open>None\<close> is the \<open>default: return false\<close>.\<close>

definition set_field :: "int \<Rightarrow> qvariant \<Rightarrow> adx_frame \<Rightarrow> adx_frame option" where
  "set_field col v f =
     (if col = 0 then Some (f\<lparr>frameIndex := qvariant_toInt v\<rparr>)
      else if col = 1 then Some (f\<lparr>msec := qvariant_toInt v\<rparr>)
      else if col = 2 then Some (f\<lparr>width := qvariant_toDouble v\<rparr>)
      else if col = 3 then Some (f\<lparr>height := qvariant_toDouble v\<rparr>)
      else if col = 4 then Some (f\<lparr>tongue := qvariant_toDouble v\<rparr>)
      else if col = 5 then Some (f\<lparr>chA := qvariant_toDouble v\<rparr>)
      else if col = 6 then Some (f\<lparr>chI := qvariant_toDouble v\<rparr>)
      else if col = 7 then Some (f\<lparr>chU := qvariant_toDouble v\<rparr>)
      else if col = 8 then Some (f\<lparr>chE := qvariant_toDouble v\<rparr>)
      else if col = 9 then Some (f\<lparr>chO := qvariant_toDouble v\<rparr>)
      else if col = 10 then Some (f\<lparr>chN := qvariant_toDouble v\<rparr>)
      else if col = 11 then Some (f\<lparr>vol_dB := qvariant_toDouble v\<rparr>)
      else None)"

text \<open>
  Lines 20--69. The result is the returned flag and the model after the call; the row
  reference \<open>frames_[index.row()]\<close> is taken before the switch, so an out-of-range row is
  undefined behaviour even for a column the switch rejects.
\<close>

definition setData :: "model_index \<Rightarrow> qvariant \<Rightarrow> item_role \<Rightarrow> adx_model \<Rightarrow> (bool \<times> adx_model) option" where
  "setData ix v role m =
     (if role \<noteq> EditRole \<or> \<not> index_isValid ix then Some (False, m)
      else (case ix of
              InvalidIndex \<Rightarrow> Some (False, m)
            | Index r c \<Rightarrow>
                if rowCount m \<le> r then None
                else (case set_field c v (model_frames m ! nat r) of
                        None \<Rightarrow> Some (False, m)
                      | Some f' \<Rightarrow> Some (True, m\<lparr>model_frames := (model_frames m)[nat r := f']\<rparr>))))"

text \<open>Lines 89--104: the switch of \<open>data\<close>.\<close>

definition get_field :: "int \<Rightarrow> adx_frame \<Rightarrow> qvariant" where
  "get_field col f =
     (if col = 0 then QInt (frameIndex f)
      else if col = 1 then QInt (msec f)
      else if col = 2 then QDouble (width f)
      else if col = 3 then QDouble (height f)
      else if col = 4 then QDouble (tongue f)
      else if col = 5 then QDouble (chA f)
      else if col = 6 then QDouble (chI f)
      else if col = 7 then QDouble (chU f)
      else if col = 8 then QDouble (chE f)
      else if col = 9 then QDouble (chO f)
      else if col = 10 then QDouble (chN f)
      else if col = 11 then QDouble (vol_dB f)
      else QInvalid)"

text \<open>Lines 83--105 (\<open>frames_.at\<close> asserts on an out-of-range row: \<open>None\<close>).\<close>

definition data :: "model_index \<Rightarrow> item_role \<Rightarrow> adx_model \<Rightarrow> qvariant option" where
  "data ix role m =
     (if \<not> index_isValid ix \<or> role \<noteq> DisplayRole then Some QInvalid
      else (case ix of
              InvalidIndex \<Rightarrow> Some QInvalid
            | Index r c \<Rightarrow> if rowCount m \<le> r then None else Some (get_field c (model_frames m ! nat r))))"

text \<open>Lines 107--121.\<close>

definition header_names :: "string list" where
  "header_names = [''frameIndex'', ''msec'', ''width'', ''height'', ''tongue'',
                   ''A'', ''I'', ''U'', ''E'', ''O'', ''N'', ''vol_dB'']"

definition headerData :: "int \<Rightarrow> orientation \<Rightarrow> item_role \<Rightarrow> qvariant" where
  "headerData section orient role =
     (if role \<noteq> DisplayRole \<or> orient \<noteq> Horizontal then QInvalid
      else if 0 \<le> section \<and> section < int ADX_FIXED_PARAM_COUNT
      then QString (header_names ! nat section) else QInvalid)"

text \<open>Lines 123--128.\<close>

definition setFrames :: "adx_frame list \<Rightarrow> adx_model \<Rightarrow> adx_model" where
  "setFrames fs m = m\<lparr>model_frames := fs\<rparr>"

text \<open>The value a cell shows after an edit with \<open>v\<close>: the two int columns convert with \<open>toInt\<close>, the rest with \<open>toDouble\<close>.\<close>

definition cell_value :: "int \<Rightarrow> qvariant \<Rightarrow> qvariant" where
  "cell_value c v = (if c < 2 then QInt (qvariant_toInt v) else QDouble (qvariant_toDouble v))"

subsection \<open>Properties\<close>

lemma set_field_Some_iff: "(\<exists>f'. set_field c v f = Some f') \<longleftrightarrow> 0 \<le> c \<and> c < 12"
  by (simp add: set_field_def) presburger

lemma get_set_field_same:
  "set_field c v f = Some f' \<Longrightarrow> get_field c f' = cell_value c v"
  by (auto simp: set_field_def get_field_def cell_value_def split: if_splits)

lemma get_set_field_other:
  "set_field c v f = Some f' \<Longrightarrow> c' \<noteq> c \<Longrightarrow> get_field c' f' = get_field c' f"
  by (auto simp: set_field_def get_field_def split: if_splits)

lemma model_index_cases:
  "model_index m r c = InvalidIndex \<or>
   (model_index m r c = Index r c \<and> 0 \<le> r \<and> r < rowCount m \<and> 0 \<le> c \<and> c < columnCount m)"
  by (simp add: model_index_def)

text \<open>C8: Editing a cell inside the table with setData in the edit role succeeds, and afterwards data shows the edited value (converted by toInt for the two int columns, by toDouble for the others), the row count is unchanged and every other cell shows what it showed before.\<close>

lemma setData_edit:
  assumes "0 \<le> r" "r < rowCount m" "0 \<le> c" "c < columnCount m"
  shows "\<exists>m'. setData (Index r c) v EditRole m = Some (True, m') \<and>
              data (Index r c) DisplayRole m' = Some (cell_value c v) \<and>
              rowCount m' = rowCount m \<and>
              (\<forall>r' c'. (r', c') \<noteq> (r, c) \<longrightarrow> data (Index r' c') DisplayRole m' = data (Index r' c') DisplayRole m)"
proof -
  have c: "0 \<le> c \<and> c < 12" using assms(3,4) by (simp add: columnCount_def ADX_FIXED_PARAM_COUNT_def)
  then obtain f' where f': "set_field c v (model_frames m ! nat r) = Some f'"
    using set_field_Some_iff by blast
  let ?m' = "m\<lparr>model_frames := (model_frames m)[nat r := f']\<rparr>"
  have n: "nat r < length (model_frames m)" using assms(1,2) by (simp add: rowCount_def nat_less_iff)
  have "setData (Index r c) v EditRole m = Some (True, ?m')"
    using assms f' by (simp add: setData_def index_isValid_def)
  moreover have "data (Index r c) DisplayRole ?m' = Some (cell_value c v)"
    using assms n f' by (simp add: data_def index_isValid_def rowCount_def get_set_field_same)
  moreover have "rowCount ?m' = rowCount m" by (simp add: rowCount_def)
  moreover have "data (Index r' c') DisplayRole ?m' = data (Index r' c') DisplayRole m"
    if "(r', c') \<noteq> (r, c)" for r' c'
  proof (cases "0 \<le> r' \<and> 0 \<le> c' \<and> r' < rowCount m")
    case True
    then have "nat r' < length (model_frames m)" by (simp add: rowCount_def nat_less_iff)
    then show ?thesis
      using True that assms(1) f' n
      by (cases "r' = r")
         (auto simp: data_def index_isValid_def rowCount_def nth_list_update get_set_field_other nat_eq_iff2)
  next
    case False
    then show ?thesis by (auto simp: data_def index_isValid_def rowCount_def)
  qed
  ultimately show ?thesis by blast
qed

text \<open>C25: setData with a role other than the edit role, an invalid index, or an in-range row with a column outside 0..11 returns false and leaves the model unchanged.\<close>

lemma setData_rejects:
  assumes "role \<noteq> EditRole \<or> \<not> index_isValid ix \<or>
           (\<exists>r c. ix = Index r c \<and> r < rowCount m \<and> (c < 0 \<or> 12 \<le> c))"
  shows "setData ix v role m = Some (False, m)"
  using assms by (auto simp: setData_def set_field_def index_isValid_def)

text \<open>C24: For a row inside the table, data shows an int variant in columns 0 and 1, a double variant in columns 2 to 11 and an invalid variant beyond.\<close>

lemma data_column_types:
  assumes "0 \<le> r" "r < rowCount m" "0 \<le> c"
  shows "(c < 2 \<longrightarrow> (\<exists>i. data (Index r c) DisplayRole m = Some (QInt i))) \<and>
         (2 \<le> c \<and> c < 12 \<longrightarrow> (\<exists>d. data (Index r c) DisplayRole m = Some (QDouble d))) \<and>
         (12 \<le> c \<longrightarrow> data (Index r c) DisplayRole m = Some QInvalid)"
  using assms by (auto simp: data_def index_isValid_def get_field_def) presburger

lemma model_index_defined:
  "data (model_index m r c) role m \<noteq> None \<and> setData (model_index m r c) v role m \<noteq> None"
  by (auto simp: model_index_def data_def setData_def index_isValid_def split: option.splits)

subsection \<open>Witnesses\<close>

lemma setData_edit_witness:
  "0 \<le> (0::int) \<and> 0 < rowCount \<lparr>model_frames = [default_frame]\<rparr> \<and> 0 \<le> (5::int) \<and>
   5 < columnCount \<lparr>model_frames = [default_frame]\<rparr> \<and>
   (\<exists>m'. setData (Index 0 5) (QDouble (1 / 2)) EditRole \<lparr>model_frames = [default_frame]\<rparr> = Some (True, m') \<and>
         data (Index 0 5) DisplayRole m' = Some (QDouble (1 / 2)))"
proof -
  have h: "0 \<le> (0::int)" "0 < rowCount \<lparr>model_frames = [default_frame]\<rparr>" "0 \<le> (5::int)"
    "5 < columnCount \<lparr>model_frames = [default_frame]\<rparr>"
    by (simp_all add: rowCount_def columnCount_def ADX_FIXED_PARAM_COUNT_def)
  from setData_edit[OF h, of "QDouble (1 / 2)"] h show ?thesis by (auto simp: cell_value_def)
qed

lemma setData_rejects_witness:
  "DisplayRole \<noteq> EditRole \<and>
   setData (Index 0 0) (QInt 1) DisplayRole \<lparr>model_frames = [default_frame]\<rparr> = Some (False, \<lparr>model_frames = [default_frame]\<rparr>)"
  using setData_rejects[of DisplayRole "Index 0 0" "\<lparr>model_frames = [default_frame]\<rparr>" "QInt 1"] by simp

lemma data_column_types_witness:
  "0 \<le> (0::int) \<and> 0 < rowCount \<lparr>model_frames = [default_frame]\<rparr> \<and>
   (\<exists>i. data (Index 0 0) DisplayRole \<lparr>model_frames = [default_frame]\<rparr> = Some (QInt i))"
proof -
  have h: "0 \<le> (0::int)" "0 < rowCount \<lparr>model_frames = [default_frame]\<rparr>" by (simp_all add: rowCount_def)
  from data_column_types[OF h order_refl] h show ?thesis by simp
qed

end
