(* ===== verification/EditDelegate.thy ===== *)
theory EditDelegate
  imports TableModel
begin

text \<open>
  \<open>NoCommitDelegate\<close> (\<open>NoCommitDelegate.h\<close>): the item delegate of the ADXLip table.
  Its event filter, installed on the editor and on a \<open>QLineEdit\<close> inside it, turns
  Ctrl+C/Ctrl+V into line-edit actions, Escape into a reverting close and Return/Enter
  into a commit followed by a close; on focus loss it asks for a reverting close. Every
  event it does not consume, focus loss included, then goes to
  \<open>QStyledItemDelegate::eventFilter\<close> (line 85), whose behaviour is modelled after Qt 6's
  editor event filter (\<open>base_eventFilter\<close>): Tab and Backtab commit and close asking for
  the next or previous item, and a focus loss to a widget outside the editor commits
  and closes. \<open>setEditorData\<close> reads the \<open>EditRole\<close> value and falls back to the
  \<open>DisplayRole\<close> value when it is invalid or renders empty.
\<close>

datatype key = Key_C | Key_V | Key_Escape | Key_Return | Key_Enter | Key_Tab | Key_Backtab | OtherKey nat

text \<open>
  A key press carries whether Control is held; a focus loss carries whether the widget
  that receives the focus is the editor or lies inside it.
\<close>

datatype qevent = KeyPress bool key | FocusOut bool | OtherEvent

datatype end_edit_hint = NoHint | RevertModelCache | SubmitModelCache | EditNextItem | EditPreviousItem

datatype delegate_signal = CommitData | CloseEditor end_edit_hint

datatype line_edit_action = LeCopy | LePaste

text \<open>Whether the filter returns true (the event is consumed) or false (it is delivered).\<close>

datatype filter_outcome = Consumed | Delivered

record filter_result =
  outcome :: filter_outcome
  signals :: "delegate_signal list"
  le_action :: "line_edit_action option"

text \<open>
  \<open>QStyledItemDelegate::eventFilter\<close>, after Qt 6's \<open>editorEventFilter\<close>, for an editor
  whose input the validator accepts: Tab and Backtab commit and close towards the next or
  previous item; Escape closes reverting; Return and Enter are delivered to the editor
  and then commit and close submitting the cache; a focus loss to a widget outside the
  editor commits and closes.
\<close>

definition base_eventFilter :: "qevent \<Rightarrow> filter_outcome \<times> delegate_signal list" where
  "base_eventFilter ev =
     (case ev of
        KeyPress _ k \<Rightarrow>
          (if k = Key_Tab then (Consumed, [CommitData, CloseEditor EditNextItem])
           else if k = Key_Backtab then (Consumed, [CommitData, CloseEditor EditPreviousItem])
           else if k = Key_Escape then (Consumed, [CloseEditor RevertModelCache])
           else if k = Key_Return \<or> k = Key_Enter then (Delivered, [CommitData, CloseEditor SubmitModelCache])
           else (Delivered, []))
      | FocusOut insideEditor \<Rightarrow>
          (if insideEditor then (Delivered, []) else (Delivered, [CommitData, CloseEditor NoHint]))
      | OtherEvent \<Rightarrow> (Delivered, []))"

text \<open>Line 85: the signals emitted so far, followed by those of the base filter.\<close>

definition pass_to_base :: "delegate_signal list \<Rightarrow> qevent \<Rightarrow> filter_result" where
  "pass_to_base emitted ev =
     (let (out, sigs) = base_eventFilter ev in \<lparr>outcome = out, signals = emitted @ sigs, le_action = None\<rparr>)"

text \<open>Lines 48--86; \<open>isLineEdit\<close> is whether \<open>qobject_cast<QLineEdit*>(obj)\<close> succeeds.\<close>

definition eventFilter :: "bool \<Rightarrow> qevent \<Rightarrow> filter_result" where
  "eventFilter isLineEdit ev =
     (case ev of
        KeyPress ctrl k \<Rightarrow>
          (if ctrl \<and> k = Key_C \<and> isLineEdit
           then \<lparr>outcome = Consumed, signals = [], le_action = Some LeCopy\<rparr>
           else if ctrl \<and> k = Key_V \<and> isLineEdit
           then \<lparr>outcome = Consumed, signals = [], le_action = Some LePaste\<rparr>
           else if k = Key_Escape
           then \<lparr>outcome = Consumed, signals = [CloseEditor RevertModelCache], le_action = None\<rparr>
           else if k = Key_Return \<or> k = Key_Enter
           then \<lparr>outcome = Consumed, signals = [CommitData, CloseEditor NoHint], le_action = None\<rparr>
           else pass_to_base [] ev)
      | FocusOut _ \<Rightarrow> pass_to_base [CloseEditor RevertModelCache] ev
      | OtherEvent \<Rightarrow> pass_to_base [] ev)"

text \<open>
  Lines 15--28: the filter is installed on the editor and on its inner line edit, so an
  editing session is the sequence of (receiver is a line edit, event) pairs the filter
  sees, and its signals are those of the filter calls in order.
\<close>

definition session_signals :: "(bool \<times> qevent) list \<Rightarrow> delegate_signal list" where
  "session_signals evs = concat (map (\<lambda>(le, ev). signals (eventFilter le ev)) evs)"

text \<open>\<open>QVariant::toString().isEmpty()\<close> for the kinds of variant the table produces.\<close>

fun qvariant_text_empty :: "qvariant \<Rightarrow> bool" where
  "qvariant_text_empty QInvalid = True"
| "qvariant_text_empty (QInt _) = False"
| "qvariant_text_empty (QDouble _) = False"
| "qvariant_text_empty (QString s) = (s = [])"

datatype editor_fill = LineEditText qvariant | BaseEditorData

text \<open>Lines 31--45: \<open>None\<close> when reading the model is undefined.\<close>

definition setEditorData :: "bool \<Rightarrow> adx_model \<Rightarrow> model_index \<Rightarrow> editor_fill option" where
  "setEditorData isLineEdit m ix =
     (case data ix EditRole m of
        None \<Rightarrow> None
      | Some v0 \<Rightarrow>
          (let v = (if \<not> qvariant_isValid v0 \<or> qvariant_text_empty v0 then data ix DisplayRole m else Some v0)
           in case v of None \<Rightarrow> None
              | Some v' \<Rightarrow> Some (if isLineEdit then LineEditText v' else BaseEditorData)))"


text \<open>A list of signals in which every commit is followed at once by a close that does not revert.\<close>

definition commit_then_close :: "delegate_signal list \<Rightarrow> bool" where
  "commit_then_close sigs =
     (\<forall>i < length sigs. sigs ! i = CommitData \<longrightarrow>
        Suc i < length sigs \<and> (\<exists>h. sigs ! Suc i = CloseEditor h \<and> h \<noteq> RevertModelCache))"

subsection \<open>Properties\<close>


lemma eventFilter_signals_cases:
  "signals (eventFilter le ev) \<in>
     {[], [CloseEditor RevertModelCache], [CommitData, CloseEditor NoHint],
      [CommitData, CloseEditor EditNextItem], [CommitData, CloseEditor EditPreviousItem],
      [CloseEditor RevertModelCache, CommitData, CloseEditor NoHint]}"
  by (auto simp: eventFilter_def pass_to_base_def base_eventFilter_def split: qevent.splits)

lemma eventFilter_commit_then_close: "commit_then_close (signals (eventFilter le ev))"
  using eventFilter_signals_cases[of le ev]
  by (auto simp: commit_then_close_def less_Suc_eq nth_Cons' split: if_splits)

lemma commit_then_close_append:
  assumes "commit_then_close xs" "commit_then_close ys"
  shows "commit_then_close (xs @ ys)"
  unfolding commit_then_close_def
proof (intro allI impI)
  fix i assume i: "i < length (xs @ ys)" "(xs @ ys) ! i = CommitData"
  show "Suc i < length (xs @ ys) \<and> (\<exists>h. (xs @ ys) ! Suc i = CloseEditor h \<and> h \<noteq> RevertModelCache)"
  proof (cases "i < length xs")
    case True
    with assms(1) i show ?thesis by (auto simp: commit_then_close_def nth_append)
  next
    case False
    with assms(2) i show ?thesis
      by (auto simp: commit_then_close_def nth_append Suc_diff_le dest!: spec[of _ "i - length xs"])
  qed
qed




text \<open>C21: Every commitData the delegate emits is immediately followed by closeEditor with a hint other than RevertModelCache (no hint on Return/Enter and on focus loss, EditNextItem/EditPreviousItem on Tab/Backtab): a committed edit is never followed by a close that reverts it.\<close>

lemma session_commit_then_close:
  assumes "session_signals evs ! i = CommitData" "i < length (session_signals evs)"
  shows "Suc i < length (session_signals evs) \<and>
         (\<exists>h. session_signals evs ! Suc i = CloseEditor h \<and> h \<noteq> RevertModelCache)"
proof -
  have "commit_then_close (session_signals evs)"
  proof (induction evs)
    case Nil
    then show ?case by (simp add: session_signals_def commit_then_close_def)
  next
    case (Cons e evs)
    then show ?case
      by (cases e) (simp add: session_signals_def commit_then_close_append eventFilter_commit_then_close)
  qed
  with assms show ?thesis by (simp add: commit_then_close_def)
qed

lemma focus_out_signals:
  "signals (eventFilter le (FocusOut False)) = [CloseEditor RevertModelCache, CommitData, CloseEditor NoHint]"
  by (simp add: eventFilter_def pass_to_base_def base_eventFilter_def)

lemma setEditorData_table:
  assumes "model_index m r c = Index r c"
  shows "setEditorData True m (model_index m r c) = map_option LineEditText (data (model_index m r c) DisplayRole m) \<and>
         data (model_index m r c) DisplayRole m \<noteq> None"
  using assms model_index_cases[of m r c]
  by (auto simp: setEditorData_def data_def index_isValid_def)

subsection \<open>Witnesses\<close>

lemma session_commit_then_close_witness:
  "session_signals [(True, KeyPress False Key_Tab)] ! 0 = CommitData \<and>
   0 < length (session_signals [(True, KeyPress False Key_Tab)]) \<and>
   Suc 0 < length (session_signals [(True, KeyPress False Key_Tab)]) \<and>
   session_signals [(True, KeyPress False Key_Tab)] ! Suc 0 = CloseEditor EditNextItem"
proof -
  have s: "session_signals [(True, KeyPress False Key_Tab)] = [CommitData, CloseEditor EditNextItem]"
    by (simp add: session_signals_def eventFilter_def pass_to_base_def base_eventFilter_def)
  have "session_signals [(True, KeyPress False Key_Tab)] ! 0 = CommitData"
    "0 < length (session_signals [(True, KeyPress False Key_Tab)])" by (simp_all add: s)
  from session_commit_then_close[OF this] this s show ?thesis by simp
qed


end
