(* ===== verification/Window.thy ===== *)
theory Window
  imports Waveform EditDelegate
begin

text \<open>
  The analysis window as a whole (\<open>JuliusAnalyzeWindow.cpp\<close>): the parser state of
  \<open>AlignmentParser\<close>, the waveform widget, the loaded WAV path and the position
  slider, and the handlers that connect them. The ADXLip model's rows are the
  analyzer's \<open>adxFrames\<close> and the widget's markers are set from \<open>widgetMarkers\<close>
  whenever a block is processed (\<open>setVowelMarkers\<close>, line 648). Dialogs, the Julius
  process and the media player are inputs or not modelled.
\<close>

record window =
  win_an :: analyzer
  win_wave :: waveform
  loadedWavPath :: string
  slider_max :: int
  slider_value :: int
  silence_checked :: bool
  label_row :: int

text \<open>
  The constructor's state (lines 86--91 with \<open>setupUi\<close>): a \<open>QSlider\<close> starts with the
  range 0 to 99, the silence check box is unchecked (lines 103--104) and the label combo
  shows its first row, the first item added (line 154).
\<close>

definition init_window :: window where
  "init_window = \<lparr>win_an = init_analyzer, win_wave = init_waveform, loadedWavPath = [],
                  slider_max = 99, slider_value = 0, silence_checked = False, label_row = 0\<rparr>"

definition wave_of :: "waveform \<Rightarrow> wave" where
  "wave_of wv = \<lparr>samples = wf_samples wv, sampleRate = wf_sampleRate wv\<rparr>"

text \<open>Lines 219--226: \<open>totalSamples * 1000 / rate\<close> in 32-bit \<open>int\<close> arithmetic.\<close>

definition slider_total_ms :: "int \<Rightarrow> int \<Rightarrow> int" where
  "slider_total_ms totalSamples rate =
     (if rate > 0 then wrap32 (totalSamples * 1000) sdiv rate else 0)"

text \<open>\<open>QSlider::setRange(0, m)\<close> keeps the maximum at least the minimum; \<open>setValue\<close> clamps.\<close>

definition updateSliderRangeFromWave :: "window \<Rightarrow> window" where
  "updateSliderRangeFromWave win =
     (let m = slider_total_ms (totalSampleCount (win_wave win)) (wf_sampleRate (win_wave win))
      in win\<lparr>slider_max := max 0 m, slider_value := 0\<rparr>)"

text \<open>
  Lines 229--244, with the path the dialog returned (empty when cancelled) and the
  outcome of reading it. The path is stored before the load is known to succeed; on
  success \<open>waveformLoaded\<close> (line 204) and the handler itself both update the slider.
\<close>

definition onLoadWav :: "string \<Rightarrow> sf_result \<Rightarrow> window \<Rightarrow> window" where
  "onLoadWav path r win =
     (if path = [] then win
      else (let win1 = win\<lparr>loadedWavPath := path\<rparr>; (ok, wv') = loadFromFile path r (win_wave win);
                win2 = win1\<lparr>win_wave := wv'\<rparr>
            in if \<not> ok then win2 else updateSliderRangeFromWave (updateSliderRangeFromWave win2)))"

text \<open>Lines 396--407: the guard on the loaded path and the marker reset.\<close>

definition onRunJulius :: "window \<Rightarrow> window" where
  "onRunJulius win = win\<lparr>win_an := onRunJulius_reset (loadedWavPath win \<noteq> []) (win_an win)\<rparr>"

text \<open>Lines 408--426 with line 648: a chunk of Julius output, parsed against the loaded audio.\<close>

definition onJuliusOutput :: "string \<Rightarrow> window \<Rightarrow> window" where
  "onJuliusOutput chunk win =
     (let an' = on_stdout_chunk (wave_of (win_wave win)) (win_an win) chunk
      in win\<lparr>win_an := an', win_wave := setVowelMarkers (widgetMarkers an') (win_wave win)\<rparr>)"

text \<open>Lines 154--161: the label combo's rows and the integers stored with them.\<close>

definition label_modes :: "marker_label_mode list" where
  "label_modes = [AIUEON, CV, dBFS, RelSum, RelMax, RelVowelSum, NormPos, ModeNone]"

definition label_mode_code :: "marker_label_mode \<Rightarrow> int" where
  "label_mode_code m =
     (case m of AIUEON \<Rightarrow> 0 | CV \<Rightarrow> 1 | dBFS \<Rightarrow> 2 | RelSum \<Rightarrow> 3 | RelMax \<Rightarrow> 4
      | RelVowelSum \<Rightarrow> 5 | NormPos \<Rightarrow> 6 | ModeNone \<Rightarrow> 7)"

text \<open>\<open>static_cast<MarkerLabelMode>(v.toInt())\<close> for the enum's values 0--7.\<close>

definition label_mode_of_int :: "int \<Rightarrow> marker_label_mode" where
  "label_mode_of_int i =
     (if i = 0 then AIUEON else if i = 1 then CV else if i = 2 then dBFS else if i = 3 then RelSum
      else if i = 4 then RelMax else if i = 5 then RelVowelSum else if i = 6 then NormPos else ModeNone)"

text \<open>Lines 194--201: \<open>itemData(row)\<close> is invalid outside the eight rows.\<close>

definition onLabelModeRow :: "int \<Rightarrow> window \<Rightarrow> window" where
  "onLabelModeRow row win =
     (if 0 \<le> row \<and> row < int (length label_modes)
      then win\<lparr>win_wave := snd (setMarkerLabelMode
                                   (label_mode_of_int (label_mode_code (label_modes ! nat row)))
                                   (win_wave win))\<rparr>
      else win)"

text \<open>
  The user picks row \<open>row\<close> of the label combo: \<open>QComboBox\<close> emits
  \<open>currentIndexChanged\<close> only when the row changes, and the handler of lines 194--201 runs.
\<close>

definition onLabelCombo :: "int \<Rightarrow> window \<Rightarrow> window" where
  "onLabelCombo row win = (if row = label_row win then win else onLabelModeRow row (win\<lparr>label_row := row\<rparr>))"

text \<open>
  A click on the silence check box toggles it and emits \<open>toggled(on)\<close> with the new state,
  which the handler of lines 211--214 copies into \<open>isApplySilenceCorrection\<close>.
\<close>

definition onSilenceToggled :: "window \<Rightarrow> window" where
  "onSilenceToggled win =
     (let on = \<not> silence_checked win
      in win\<lparr>silence_checked := on, win_an := toggle_silence_correction on (win_an win)\<rparr>)"

text \<open>Lines 207 and 18--23: a player position moves the playhead and the slider.\<close>

definition onPlayerPosition :: "int \<Rightarrow> window \<Rightarrow> window" where
  "onPlayerPosition ms win =
     win\<lparr>win_wave := on_position_changed ms (win_wave win),
         slider_value := qBound 0 (wrap32 ms) (slider_max win)\<rparr>"

text \<open>Lines 25--35 and 207: at the end of the media the playhead and the slider go to 0.\<close>

definition onMediaStatus :: "media_status \<Rightarrow> window \<Rightarrow> window" where
  "onMediaStatus st win =
     (if st = EndOfMedia
      then win\<lparr>win_wave := on_media_status st (win_wave win), slider_value := 0\<rparr>
      else win)"

text \<open>
  Lines 246--257: the file written for the path the dialog returned (empty when
  cancelled), with the loaded WAV path in its header; \<open>None\<close> when nothing is written.
\<close>

definition onExportADXLip :: "string \<Rightarrow> bool \<Rightarrow> window \<Rightarrow> string option" where
  "onExportADXLip outPath canOpen win =
     (if outPath = [] then None else exportToFile canOpen (loadedWavPath win) (adxFrames (win_an win)))"

text \<open>Lines 374--390: the transport buttons (their status-bar messages change no state).\<close>

definition onPlay :: "window \<Rightarrow> window" where
  "onPlay win = win\<lparr>win_wave := startPlayback (win_wave win)\<rparr>"

definition onPause :: "window \<Rightarrow> window" where
  "onPause win = win\<lparr>win_wave := pausePlayback (win_wave win)\<rparr>"

definition onStop :: "window \<Rightarrow> window" where
  "onStop win = win\<lparr>win_wave := stopPlayback (win_wave win)\<rparr>"

text \<open>Line 210: dragging the slider to \<open>v\<close> (a value inside its range) seeks the player.\<close>

definition onSliderMoved :: "int \<Rightarrow> window \<Rightarrow> window" where
  "onSliderMoved v win = win\<lparr>slider_value := v, win_wave := seek v (win_wave win)\<rparr>"

text \<open>An edit committed to a table cell the view addressed (\<open>ADXLipModel::setData\<close>).\<close>

definition onCellEdit :: "int \<Rightarrow> int \<Rightarrow> qvariant \<Rightarrow> window \<Rightarrow> window" where
  "onCellEdit r c v win =
     (case setData (model_index \<lparr>model_frames = adxFrames (win_an win)\<rparr> r c) v EditRole
             \<lparr>model_frames = adxFrames (win_an win)\<rparr> of
        Some (_, m') \<Rightarrow> win\<lparr>win_an := (win_an win)\<lparr>adxFrames := model_frames m'\<rparr>\<rparr>
      | None \<Rightarrow> win)"

text \<open>Lines 460--463: the frame shift and sample period passed to Julius (\<open>None\<close>: division by zero).\<close>

definition julius_fshift :: "int \<Rightarrow> int" where
  "julius_fshift rate = trunc_int (real_of_int rate * (1 / 100))"

definition julius_period :: "int \<Rightarrow> int option" where
  "julius_period rate = (if rate = 0 then None else Some (trunc_int (10000000 / real_of_int rate)))"

inductive win_step :: "window \<Rightarrow> window \<Rightarrow> bool" where
  load: "win_step win (onLoadWav path r win)"
| run: "win_step win (onRunJulius win)"
| julius_output: "win_step win (onJuliusOutput chunk win)"
| toggle: "win_step win (onSilenceToggled win)"
| label: "0 \<le> row \<Longrightarrow> row < int (length label_modes) \<Longrightarrow> win_step win (onLabelCombo row win)"
| position: "win_step win (onPlayerPosition ms win)"
| status: "win_step win (onMediaStatus st win)"
| import_track: "win_step win (win\<lparr>win_an := onImportADXLip fr (win_an win)\<rparr>)"
| edit: "win_step win (onCellEdit r c v win)"
| play: "win_step win (onPlay win)"
| pause: "win_step win (onPause win)"
| stop: "win_step win (onStop win)"
| slider: "0 \<le> v \<Longrightarrow> v \<le> slider_max win \<Longrightarrow> win_step win (onSliderMoved v win)"

inductive win_reachable :: "window \<Rightarrow> bool" where
  init: "win_reachable init_window"
| step: "win_reachable win \<Longrightarrow> win_step win win' \<Longrightarrow> win_reachable win'"

text \<open>
  The window invariant: the parser invariant, the widget's view invariant, the widget
  shows the markers of the last processed block, and the slider value lies in its range.
\<close>

definition win_inv :: "window \<Rightarrow> bool" where
  "win_inv win \<longleftrightarrow>
     parser_inv (win_an win) \<and> wf_inv (win_wave win) \<and>
     wf_markers (win_wave win) = widgetMarkers (win_an win) \<and>
     0 \<le> slider_value win \<and> slider_value win \<le> slider_max win \<and>
     silence_checked win = isApplySilenceCorrection (win_an win) \<and>
     0 \<le> label_row win \<and> label_row win < int (length label_modes) \<and>
     wf_labelMode (win_wave win) = label_modes ! nat (label_row win)"

subsection \<open>Properties\<close>

lemma slider_total_ms_exact:
  assumes "0 \<le> totalSamples" "totalSamples * 1000 \<le> int32_max" "0 < rate"
  shows "slider_total_ms totalSamples rate = totalSamples * 1000 div rate"
proof -
  have "in_int32 (totalSamples * 1000)" using assms(1,2) by (simp add: in_int32_def int32_min_def)
  then show ?thesis
    using assms by (simp add: slider_total_ms_def signed_divide_int_def sgn_if abs_of_nonneg)
qed

lemma label_mode_roundtrip: "label_mode_of_int (label_mode_code m) = m"
  by (cases m) (simp_all add: label_mode_code_def label_mode_of_int_def)

lemma onLabelModeRow_selects:
  "0 \<le> row \<Longrightarrow> row < 8 \<Longrightarrow> wf_labelMode (win_wave (onLabelModeRow row win)) = label_modes ! nat row"
  by (simp add: onLabelModeRow_def label_modes_def label_mode_roundtrip setMarkerLabelMode_def)

text \<open>C32: The frame shift passed to Julius, int(rate * 0.01), equals the 160 samples the marker windows assume exactly for sample rates in [16000, 16100).\<close>

lemma julius_fshift_160:
  assumes "0 \<le> rate"
  shows "julius_fshift rate = FRAME_SHIFT_SAMPLES \<longleftrightarrow> 16000 \<le> rate \<and> rate < 16100"
proof -
  have "julius_fshift rate = \<lfloor>real_of_int rate / 100\<rfloor>"
    using assms by (simp add: julius_fshift_def trunc_int_def)
  also have "\<dots> = rate div 100" by (metis floor_divide_of_int_eq of_int_numeral)
  finally show ?thesis by (auto simp: FRAME_SHIFT_SAMPLES_def)
qed

lemma wf_inv_load: "wf_inv (snd (loadFromFile path r wv))"
  by (auto simp: wf_inv_def loadFromFile_def totalSampleCount_def Let_def split: sf_result.splits)

lemma loadFromFile_markers:
  "wf_markers (snd (loadFromFile path r wv)) = wf_markers wv \<and>
   wf_labelMode (snd (loadFromFile path r wv)) = wf_labelMode wv"
  by (simp add: loadFromFile_def Let_def split: sf_result.splits)

lemma parse_lines_flag:
  "isApplySilenceCorrection (parse_lines w st ls) = isApplySilenceCorrection st"
  by (induction ls arbitrary: st) (simp_all add: parse_lines_def parse_keeps_correction_flag)

lemma length_label_modes [simp]: "length label_modes = 8"
  by (simp add: label_modes_def)

lemma parse_lines_inv: "parser_inv st \<Longrightarrow> parser_inv (parse_lines w st ls)"
  by (induction ls arbitrary: st) (simp_all add: parse_lines_def parse_preserves_inv)

lemma parser_inv_adxFrames: "parser_inv (st\<lparr>adxFrames := fs\<rparr>) = parser_inv st"
  by (simp add: parser_inv_def)

lemma win_inv_player:
  "win_inv (win\<lparr>win_wave := (win_wave win)\<lparr>wf_player := p\<rparr>\<rparr>) = win_inv win"
  by (simp add: win_inv_def wf_inv_def totalSampleCount_def)

lemma loadFromFile_failed_player:
  "\<not> fst (loadFromFile path r wv) \<Longrightarrow> wf_player (snd (loadFromFile path r wv)) = wf_player wv"
  by (auto simp: loadFromFile_def Let_def split: sf_result.splits if_splits)

lemma update_slider_inv:
  "slider_value (updateSliderRangeFromWave win) = 0 \<and> 0 \<le> slider_max (updateSliderRangeFromWave win) \<and>
   win_an (updateSliderRangeFromWave win) = win_an win \<and> win_wave (updateSliderRangeFromWave win) = win_wave win \<and>
   silence_checked (updateSliderRangeFromWave win) = silence_checked win \<and>
   label_row (updateSliderRangeFromWave win) = label_row win"
  by (simp add: updateSliderRangeFromWave_def Let_def)

lemma win_step_inv: "win_step win win' \<Longrightarrow> win_inv win \<Longrightarrow> win_inv win'"
proof (induction rule: win_step.induct)
  case (load win path r)
  obtain ok wv' where l: "loadFromFile path r (win_wave win) = (ok, wv')" by (cases "loadFromFile path r (win_wave win)")
  have "wf_inv wv'" "wf_markers wv' = wf_markers (win_wave win)" "wf_labelMode wv' = wf_labelMode (win_wave win)"
    using wf_inv_load[of path r "win_wave win"] loadFromFile_markers[of path r "win_wave win"] l by simp_all
  then show ?case
    using load.prems l update_slider_inv
    by (auto simp: win_inv_def onLoadWav_def Let_def)
next
  case (run win)
  then show ?case
    by (auto simp: win_inv_def onRunJulius_def onRunJulius_reset_def parser_inv_def)
next
  case (julius_output win chunk)
  then show ?case
    by (auto simp: win_inv_def onJuliusOutput_def on_stdout_chunk_def Let_def parse_lines_inv
        parse_lines_flag setVowelMarkers_def wf_inv_def totalSampleCount_def)
next
  case (toggle win)
  then show ?case
    by (auto simp: win_inv_def onSilenceToggled_def toggle_silence_correction_def parser_inv_def)
next
  case (label row win)
  have "wf_labelMode (win_wave (onLabelModeRow row (win\<lparr>label_row := row\<rparr>))) = label_modes ! nat row"
    using label.hyps by (simp add: onLabelModeRow_selects)
  then show ?case
    using label
    by (auto simp: win_inv_def onLabelCombo_def onLabelModeRow_def setMarkerLabelMode_def wf_inv_def
        totalSampleCount_def)
next
  case (position win ms)
  then show ?case
    by (auto simp: win_inv_def onPlayerPosition_def on_position_changed_def wf_inv_def totalSampleCount_def
        qBound_def)
next
  case (status win st)
  then show ?case
    by (auto simp: win_inv_def onMediaStatus_def on_media_status_def wf_inv_def totalSampleCount_def)
next
  case (import_track win fr)
  then show ?case
    by (auto simp: win_inv_def onImportADXLip_def parser_inv_adxFrames split: file_result.splits)
next
  case (edit win r c v)
  then show ?case
    by (auto simp: win_inv_def onCellEdit_def parser_inv_adxFrames split: option.splits prod.splits)
next
  case (play win)
  then show ?case using win_inv_player by (simp add: onPlay_def startPlayback_def)
next
  case (pause win)
  then show ?case using win_inv_player by (simp add: onPause_def pausePlayback_def)
next
  case (stop win)
  then show ?case using win_inv_player by (simp add: onStop_def stopPlayback_def)
next
  case (slider v win)
  then show ?case by (auto simp: win_inv_def onSliderMoved_def seek_def wf_inv_def totalSampleCount_def)
qed

text \<open>C2: Every state the whole window reaches from its constructor, through WAV loads, Julius runs and output chunks, clicks on the silence check box, rows picked in the label combo, player position and status events, transport buttons and slider drags, track imports and cell edits, keeps the parser invariant and the widget's view-offset invariant, shows on the waveform exactly the markers of the last processed block, keeps the slider value inside the slider range, keeps the check box equal to isApplySilenceCorrection, and keeps the combo's row naming the widget's label mode.\<close>

lemma win_reachable_inv: "win_reachable win \<Longrightarrow> win_inv win"
proof (induction rule: win_reachable.induct)
  case init
  show ?case
    by (simp add: win_inv_def init_window_def parser_inv_def init_analyzer_def wf_inv_def init_waveform_def
        totalSampleCount_def label_modes_def)
next
  case (step win win')
  then show ?case by (blast intro: win_step_inv)
qed

lemma length_downmix: "length (downmix nch nframes buf) = nframes"
  by (simp add: downmix_def)

lemma onLoadWav_failure:
  assumes "path \<noteq> []" "\<not> fst (loadFromFile path r (win_wave win))"
  shows "loadedWavPath (onLoadWav path r win) = path \<and> wf_samples (win_wave (onLoadWav path r win)) = [] \<and>
         slider_max (onLoadWav path r win) = slider_max win \<and>
         win_an (onRunJulius (onLoadWav path r win)) = (win_an win)\<lparr>vowelMarkers := []\<rparr>"
proof -
  obtain wv' where l: "loadFromFile path r (win_wave win) = (False, wv')"
    using assms(2) by (cases "loadFromFile path r (win_wave win)") auto
  have "wf_samples wv' = []"
    using l by (auto simp: loadFromFile_def Let_def split: sf_result.splits if_splits)
  then show ?thesis
    using assms(1) l by (simp add: onLoadWav_def onRunJulius_def onRunJulius_reset_def)
qed

text \<open>C30: Loading a 60-second 48 kHz WAV overflows totalSamples * 1000 in 32-bit int arithmetic, so the position slider's range collapses to [0, 0].\<close>

lemma onLoadWav_long_48k:
  assumes "path \<noteq> []" "0 < readcount"
  shows "slider_max (onLoadWav path (SfOpened 48000 nch 2880000 readcount got) win) = 0"
proof -
  have "slider_total_ms 2880000 48000 = -29478"
    by (simp add: slider_total_ms_def wrap32_def signed_divide_int_def)
  then show ?thesis
    using assms
    by (simp add: onLoadWav_def loadFromFile_def updateSliderRangeFromWave_def totalSampleCount_def
        length_downmix)
qed

lemma window_export_import:
  assumes "onExportADXLip outPath True win = Some content"
    and "CHR ''\<newline>'' \<notin> set (loadedWavPath win)"
    and "\<forall>f\<in>set (adxFrames (win_an win)). in_int32 (frameIndex f) \<and> in_int32 (msec f)"
  shows "adxFrames (onImportADXLip (Opened content) st) = map quantize_frame (adxFrames (win_an win))"
proof -
  have "content = export_header (loadedWavPath win) @ concat (map export_row (adxFrames (win_an win)))"
    using assms(1) by (simp add: onExportADXLip_def exportToFile_def split: if_splits)
  then show ?thesis using import_frames_export[OF assms(2,3)] by (simp add: onImportADXLip_def)
qed

text \<open>C33: A WAV load that fails leaves the media player's source at the previously loaded file while the widget's samples are empty and loadedWavPath names the new file, so Play then plays the old audio (if there was one) for a WAV that is not shown and that Run Julius will analyse.\<close>

lemma onPlay_after_failed_load:
  assumes "path \<noteq> []" "\<not> fst (loadFromFile path r (win_wave win))"
  shows "mp_source (wf_player (win_wave (onPlay (onLoadWav path r win)))) = mp_source (wf_player (win_wave win)) \<and>
         mp_state (wf_player (win_wave (onPlay (onLoadWav path r win)))) =
           (if mp_source (wf_player (win_wave win)) = [] then mp_state (wf_player (win_wave win)) else PlayingState) \<and>
         wf_samples (win_wave (onPlay (onLoadWav path r win))) = [] \<and>
         loadedWavPath (onPlay (onLoadWav path r win)) = path"
proof -
  obtain wv' where l: "loadFromFile path r (win_wave win) = (False, wv')"
    using assms(2) by (cases "loadFromFile path r (win_wave win)") auto
  have "wf_player wv' = wf_player (win_wave win)" "wf_samples wv' = []"
    using loadFromFile_failed_player[OF assms(2)] l
    by (auto simp: loadFromFile_def Let_def split: sf_result.splits if_splits)
  then show ?thesis
    using assms(1) l by (simp add: onLoadWav_def onPlay_def startPlayback_def mp_play_def)
qed

subsection \<open>Witnesses\<close>

lemma win_reachable_inv_witness:
  "win_reachable (onLabelCombo 1 init_window) \<and>
   wf_markers (win_wave (onLabelCombo 1 init_window)) = widgetMarkers (win_an (onLabelCombo 1 init_window)) \<and>
   slider_value (onLabelCombo 1 init_window) \<le> slider_max (onLabelCombo 1 init_window) \<and>
   wf_labelMode (win_wave (onLabelCombo 1 init_window)) = label_modes ! nat (label_row (onLabelCombo 1 init_window))"
proof -
  have r: "win_reachable (onLabelCombo 1 init_window)"
    by (rule win_reachable.step[OF win_reachable.init win_step.label]) simp_all
  from win_reachable_inv[OF r] r show ?thesis by (simp add: win_inv_def)
qed

lemma onLoadWav_long_48k_witness:
  "''a.wav'' \<noteq> [] \<and> (0::int) < 1 \<and> slider_max (onLoadWav ''a.wav'' (SfOpened 48000 1 2880000 1 []) init_window) = 0"
  using onLoadWav_long_48k[of "''a.wav''" 1 1 "[]" init_window] by simp

lemma julius_fshift_160_witness:
  "(0::int) \<le> 44100 \<and> julius_fshift 44100 \<noteq> FRAME_SHIFT_SAMPLES"
  using julius_fshift_160[of 44100] by simp

lemma onPlay_after_failed_load_witness:
  "mp_source (wf_player (win_wave (onPlay (onLoadWav ''b.wav'' SfOpenFailed
      (onLoadWav ''a.wav'' (SfOpened 16000 1 1 1 [0]) init_window))))) = ''a.wav'' \<and>
   mp_state (wf_player (win_wave (onPlay (onLoadWav ''b.wav'' SfOpenFailed
      (onLoadWav ''a.wav'' (SfOpened 16000 1 1 1 [0]) init_window))))) = PlayingState \<and>
   loadedWavPath (onPlay (onLoadWav ''b.wav'' SfOpenFailed
      (onLoadWav ''a.wav'' (SfOpened 16000 1 1 1 [0]) init_window))) = ''b.wav''"
proof -
  let ?w = "onLoadWav ''a.wav'' (SfOpened 16000 1 1 1 [0]) init_window"
  have src: "mp_source (wf_player (win_wave ?w)) = ''a.wav''"
    by (simp add: onLoadWav_def loadFromFile_def updateSliderRangeFromWave_def mp_setSource_def Let_def)
  have "\<not> fst (loadFromFile ''b.wav'' SfOpenFailed (win_wave ?w))" by (simp add: loadFromFile_def)
  from onPlay_after_failed_load[OF _ this] src show ?thesis by simp
qed

end
