(* ===== verification/LogDecode.thy ===== *)
theory LogDecode
  imports AlignmentParser
begin

text \<open>
  Decoding of Julius's output (\<open>JuliusAnalyzeWindow.cpp\<close> lines 35--57, 412--426 and
  494). The byte-level decoders the code calls, \<open>QString::fromUtf8\<close>,
  \<open>MultiByteToWideChar(932, \<dots>)\<close>, \<open>QString::fromLocal8Bit\<close> and
  \<open>QString::toLocal8Bit\<close>, are library functions; they form the interface record
  \<open>codec\<close>, and every lemma holds for any codec satisfying its hypotheses. Characters are
  eight-bit, so whether \<open>fromUtf8\<close> produced \<open>QChar::ReplacementCharacter\<close> is the
  interface's own predicate \<open>utf8_replaced\<close>. \<open>ascii_codec\<close> states that the codec
  keeps ASCII text as it is; \<open>latin1_codec\<close> is a concrete codec that does. The main lemma
  shows that the stdout handler, run on the raw bytes with the decoding the code does,
  is \<open>on_stdout_chunk\<close> of the local 8-bit text whenever that text is ASCII, which
  Julius's alignment lines are.
\<close>

type_synonym bytes = "8 word list"

text \<open>
  \<open>multiByteToWide\<close> is the text of the two \<open>MultiByteToWideChar\<close> calls, \<open>None\<close> when
  the length call returns \<open>wlen <= 0\<close>.
\<close>

record codec =
  fromUtf8 :: "bytes \<Rightarrow> string"
  utf8_replaced :: "bytes \<Rightarrow> bool"
  multiByteToWide :: "bytes \<Rightarrow> string option"
  fromLocal8Bit :: "bytes \<Rightarrow> string"
  toLocal8Bit :: "string \<Rightarrow> bytes"

text \<open>Lines 35--45.\<close>

definition decodeCp932 :: "codec \<Rightarrow> bytes \<Rightarrow> string" where
  "decodeCp932 cd raw =
     (if raw = [] then []
      else (case multiByteToWide cd raw of None \<Rightarrow> fromLocal8Bit cd raw | Some w \<Rightarrow> w))"

text \<open>Lines 48--57.\<close>

definition decodeJuliusLog :: "codec \<Rightarrow> bytes \<Rightarrow> string" where
  "decodeJuliusLog cd raw =
     (let text = fromUtf8 cd raw
      in if utf8_replaced cd raw \<or> trimmed text = [] then decodeCp932 cd raw else text)"

text \<open>Line 494: the line \<open>parseForcedAlignment\<close> goes on with.\<close>

definition decoded_line :: "codec \<Rightarrow> string \<Rightarrow> string" where
  "decoded_line cd rawLine = trimmed (decodeJuliusLog cd (toLocal8Bit cd rawLine))"

text \<open>
  Line 494 followed by the rest of \<open>parseForcedAlignment\<close>, which the model
  \<open>parseForcedAlignment\<close> gives from the decoded line (its first step trims again, which
  changes nothing).
\<close>

definition parse_raw_line :: "codec \<Rightarrow> wave \<Rightarrow> analyzer \<Rightarrow> string \<Rightarrow> analyzer" where
  "parse_raw_line cd w st rawLine = parseForcedAlignment w st (decodeJuliusLog cd (toLocal8Bit cd rawLine))"

text \<open>
  Lines 412--426: the \<open>readyReadStandardOutput\<close> handler on the bytes read, splitting the
  local 8-bit text and parsing each line (the status-bar display of lines 416--420 changes
  no state of the model).
\<close>

definition stdout_chunk_bytes :: "codec \<Rightarrow> wave \<Rightarrow> analyzer \<Rightarrow> bytes \<Rightarrow> analyzer" where
  "stdout_chunk_bytes cd w st raw =
     foldl (parse_raw_line cd w) st (split_skip_empty (\<lambda>c. c = CHR ''\<newline>'') (fromLocal8Bit cd raw))"

text \<open>
  The status bar's message after a chunk: lines 415--419 show the decoded standard
  output unless it is empty; lines 429--433 always show the decoded standard error, so
  an empty one clears the message.
\<close>

definition stdout_status :: "codec \<Rightarrow> bytes \<Rightarrow> string \<Rightarrow> string" where
  "stdout_status cd raw status = (let disp = decodeJuliusLog cd raw in if disp = [] then status else disp)"

definition stderr_status :: "codec \<Rightarrow> bytes \<Rightarrow> string \<Rightarrow> string" where
  "stderr_status cd raw status = decodeJuliusLog cd raw"

subsection \<open>ASCII-preserving codecs\<close>

definition is_ascii :: "char \<Rightarrow> bool" where
  "is_ascii c = (of_char c < (128::nat))"

definition ascii_codec :: "codec \<Rightarrow> bool" where
  "ascii_codec cd =
     (\<forall>s. list_all is_ascii s \<longrightarrow>
        fromUtf8 cd (toLocal8Bit cd s) = s \<and> \<not> utf8_replaced cd (toLocal8Bit cd s) \<and>
        multiByteToWide cd (toLocal8Bit cd s) \<in> {None, Some s} \<and>
        fromLocal8Bit cd (toLocal8Bit cd s) = s)"

definition byte_of :: "char \<Rightarrow> 8 word" where
  "byte_of c = word_of_nat (of_char c)"

definition char_of_byte :: "8 word \<Rightarrow> char" where
  "char_of_byte b = char_of (unat b)"

definition latin1_codec :: codec where
  "latin1_codec =
     \<lparr>fromUtf8 = map char_of_byte, utf8_replaced = (\<lambda>bs. \<exists>b\<in>set bs. 128 \<le> unat b),
      multiByteToWide = (\<lambda>bs. if bs = [] then None else Some (map char_of_byte bs)),
      fromLocal8Bit = map char_of_byte, toLocal8Bit = map byte_of\<rparr>"

subsection \<open>Properties\<close>

lemma parseForcedAlignment_trimmed_cong:
  "trimmed x = trimmed y \<Longrightarrow> parseForcedAlignment w st x = parseForcedAlignment w st y"
  by (simp add: parseForcedAlignment_def)

lemma decodeCp932_trimmed:
  assumes "ascii_codec cd" "list_all is_ascii s" "trimmed s = []"
  shows "trimmed (decodeCp932 cd (toLocal8Bit cd s)) = []"
  using assms by (auto simp: decodeCp932_def ascii_codec_def split: option.splits)

lemma decoded_line_ascii:
  assumes "ascii_codec cd" "list_all is_ascii rawLine"
  shows "decoded_line cd rawLine = trimmed rawLine"
proof (cases "trimmed rawLine = []")
  case True
  then show ?thesis using assms
    by (simp add: decoded_line_def decodeJuliusLog_def Let_def decodeCp932_trimmed ascii_codec_def)
next
  case False
  then show ?thesis using assms by (simp add: decoded_line_def decodeJuliusLog_def ascii_codec_def)
qed

lemma parse_raw_line_ascii:
  assumes "ascii_codec cd" "list_all is_ascii l"
  shows "parse_raw_line cd w st l = parseForcedAlignment w st l"
proof -
  have "trimmed (decodeJuliusLog cd (toLocal8Bit cd l)) = trimmed l"
    using decoded_line_ascii[OF assms] by (simp add: decoded_line_def)
  then show ?thesis unfolding parse_raw_line_def by (rule parseForcedAlignment_trimmed_cong)
qed

lemma stdout_chunk_bytes_refines:
  assumes "ascii_codec cd" "list_all is_ascii (fromLocal8Bit cd raw)"
  shows "stdout_chunk_bytes cd w st raw = on_stdout_chunk w st (fromLocal8Bit cd raw)"
proof -
  let ?ls = "split_skip_empty (\<lambda>c. c = CHR ''\<newline>'') (fromLocal8Bit cd raw)"
  have "list_all is_ascii l" if "l \<in> set ?ls" for l
    using that assms(2) split_keep_set by (fastforce simp: split_skip_empty_def list_all_iff)
  then have "foldl (parse_raw_line cd w) st ?ls = foldl (parseForcedAlignment w) st ?ls"
    using parse_raw_line_ascii[OF assms(1)] by (intro foldl_cong) auto
  then show ?thesis by (simp add: stdout_chunk_bytes_def on_stdout_chunk_def parse_lines_def)
qed

lemma char_of_byte_of [simp]: "char_of_byte (byte_of c) = c"
proof -
  have "of_char c < (256::nat)" by (rule nat_of_char_less_256)
  then show ?thesis by (simp add: char_of_byte_def byte_of_def unat_of_nat)
qed

lemma unat_byte_of: "unat (byte_of c) = of_char c"
proof -
  have "of_char c < (256::nat)" by (rule nat_of_char_less_256)
  then show ?thesis by (simp add: byte_of_def unat_of_nat)
qed

lemma latin1_codec_ascii: "ascii_codec latin1_codec"
  by (auto simp: ascii_codec_def latin1_codec_def comp_def map_idI list_all_iff is_ascii_def unat_byte_of)

lemma decoded_line_example: "decoded_line latin1_codec '' [ 1 2] a '' = ''[ 1 2] a''"
proof -
  have "list_all is_ascii '' [ 1 2] a ''" by (simp add: is_ascii_def)
  with decoded_line_ascii[OF latin1_codec_ascii] show ?thesis by (simp add: trimmed_def is_space_def)
qed

lemma stdout_chunk_bytes_refines_witness:
  "stdout_chunk_bytes latin1_codec example_wave init_analyzer (map byte_of ''[ 1 2] a\<newline>'') =
   on_stdout_chunk example_wave init_analyzer ''[ 1 2] a\<newline>''"
proof -
  have "list_all is_ascii (fromLocal8Bit latin1_codec (map byte_of ''[ 1 2] a\<newline>''))"
    by (simp add: latin1_codec_def comp_def is_ascii_def)
  from stdout_chunk_bytes_refines[OF latin1_codec_ascii this] show ?thesis
    by (simp add: latin1_codec_def comp_def)
qed

end
