(* ===== verification/JuliusRun.thy ===== *)
theory JuliusRun
  imports Window
begin

text \<open>
  Starting Julius (\<open>JuliusAnalyzeWindow::onRunJulius\<close>, \<open>JuliusAnalyzeWindow.cpp\<close> lines
  396--489). After the guard on the loaded path and the marker reset (\<open>onRunJulius\<close> of
  \<open>Window\<close>), the handler locates Julius and its three configuration files two directories
  above the application directory, refuses to start when one of them is missing, builds
  the command line from the widget's sample rate, starts the process and writes the WAV
  path to its standard input. The file system and \<open>QProcess\<close> are inputs: whether a
  path exists, and whether \<open>waitForStarted\<close> succeeded. A directory is the list of its
  path components.
\<close>

record launch =
  launch_program :: string
  launch_args :: "string list"
  launch_started :: bool
  launch_stdin :: string

text \<open>
  What the handler ends with: refused for want of a WAV, refused for a missing file,
  undefined behaviour in \<open>int(10000000.0 / rate)\<close> (a double outside the range of
  \<open>int\<close>), or the process launched.
\<close>

datatype run_outcome = WavNotLoaded | FileNotFound string | PeriodUndefined | Launched launch

text \<open>\<open>QDir::cdUp\<close>: the parent directory; the root stays where it is.\<close>

definition cdUp :: "string list \<Rightarrow> string list" where
  "cdUp d = (if d = [] then d else butlast d)"

text \<open>\<open>QDir::filePath\<close> of a relative path.\<close>

definition filePath :: "string list \<Rightarrow> string \<Rightarrow> string" where
  "filePath d f = concat (map (\<lambda>c. c @ ''/'') d) @ f"

text \<open>Lines 439--449: the executable and the three configuration files.\<close>

definition julius_files :: "string list \<Rightarrow> string list" where
  "julius_files appDir =
     (let baseDir = cdUp (cdUp appDir)
      in [filePath baseDir ''thirdparty/julius-4.6-win32/bin/julius.exe'',
          filePath baseDir ''thirdparty/dictation-kit/main.jconf'',
          filePath baseDir ''thirdparty/dictation-kit/am-dnn.jconf'',
          filePath baseDir ''thirdparty/dictation-kit/julius.dnnconf''])"

text \<open>Lines 461--472: the argument list, with the shift and period of lines 462--463.\<close>

definition julius_args :: "string \<Rightarrow> string \<Rightarrow> string \<Rightarrow> int \<Rightarrow> string list option" where
  "julius_args mainJconf amDnnJconf dnnConf rate =
     (case julius_period rate of
        None \<Rightarrow> None
      | Some period \<Rightarrow>
          Some [''-C'', mainJconf, ''-C'', amDnnJconf, ''-dnnconf'', dnnConf,
                ''-smpFreq'', show_int rate, ''-smpPeriod'', show_int period,
                ''-fshift'', show_int (julius_fshift rate), ''-input'', ''file''])"

text \<open>
  Lines 396--489 (the file check is lines 452--457). \<open>exists\<close> is \<open>QFile::exists\<close>, \<open>started\<close> the result of
  \<open>waitForStarted\<close>. The file check runs after the markers are cleared; a failed start
  shows an error but does not return, so the WAV path is written to standard input in
  either case.
\<close>

definition run_julius :: "string list \<Rightarrow> (string \<Rightarrow> bool) \<Rightarrow> bool \<Rightarrow> window \<Rightarrow> run_outcome \<times> window" where
  "run_julius appDir exists started win =
     (if loadedWavPath win = [] then (WavNotLoaded, win)
      else (let win' = onRunJulius win; fs = julius_files appDir
            in case find (\<lambda>p. \<not> exists p) fs of
                 Some p \<Rightarrow> (FileNotFound p, win')
               | None \<Rightarrow>
                   (case julius_args (fs ! 1) (fs ! 2) (fs ! 3) (wf_sampleRate (win_wave win)) of
                      None \<Rightarrow> (PeriodUndefined, win')
                    | Some args \<Rightarrow>
                        (Launched \<lparr>launch_program = fs ! 0, launch_args = args, launch_started = started,
                                   launch_stdin = loadedWavPath win @ ''\<newline>''\<rparr>, win'))))"

subsection \<open>Properties\<close>

lemma loadFromFile_open_failed_rate: "wf_sampleRate (snd (loadFromFile path SfOpenFailed wv)) = 0"
  by (simp add: loadFromFile_def)

text \<open>C31: After a WAV whose open fails, the path is stored and the sample rate is 0, so Run Julius passes its guard, clears the markers and, with Julius's files present, reaches int(10000000.0 / 0), a conversion with undefined behaviour, instead of refusing to run.\<close>

lemma run_julius_after_failed_open:
  assumes "path \<noteq> []" "\<forall>p\<in>set (julius_files appDir). exists p"
  shows "fst (run_julius appDir exists started (onLoadWav path SfOpenFailed win)) = PeriodUndefined \<and>
         win_an (snd (run_julius appDir exists started (onLoadWav path SfOpenFailed win))) =
           (win_an win)\<lparr>vowelMarkers := []\<rparr>"
proof -
  let ?w = "onLoadWav path SfOpenFailed win"
  have w: "loadedWavPath ?w = path" "wf_sampleRate (win_wave ?w) = 0" "win_an ?w = win_an win"
    using assms(1) by (simp_all add: onLoadWav_def loadFromFile_def)
  have "find (\<lambda>p. \<not> exists p) (julius_files appDir) = None"
    using assms(2) by (simp add: find_None_iff)
  then show ?thesis
    using assms(1) w
    by (simp add: run_julius_def julius_args_def julius_period_def onRunJulius_def onRunJulius_reset_def Let_def)
qed

lemma run_julius_launch:
  assumes "loadedWavPath win \<noteq> []" "\<forall>p\<in>set (julius_files appDir). exists p"
    and "wf_sampleRate (win_wave win) = rate" "rate \<noteq> 0"
  shows "run_julius appDir exists started win =
           (Launched \<lparr>launch_program = julius_files appDir ! 0,
                      launch_args = [''-C'', julius_files appDir ! 1, ''-C'', julius_files appDir ! 2,
                                     ''-dnnconf'', julius_files appDir ! 3, ''-smpFreq'', show_int rate,
                                     ''-smpPeriod'', show_int (trunc_int (10000000 / real_of_int rate)),
                                     ''-fshift'', show_int (julius_fshift rate), ''-input'', ''file''],
                      launch_started = started, launch_stdin = loadedWavPath win @ ''\<newline>''\<rparr>,
            win\<lparr>win_an := (win_an win)\<lparr>vowelMarkers := []\<rparr>\<rparr>)"
proof -
  have "find (\<lambda>p. \<not> exists p) (julius_files appDir) = None"
    using assms(2) by (simp add: find_None_iff)
  then show ?thesis
    using assms(1,3,4)
    by (simp add: run_julius_def julius_args_def julius_period_def onRunJulius_def onRunJulius_reset_def Let_def)
qed

lemma run_julius_missing_file:
  assumes "loadedWavPath win \<noteq> []" "p \<in> set (julius_files appDir)" "\<not> exists p"
  shows "\<exists>q. \<not> exists q \<and> q \<in> set (julius_files appDir) \<and>
             run_julius appDir exists started win = (FileNotFound q, win\<lparr>win_an := (win_an win)\<lparr>vowelMarkers := []\<rparr>\<rparr>)"
proof -
  obtain q where "find (\<lambda>p. \<not> exists p) (julius_files appDir) = Some q"
    using assms(2,3) by (metis find_None_iff option.exhaust)
  moreover then have "\<not> exists q \<and> q \<in> set (julius_files appDir)"
    by (metis find_Some_iff nth_mem)
  ultimately show ?thesis
    using assms(1) by (simp add: run_julius_def onRunJulius_def onRunJulius_reset_def Let_def)
qed

lemma run_julius_after_failed_open_witness:
  "fst (run_julius [''C:'', ''app'', ''x64'', ''Release''] (\<lambda>_. True) True (onLoadWav ''a.wav'' SfOpenFailed init_window))
     = PeriodUndefined"
  using run_julius_after_failed_open[of "''a.wav''" "[''C:'', ''app'', ''x64'', ''Release'']" "\<lambda>_. True"]
  by simp

lemma run_julius_launch_witness:
  "run_julius [''C:'', ''app'', ''x64'', ''Release''] (\<lambda>_. True) False
     (init_window\<lparr>loadedWavPath := ''a.wav'', win_wave := init_waveform\<lparr>wf_sampleRate := 16000\<rparr>\<rparr>) =
   (Launched \<lparr>launch_program = ''C:/app/thirdparty/julius-4.6-win32/bin/julius.exe'',
              launch_args = [''-C'', ''C:/app/thirdparty/dictation-kit/main.jconf'',
                             ''-C'', ''C:/app/thirdparty/dictation-kit/am-dnn.jconf'',
                             ''-dnnconf'', ''C:/app/thirdparty/dictation-kit/julius.dnnconf'',
                             ''-smpFreq'', ''16000'', ''-smpPeriod'', ''625'', ''-fshift'', ''160'',
                             ''-input'', ''file''],
              launch_started = False, launch_stdin = ''a.wav\<newline>''\<rparr>,
    init_window\<lparr>loadedWavPath := ''a.wav'', win_wave := init_waveform\<lparr>wf_sampleRate := 16000\<rparr>,
                win_an := init_analyzer\<lparr>vowelMarkers := []\<rparr>\<rparr>)"
proof -
  have n: "trunc_int 625 = 625" "julius_fshift 16000 = 160"
    by (simp_all add: trunc_int_def julius_fshift_def)
  have s: "show_int 16000 = ''16000''" "show_int 625 = ''625''" "show_int 160 = ''160''"
    by (simp_all add: show_int_def show_nat.simps char_of_eq_iff)
  show ?thesis
    using run_julius_launch[of "init_window\<lparr>loadedWavPath := ''a.wav'', win_wave := init_waveform\<lparr>wf_sampleRate := 16000\<rparr>\<rparr>"
        "[''C:'', ''app'', ''x64'', ''Release'']" "\<lambda>_. True" 16000 False]
    by (simp add: n s julius_files_def cdUp_def filePath_def init_window_def)
qed

end
